theory Spec2Isabelle
  imports Main "HOL-Library.AList"
begin

section \<open>The multiplexed console bridge of the Starlight web interface\<close>

text \<open>
  Three scripts make up the console subsystem: \<^verbatim>\<open>console-manager.js\<close> (the registry of
  sessions and the tab bar), \<^verbatim>\<open>vnc-viewer.js\<close> (graphical sessions over an RFB client) and
  \<^verbatim>\<open>terminal.js\<close> (text sessions over a WebSocket and an xterm terminal). Their module-level
  variables, the part of the document they build, the objects they create and the callbacks
  they leave with the browser are gathered in one record; every function of the scripts
  becomes a function from state to state.

  A JavaScript \<^verbatim>\<open>Map\<close> iterates in insertion order and \<^verbatim>\<open>set\<close> on a present key keeps the
  key's place, so a \<^verbatim>\<open>Map\<close> is an association list handled with \<^const>\<open>AList.update\<close>,
  \<^const>\<open>AList.delete\<close> and \<^const>\<open>map_of\<close>.
\<close>

subsection \<open>Data\<close>

text \<open>
  The session object of \<^verbatim>\<open>openConsole\<close>. \<^verbatim>\<open>port\<close> and \<^verbatim>\<open>icon\<close> default to \<^verbatim>\<open>null\<close>, which is
  \<^const>\<open>None\<close>; \<^verbatim>\<open>instance\<close> refers to an RFB client or to a terminal by its address among
  the objects of its kind.
\<close>

record session =
  sess_id :: string
  sess_name :: string
  sess_type :: string
  sess_port :: "int option"
  sess_icon :: "string option"
  sess_instance :: "nat option"

text \<open>A tab button of the tab bar, as \<^verbatim>\<open>createTab\<close> builds it.\<close>

record tab =
  tab_sid :: string
  tab_name :: string
  tab_lxc :: bool
  tab_img :: "string option"
  tab_active :: bool

text \<open>
  The content pane of a session, as \<^verbatim>\<open>initVncSession\<close> and \<^verbatim>\<open>initTerminalSession\<close> build it. It
  holds the status indicator \<^verbatim>\<open>status-<id>\<close> and the surface \<^verbatim>\<open>canvas-<id>\<close> or
  \<^verbatim>\<open>terminal-<id>\<close>. Two elements may bear the same \<^verbatim>\<open>id\<close> attribute and still be two elements:
  \<open>cont_el\<close> is the number the pane got when it was created, and it tells the elements
  apart.
\<close>

record container =
  cont_el :: nat
  cont_sid :: string
  cont_kind :: string
  cont_title :: string
  cont_hidden :: bool
  status_text :: string
  status_class :: string

text \<open>The entries of \<^verbatim>\<open>vncSessions\<close> and of \<^verbatim>\<open>termSessions\<close>.\<close>

record vnc_info =
  vi_vmName :: string
  vi_port :: int
  vi_canvasContainerId :: string
  vi_statusElementId :: string

record term_info =
  ti_containerName :: string
  ti_terminalContainerId :: string
  ti_statusElementId :: string
  ti_resizeHandler :: bool

text \<open>
  The objects the scripts create. Each keeps what its event handlers captured: the
  session identifier, the target's name and the status element that was found when the
  session was launched (the number of its pane, or \<^const>\<open>None\<close> for \<^verbatim>\<open>null\<close>).
\<close>

record rfb_obj =
  rfb_sid :: string
  rfb_vmName :: string
  rfb_port :: int
  rfb_statusEl :: "nat option"
  rfb_disconnect_called :: bool

datatype term_op = Write string | Writeln string

record term_obj =
  term_written :: "term_op list"
  term_disposed :: bool

record sock_obj =
  ws_sid :: string
  ws_containerName :: string
  ws_terminal :: nat
  ws_statusEl :: "nat option"
  ws_close_called :: bool

text \<open>
  An \<^verbatim>\<open>async\<close> function that waits for the browser: \<^verbatim>\<open>launchVncInContainer\<close> (with
  \<^verbatim>\<open>initVncSession\<close> waiting for it) at \<^verbatim>\<open>await requestClipboardPermissions()\<close>, and the two
  control dispatchers at \<^verbatim>\<open>await window.API.apiCall(endpoint, 'POST')\<close>, each with its session
  identifier, its verb and the endpoint it built.
\<close>

datatype pending =
    AwaitClipboard string string int "nat option"
  | AwaitApiVnc string string string
  | AwaitApiTerminal string string string

text \<open>
  What the server answers to a request of \<^verbatim>\<open>apiCall\<close>. Either \<^verbatim>\<open>fetch\<close> fails with an error
  message, or there is a response with a status code and a body: empty, not to be read as
  JSON (or not to be read at all), or a JSON value. Of a JSON value \<^verbatim>\<open>apiCall\<close> and its
  callers only ask whether it is \<^verbatim>\<open>null\<close>, whether it is falsy, and what its \<^verbatim>\<open>status\<close> and
  its \<^verbatim>\<open>message\<close> are; each is given when it is a string.
\<close>

datatype json_value = JsonNull | JsonFalsy | JsonTruthy "string option" "string option"

datatype http_body = BodyEmpty | BodyUnparsable | BodyJson json_value

datatype http_outcome = FetchFailed string | HttpResponse nat http_body

text \<open>
  What \<^verbatim>\<open>apiCall\<close> resolves to, as far as \<^verbatim>\<open>result && result.status === 'success'\<close> can tell:
  \<^verbatim>\<open>null\<close> or another falsy value, or a truthy value with its \<^verbatim>\<open>status\<close>, when that is a string.
\<close>

datatype api_result = ApiNull | ApiObject "string option"

text \<open>
  What the page, the loaded libraries and the browser provide: the elements
  \<^verbatim>\<open>console-viewer\<close>, \<^verbatim>\<open>console-tabs\<close> and \<^verbatim>\<open>console-area\<close>, the globals \<^verbatim>\<open>window.RFB\<close>,
  \<^verbatim>\<open>Terminal\<close> and \<^verbatim>\<open>FitAddon\<close>, and the message of the \<^verbatim>\<open>TypeError\<close> that reading a property
  of \<^verbatim>\<open>null\<close> raises, which differs from browser to browser.
\<close>

record page =
  has_viewer :: bool
  has_tab_bar :: bool
  has_area :: bool
  lib_rfb :: bool
  lib_terminal :: bool
  lib_fitaddon :: bool
  null_property_error :: string

record state =
  page_of :: page
  consoleSessions :: "(string \<times> session) list"
  activeSessionId :: "string option"
  viewer_hidden :: bool
  tabs :: "tab list"
  containers :: "container list"
  rfbClients :: "(string \<times> nat) list"
  vncSessions :: "(string \<times> vnc_info) list"
  termInstances :: "(string \<times> nat) list"
  termSockets :: "(string \<times> nat) list"
  termFitAddons :: "(string \<times> nat) list"
  termSessions :: "(string \<times> term_info) list"
  rfb_objs :: "rfb_obj list"
  term_objs :: "term_obj list"
  sock_objs :: "sock_obj list"
  timers :: "(nat \<times> string) list"
  awaiting :: "pending list"
  ui_status :: "(string \<times> string) list"
  api_calls :: "(string \<times> string) list"
  next_el :: nat
  login_modal :: bool

text \<open>
  \<^const>\<open>timers\<close> holds the pending \<^verbatim>\<open>setTimeout(() => closeTab(sessionId), delay)\<close> calls as
  pairs of delay and session identifier (the 100 ms timer that refits a terminal only
  redraws and is left out). \<^const>\<open>ui_status\<close> records the calls of \<^verbatim>\<open>window.UI.showStatus\<close>,
  whose module is not among the sources, and \<^const>\<open>api_calls\<close> the requests handed to
  \<^verbatim>\<open>window.API.apiCall\<close>. \<^const>\<open>next_el\<close> numbers the panes as they are created, and
  \<^const>\<open>login_modal\<close> tells whether \<^verbatim>\<open>showLoginModal\<close> has put the login dialogue on display.
\<close>

definition CONTROL_ACTION_DELAY :: nat where
  "CONTROL_ACTION_DELAY = 2000"

definition CONNECTION_ERROR_DELAY :: nat where
  "CONNECTION_ERROR_DELAY = 2000"

definition CONNECTION_CLOSE_DELAY :: nat where
  "CONNECTION_CLOSE_DELAY = 2000"

definition init_state :: "page \<Rightarrow> bool \<Rightarrow> state" where
  "init_state pg hidden =
     \<lparr> page_of = pg, consoleSessions = [], activeSessionId = None, viewer_hidden = hidden,
       tabs = [], containers = [], rfbClients = [], vncSessions = [], termInstances = [],
       termSockets = [], termFitAddons = [], termSessions = [], rfb_objs = [],
       term_objs = [], sock_objs = [], timers = [], awaiting = [], ui_status = [],
       api_calls = [], next_el = 0, login_modal = False \<rparr>"

subsection \<open>Helpers for the document and for objects\<close>

fun remove_first :: "('a \<Rightarrow> bool) \<Rightarrow> 'a list \<Rightarrow> 'a list" where
  "remove_first P [] = []"
| "remove_first P (x # xs) = (if P x then xs else x # remove_first P xs)"

fun update_first :: "('a \<Rightarrow> bool) \<Rightarrow> ('a \<Rightarrow> 'a) \<Rightarrow> 'a list \<Rightarrow> 'a list" where
  "update_first P f [] = []"
| "update_first P f (x # xs) = (if P x then f x # xs else x # update_first P f xs)"

text \<open>An object is changed in place; an address that names no object changes nothing.\<close>

definition obj_update :: "nat \<Rightarrow> ('a \<Rightarrow> 'a) \<Rightarrow> 'a list \<Rightarrow> 'a list" where
  "obj_update a f xs = (if a < length xs then xs[a := f (xs ! a)] else xs)"

definition status_id :: "container \<Rightarrow> string" where
  "status_id c = ''status-'' @ cont_sid c"

definition surface_id :: "container \<Rightarrow> string" where
  "surface_id c =
     (if cont_kind c = ''vnc-content'' then ''canvas-'' @ cont_sid c
      else ''terminal-'' @ cont_sid c)"

text \<open>
  \<^verbatim>\<open>document.getElementById\<close> for the two kinds of element a launch looks up. It gives the
  first element of the document that bears the identifier. The result for a status
  element is the number of its pane; it is \<^const>\<open>None\<close> for \<^verbatim>\<open>null\<close>.
\<close>

definition find_status :: "string \<Rightarrow> state \<Rightarrow> nat option" where
  "find_status eid st =
     map_option cont_el (List.find (\<lambda>c. status_id c = eid) (containers st))"

definition has_surface :: "string \<Rightarrow> state \<Rightarrow> bool" where
  "has_surface eid st = list_ex (\<lambda>c. surface_id c = eid) (containers st)"

text \<open>
  \<^verbatim>\<open>if (statusEl) { statusEl.textContent = ...; statusEl.className = ... }\<close>. A handler
  keeps the element it found at launch and writes to that very element, whatever other
  element bears the same identifier by then; once \<^verbatim>\<open>closeTab\<close> has removed the pane from the
  document, writing to the detached element shows nowhere, and the model drops it.
\<close>

definition set_status :: "nat option \<Rightarrow> string \<Rightarrow> string \<Rightarrow> state \<Rightarrow> state" where
  "set_status statusEl text cls st =
     (case statusEl of
        None \<Rightarrow> st
      | Some el \<Rightarrow>
          st\<lparr>containers :=
               update_first (\<lambda>c. cont_el c = el)
                 (\<lambda>c. c\<lparr>status_text := text, status_class := cls\<rparr>) (containers st)\<rparr>)"

definition showStatus :: "string \<Rightarrow> string \<Rightarrow> state \<Rightarrow> state" where
  "showStatus message ty st = st\<lparr>ui_status := ui_status st @ [(message, ty)]\<rparr>"

text \<open>JavaScript truthiness of a port (\<^verbatim>\<open>!vncPort\<close>) and of an optional string.\<close>

definition falsy_port :: "int option \<Rightarrow> bool" where
  "falsy_port p = (case p of None \<Rightarrow> True | Some n \<Rightarrow> n = 0)"

definition truthy_str :: "string option \<Rightarrow> bool" where
  "truthy_str s = (case s of None \<Rightarrow> False | Some x \<Rightarrow> x \<noteq> [])"

text \<open>\<^verbatim>\<open>s.includes(sub)\<close>, and a number as a template string prints it.\<close>

fun includes_str :: "string \<Rightarrow> string \<Rightarrow> bool" where
  "includes_str [] sub = (sub = [])"
| "includes_str (c # cs) sub = (take (length sub) (c # cs) = sub \<or> includes_str cs sub)"

fun decimal :: "nat \<Rightarrow> string" where
  "decimal n =
     (if n < 10 then [char_of (48 + n)]
      else decimal (n div 10) @ [char_of (48 + n mod 10)])"

subsection \<open>api.js\<close>

text \<open>
  \<^verbatim>\<open>apiCall\<close> from the moment the server's answer is known; the request itself is recorded by
  the caller. Everything it does after its last \<^verbatim>\<open>await\<close> runs in one piece, and so does the
  caller that awaits it. It gives back the result and the state it leaves.
  \<^item> \<^verbatim>\<open>fetch\<close> fails: the \<^verbatim>\<open>catch\<close> block shows a network error and the result is \<^verbatim>\<open>null\<close>.
  \<^item> Status 401: \<^verbatim>\<open>showLoginModal\<close> (the dialogue's elements are taken to be in the page), and
    \<^verbatim>\<open>null\<close>.
  \<^item> A body that cannot be read as JSON: \<^verbatim>\<open>null\<close> with an error shown when the response is not
    ok, and \<^verbatim>\<open>{}\<close> otherwise. An empty body is \<^verbatim>\<open>{}\<close>.
  \<^item> A response that is not ok: \<^verbatim>\<open>null\<close>, with \<^verbatim>\<open>result.message\<close> or a default text shown.
    Reading \<^verbatim>\<open>message\<close> of \<^verbatim>\<open>null\<close> throws, and the \<^verbatim>\<open>catch\<close> block shows a network error.
  \<^item> No error is shown for a 404 on an endpoint that includes \<^verbatim>\<open>download-progress\<close>.
\<close>

definition network_error :: "string \<Rightarrow> state \<Rightarrow> state" where
  "network_error message st =
     showStatus (''Network Error: Could not reach the API server. ('' @ message @ '')'')
       ''error'' st"

definition apiCall_reply :: "bool \<Rightarrow> bool \<Rightarrow> json_value \<Rightarrow> state \<Rightarrow> api_result \<times> state" where
  "apiCall_reply ok quiet result st =
     (if \<not> ok
      then
        (if quiet then (ApiNull, st)
         else
           (case result of
              JsonNull \<Rightarrow> (ApiNull, network_error (null_property_error (page_of st)) st)
            | JsonFalsy \<Rightarrow>
                (ApiNull, showStatus ''API Error: An unknown error occurred'' ''error'' st)
            | JsonTruthy status message \<Rightarrow>
                (ApiNull,
                 showStatus
                   (''API Error: '' @
                      (case message of
                         None \<Rightarrow> ''An unknown error occurred''
                       | Some x \<Rightarrow> if x = [] then ''An unknown error occurred'' else x))
                   ''error'' st)))
      else
        (case result of
           JsonNull \<Rightarrow> (ApiNull, st)
         | JsonFalsy \<Rightarrow> (ApiNull, st)
         | JsonTruthy status message \<Rightarrow> (ApiObject status, st)))"

definition apiCall :: "string \<Rightarrow> http_outcome \<Rightarrow> state \<Rightarrow> api_result \<times> state" where
  "apiCall endpoint outcome st =
     (case outcome of
        FetchFailed message \<Rightarrow> (ApiNull, network_error message st)
      | HttpResponse code body \<Rightarrow>
          if code = 401 then (ApiNull, st\<lparr>login_modal := True\<rparr>)
          else
            let ok = (200 \<le> code \<and> code \<le> 299);
                quiet = (code = 404 \<and> includes_str endpoint ''download-progress'')
            in (case body of
                  BodyEmpty \<Rightarrow> apiCall_reply ok quiet (JsonTruthy None None) st
                | BodyUnparsable \<Rightarrow>
                    if \<not> ok
                    then
                      (ApiNull,
                       if quiet then st
                       else showStatus
                              (''API Error: Server returned non-JSON response ('' @ decimal code @ '')'')
                              ''error'' st)
                    else apiCall_reply ok quiet (JsonTruthy None None) st
                | BodyJson result \<Rightarrow> apiCall_reply ok quiet result st))"

subsection \<open>vnc-viewer.js\<close>

text \<open>
  \<^verbatim>\<open>launchVncInContainer\<close> up to its only suspension, \<^verbatim>\<open>await requestClipboardPermissions()\<close>.
  The result is the message of the \<^verbatim>\<open>Error\<close> it throws, if it throws, and the state it
  leaves. The port is checked first, the canvas container second; only then is the
  session recorded in \<^verbatim>\<open>vncSessions\<close> and the status set to connecting.
\<close>

definition launchVncInContainer ::
  "string \<Rightarrow> string \<Rightarrow> int option \<Rightarrow> string \<Rightarrow> string \<Rightarrow> state \<Rightarrow> string option \<times> state" where
  "launchVncInContainer sessionId vmName vncPort canvasContainerId statusElementId st =
     (case vncPort of
        None \<Rightarrow> (Some ''VNC port not available for this VM'', st)
      | Some p \<Rightarrow>
          if p = 0 then (Some ''VNC port not available for this VM'', st)
          else if \<not> has_surface canvasContainerId st
          then (Some ''VNC canvas container element not found'', st)
          else
            let statusEl = find_status statusElementId st;
                st1 = st\<lparr>vncSessions :=
                        AList.update sessionId
                          \<lparr> vi_vmName = vmName, vi_port = p,
                            vi_canvasContainerId = canvasContainerId,
                            vi_statusElementId = statusElementId \<rparr> (vncSessions st)\<rparr>;
                st2 = set_status statusEl ''Connecting...''
                        ''console-status console-status-connecting'' st1
            in (None, st2\<lparr>awaiting := awaiting st2 @ [AwaitClipboard sessionId vmName p statusEl]\<rparr>))"

text \<open>
  The rest of \<^verbatim>\<open>launchVncInContainer\<close>, run when the clipboard request has settled. While it
  settled, \<^verbatim>\<open>requestClipboardPermissions\<close> may have shown its one-time tip (\<open>tip\<close>; the
  message is written here without its leading pictograph). \<^verbatim>\<open>new window.RFB(...)\<close> throws a
  \<^verbatim>\<open>TypeError\<close> when the noVNC library has not been loaded; the \<^verbatim>\<open>catch\<close> block sets the
  status to \<^verbatim>\<open>Error\<close> and throws again. Otherwise the client is created, its handlers are
  registered, and it is stored in \<^verbatim>\<open>rfbClients\<close>.
\<close>

definition launchVncInContainer_resume ::
  "bool \<Rightarrow> string \<Rightarrow> string \<Rightarrow> int \<Rightarrow> nat option \<Rightarrow> state \<Rightarrow> string option \<times> state" where
  "launchVncInContainer_resume tip sessionId vmName p statusEl st =
     (let st0 = (if tip
                 then showStatus
                   ''Tip: Allow clipboard access when prompted to enable copy/paste between your computer and VNC''
                   ''info'' st
                 else st)
      in if \<not> lib_rfb (page_of st0)
         then (Some ''window.RFB is not a constructor'',
               set_status statusEl ''Error'' ''console-status console-status-error'' st0)
         else
           let client = length (rfb_objs st0)
           in (None,
               st0\<lparr>rfb_objs := rfb_objs st0 @
                      [\<lparr> rfb_sid = sessionId, rfb_vmName = vmName, rfb_port = p,
                         rfb_statusEl = statusEl, rfb_disconnect_called = False \<rparr>],
                    rfbClients := AList.update sessionId client (rfbClients st0)\<rparr>))"

definition getRfbClient :: "string \<Rightarrow> state \<Rightarrow> nat option" where
  "getRfbClient sessionId st = map_of (rfbClients st) sessionId"

text \<open>\<^verbatim>\<open>cleanupSession\<close> of \<^verbatim>\<open>window.VNCViewer\<close>.\<close>

definition VNCViewer_cleanupSession :: "string \<Rightarrow> state \<Rightarrow> state" where
  "VNCViewer_cleanupSession sessionId st =
     (let st1 = (case map_of (rfbClients st) sessionId of
                   Some client \<Rightarrow>
                     st\<lparr>rfb_objs := obj_update client (\<lambda>c. c\<lparr>rfb_disconnect_called := True\<rparr>) (rfb_objs st),
                        rfbClients := AList.delete sessionId (rfbClients st)\<rparr>
                 | None \<Rightarrow> st)
      in st1\<lparr>vncSessions := AList.delete sessionId (vncSessions st1)\<rparr>)"

subsection \<open>terminal.js\<close>

text \<open>
  \<^verbatim>\<open>launchTerminalInContainer\<close> has no \<^verbatim>\<open>await\<close>: it runs to its end within the call. It throws
  before doing anything when a library or the terminal's container is missing. The
  constructors of the loaded libraries and of \<^verbatim>\<open>WebSocket\<close> are taken not to throw.
\<close>

definition launchTerminalInContainer ::
  "string \<Rightarrow> string \<Rightarrow> string \<Rightarrow> string \<Rightarrow> state \<Rightarrow> string option \<times> state" where
  "launchTerminalInContainer sessionId containerName terminalContainerId statusElementId st =
     (if \<not> lib_terminal (page_of st) then (Some ''xterm.js Terminal class not found'', st)
      else if \<not> lib_fitaddon (page_of st) then (Some ''FitAddon not found'', st)
      else if \<not> has_surface terminalContainerId st then (Some ''Terminal container not found'', st)
      else
        let statusEl = find_status statusElementId st;
            st1 = st\<lparr>termSessions :=
                    AList.update sessionId
                      \<lparr> ti_containerName = containerName,
                        ti_terminalContainerId = terminalContainerId,
                        ti_statusElementId = statusElementId,
                        ti_resizeHandler = False \<rparr> (termSessions st)\<rparr>;
            st2 = set_status statusEl ''Connecting...''
                    ''console-status console-status-connecting'' st1;
            terminal = length (term_objs st2);
            socket = length (sock_objs st2);
            st3 = st2\<lparr>term_objs := term_objs st2 @ [\<lparr> term_written = [], term_disposed = False \<rparr>],
                      termSessions :=
                        AList.map_entry sessionId (\<lambda>i. i\<lparr>ti_resizeHandler := True\<rparr>) (termSessions st2),
                      sock_objs := sock_objs st2 @
                        [\<lparr> ws_sid = sessionId, ws_containerName = containerName,
                           ws_terminal = terminal, ws_statusEl = statusEl,
                           ws_close_called = False \<rparr>]\<rparr>
        in (None,
            st3\<lparr>termInstances := AList.update sessionId terminal (termInstances st3),
                termSockets := AList.update sessionId socket (termSockets st3),
                termFitAddons := AList.update sessionId terminal (termFitAddons st3)\<rparr>))"

definition getTermInstance :: "string \<Rightarrow> state \<Rightarrow> nat option" where
  "getTermInstance sessionId st = map_of (termInstances st) sessionId"

text \<open>\<^verbatim>\<open>cleanupSession\<close> of \<^verbatim>\<open>window.TerminalManager\<close>.\<close>

definition TerminalManager_cleanupSession :: "string \<Rightarrow> state \<Rightarrow> state" where
  "TerminalManager_cleanupSession sessionId st =
     (let st1 = (case map_of (termSockets st) sessionId of
                   Some socket \<Rightarrow>
                     st\<lparr>sock_objs := obj_update socket (\<lambda>s. s\<lparr>ws_close_called := True\<rparr>) (sock_objs st),
                        termSockets := AList.delete sessionId (termSockets st)\<rparr>
                 | None \<Rightarrow> st);
          st2 = (case map_of (termInstances st1) sessionId of
                   Some terminal \<Rightarrow>
                     st1\<lparr>term_objs := obj_update terminal (\<lambda>t. t\<lparr>term_disposed := True\<rparr>) (term_objs st1),
                         termInstances := AList.delete sessionId (termInstances st1)\<rparr>
                 | None \<Rightarrow> st1)
      in st2\<lparr>termFitAddons := AList.delete sessionId (termFitAddons st2),
             termSessions := AList.delete sessionId (termSessions st2)\<rparr>)"

subsection \<open>console-manager.js\<close>

fun findSessionByName_loop :: "string \<Rightarrow> (string \<times> session) list \<Rightarrow> string option" where
  "findSessionByName_loop name [] = None"
| "findSessionByName_loop name ((sessionId, session) # rest) =
     (if sess_name session = name then Some sessionId else findSessionByName_loop name rest)"

definition findSessionByName :: "string \<Rightarrow> state \<Rightarrow> string option" where
  "findSessionByName name st = findSessionByName_loop name (consoleSessions st)"

definition createTab :: "string \<Rightarrow> string \<Rightarrow> string \<Rightarrow> string option \<Rightarrow> state \<Rightarrow> state" where
  "createTab sessionId name ty icon st =
     (if \<not> has_tab_bar (page_of st) then st
      else st\<lparr>tabs := tabs st @
                 [\<lparr> tab_sid = sessionId, tab_name = name, tab_lxc = (ty = ''terminal''),
                    tab_img = (if truthy_str icon then icon else None),
                    tab_active = False \<rparr>]\<rparr>)"

definition switchToTab :: "string \<Rightarrow> state \<Rightarrow> state" where
  "switchToTab sessionId st =
     st\<lparr>activeSessionId := Some sessionId,
        tabs := map (\<lambda>t. t\<lparr>tab_active := (tab_sid t = sessionId)\<rparr>) (tabs st),
        containers := map (\<lambda>c. c\<lparr>cont_hidden := (cont_sid c \<noteq> sessionId)\<rparr>) (containers st)\<rparr>"

definition cleanupVncSession :: "string \<Rightarrow> state \<Rightarrow> state" where
  "cleanupVncSession sessionId st = VNCViewer_cleanupSession sessionId st"

definition cleanupTerminalSession :: "string \<Rightarrow> state \<Rightarrow> state" where
  "cleanupTerminalSession sessionId st = TerminalManager_cleanupSession sessionId st"

definition closeTab :: "string \<Rightarrow> state \<Rightarrow> state" where
  "closeTab sessionId st =
     (case map_of (consoleSessions st) sessionId of
        None \<Rightarrow> st
      | Some session \<Rightarrow>
          let st1 = (if sess_type session = ''vnc'' then cleanupVncSession sessionId st
                     else if sess_type session = ''terminal'' then cleanupTerminalSession sessionId st
                     else st);
              st2 = st1\<lparr>tabs := remove_first (\<lambda>t. tab_sid t = sessionId) (tabs st1)\<rparr>;
              st3 = st2\<lparr>containers := remove_first (\<lambda>c. cont_sid c = sessionId) (containers st2)\<rparr>;
              st4 = st3\<lparr>consoleSessions := AList.delete sessionId (consoleSessions st3)\<rparr>
          in if activeSessionId st4 = Some sessionId
             then (case consoleSessions st4 of
                     (firstSessionId, first) # rest \<Rightarrow> switchToTab firstSessionId st4
                   | [] \<Rightarrow>
                       st4\<lparr>viewer_hidden := (if has_viewer (page_of st4) then True else viewer_hidden st4),
                           activeSessionId := None\<rparr>)
             else st4)"

text \<open>
  \<^verbatim>\<open>initVncSession\<close> up to its \<^verbatim>\<open>await\<close>. When \<^verbatim>\<open>launchVncInContainer\<close> throws before it
  suspends, the promise is already rejected and the \<^verbatim>\<open>catch\<close> block runs as a microtask,
  before the browser dispatches anything else; the model runs it within the call.
\<close>

definition initVncSession :: "string \<Rightarrow> string \<Rightarrow> int option \<Rightarrow> state \<Rightarrow> state" where
  "initVncSession sessionId name port st =
     (case map_of (consoleSessions st) sessionId of
        None \<Rightarrow> st
      | Some session \<Rightarrow>
          if \<not> has_area (page_of st) then st
          else
            let st1 = st\<lparr>containers := containers st @
                        [\<lparr> cont_el = next_el st, cont_sid = sessionId,
                           cont_kind = ''vnc-content'',
                           cont_title = ''VNC Console: '' @ name, cont_hidden = False,
                           status_text = ''Connecting...'',
                           status_class = ''console-status console-status-info'' \<rparr>],
                        next_el := Suc (next_el st)\<rparr>
            in (case launchVncInContainer sessionId name port (''canvas-'' @ sessionId)
                       (''status-'' @ sessionId) st1 of
                  (Some message, st2) \<Rightarrow>
                    showStatus (''VNC connection failed: '' @ message) ''error'' st2
                | (None, st2) \<Rightarrow> st2))"

text \<open>
  The rest of \<^verbatim>\<open>initVncSession\<close>: after a launch that succeeded, the session object it
  holds takes the client as its \<^verbatim>\<open>instance\<close>; after one that threw, the failure is shown.
  The session object is found again by its identifier: identifiers are not reused, and
  an object that has left the registry is seen by nobody.
\<close>

definition initVncSession_resume ::
  "bool \<Rightarrow> string \<Rightarrow> string \<Rightarrow> int \<Rightarrow> nat option \<Rightarrow> state \<Rightarrow> state" where
  "initVncSession_resume tip sessionId name p statusEl st =
     (case launchVncInContainer_resume tip sessionId name p statusEl st of
        (Some message, st1) \<Rightarrow> showStatus (''VNC connection failed: '' @ message) ''error'' st1
      | (None, st1) \<Rightarrow>
          st1\<lparr>consoleSessions :=
                AList.map_entry sessionId (\<lambda>s. s\<lparr>sess_instance := getRfbClient sessionId st1\<rparr>)
                  (consoleSessions st1)\<rparr>)"

definition initTerminalSession :: "string \<Rightarrow> string \<Rightarrow> state \<Rightarrow> state" where
  "initTerminalSession sessionId name st =
     (case map_of (consoleSessions st) sessionId of
        None \<Rightarrow> st
      | Some session \<Rightarrow>
          if \<not> has_area (page_of st) then st
          else
            let st1 = st\<lparr>containers := containers st @
                        [\<lparr> cont_el = next_el st, cont_sid = sessionId,
                           cont_kind = ''terminal-content'',
                           cont_title = ''Terminal Console: '' @ name, cont_hidden = False,
                           status_text = ''Connecting...'',
                           status_class = ''console-status console-status-info'' \<rparr>],
                        next_el := Suc (next_el st)\<rparr>
            in (case launchTerminalInContainer sessionId name (''terminal-'' @ sessionId)
                       (''status-'' @ sessionId) st1 of
                  (Some message, st2) \<Rightarrow>
                    showStatus (''Terminal connection failed: '' @ message) ''error'' st2
                | (None, st2) \<Rightarrow>
                    st2\<lparr>consoleSessions :=
                          AList.map_entry sessionId
                            (\<lambda>s. s\<lparr>sess_instance := getTermInstance sessionId st2\<rparr>)
                            (consoleSessions st2)\<rparr>))"

text \<open>
  \<^verbatim>\<open>openConsole\<close>. The identifier is \<^verbatim>\<open>console-<Date.now()>-<random suffix>\<close>; the two parts
  come from the browser and are arguments here. \<^verbatim>\<open>if (existingSessionId)\<close> tests the
  truthiness of the identifier that was found.
\<close>

definition openConsole ::
  "string \<Rightarrow> string \<Rightarrow> int option \<Rightarrow> string option \<Rightarrow> string \<Rightarrow> string \<Rightarrow> state \<Rightarrow> state" where
  "openConsole name ty port icon now rnd st =
     (let existingSessionId = findSessionByName name st
      in if truthy_str existingSessionId
         then (case existingSessionId of Some e \<Rightarrow> switchToTab e st | None \<Rightarrow> st)
         else
           let sessionId = ''console-'' @ now @ ''-'' @ rnd;
               session = \<lparr> sess_id = sessionId, sess_name = name, sess_type = ty,
                           sess_port = port, sess_icon = icon, sess_instance = None \<rparr>;
               st1 = st\<lparr>consoleSessions := AList.update sessionId session (consoleSessions st)\<rparr>;
               st2 = (if has_viewer (page_of st1) then st1\<lparr>viewer_hidden := False\<rparr> else st1);
               st3 = createTab sessionId name ty icon st2;
               st4 = switchToTab sessionId st3
           in if ty = ''vnc'' then initVncSession sessionId name port st4
              else if ty = ''terminal'' then initTerminalSession sessionId name st4
              else st4)"

text \<open>
  The control dispatchers up to \<^verbatim>\<open>await window.API.apiCall(endpoint, 'POST')\<close>, where the
  request is sent, and what they do with the result. The button labelled Force Stop sends
  the verb \<^verbatim>\<open>destroy\<close>.
\<close>

definition api_success :: "api_result \<Rightarrow> bool" where
  "api_success r = (case r of ApiNull \<Rightarrow> False | ApiObject s \<Rightarrow> s = Some ''success'')"

definition vncControl :: "string \<Rightarrow> string \<Rightarrow> state \<Rightarrow> state" where
  "vncControl sessionId action st =
     (case map_of (consoleSessions st) sessionId of
        None \<Rightarrow> st
      | Some session \<Rightarrow>
          if sess_type session \<noteq> ''vnc'' then st
          else st\<lparr>api_calls := api_calls st @
                     [(''/vm/'' @ sess_name session @ ''/'' @ action, ''POST'')],
                  awaiting := awaiting st @
                     [AwaitApiVnc sessionId action
                        (''/vm/'' @ sess_name session @ ''/'' @ action)]\<rparr>)"

definition vncControl_resume :: "string \<Rightarrow> string \<Rightarrow> api_result \<Rightarrow> state \<Rightarrow> state" where
  "vncControl_resume sessionId action result st =
     (if api_success result
      then
        let st1 = showStatus (''VM '' @ action @ '' command sent'') ''success'' st
        in if action = ''stop'' \<or> action = ''destroy''
           then st1\<lparr>timers := timers st1 @ [(CONTROL_ACTION_DELAY, sessionId)]\<rparr>
           else st1
      else st)"

definition terminalControl :: "string \<Rightarrow> string \<Rightarrow> state \<Rightarrow> state" where
  "terminalControl sessionId action st =
     (case map_of (consoleSessions st) sessionId of
        None \<Rightarrow> st
      | Some session \<Rightarrow>
          if sess_type session \<noteq> ''terminal'' then st
          else st\<lparr>api_calls := api_calls st @
                     [(''/vm/'' @ sess_name session @ ''/'' @ action, ''POST'')],
                  awaiting := awaiting st @
                     [AwaitApiTerminal sessionId action
                        (''/vm/'' @ sess_name session @ ''/'' @ action)]\<rparr>)"

definition terminalControl_resume :: "string \<Rightarrow> string \<Rightarrow> api_result \<Rightarrow> state \<Rightarrow> state" where
  "terminalControl_resume sessionId action result st =
     (if api_success result
      then
        let st1 = showStatus (''Container '' @ action @ '' command sent'') ''success'' st
        in if action = ''stop'' \<or> action = ''destroy''
           then st1\<lparr>timers := timers st1 @ [(CONTROL_ACTION_DELAY, sessionId)]\<rparr>
           else st1
      else st)"

subsection \<open>Event handlers\<close>

text \<open>
  The listeners \<^verbatim>\<open>launchVncInContainer\<close> registers on its RFB client. \<^verbatim>\<open>window.ConsoleManager\<close>
  is defined once \<^verbatim>\<open>console-manager.js\<close> has run, which it has whenever a session exists.
  The listeners for \<^verbatim>\<open>credentialsrequired\<close>, \<^verbatim>\<open>desktopname\<close> and \<^verbatim>\<open>clipboard\<close> touch nothing
  the model keeps and are left out.
\<close>

definition rfb_onconnect :: "nat \<Rightarrow> state \<Rightarrow> state" where
  "rfb_onconnect client st =
     (if client < length (rfb_objs st)
      then
        let c = rfb_objs st ! client;
            st1 = set_status (rfb_statusEl c) ''Connected''
                    ''console-status console-status-connected'' st
        in showStatus (''VNC connected to '' @ rfb_vmName c) ''success'' st1
      else st)"

definition rfb_ondisconnect :: "nat \<Rightarrow> bool \<Rightarrow> state \<Rightarrow> state" where
  "rfb_ondisconnect client clean st =
     (if client < length (rfb_objs st)
      then
        let c = rfb_objs st ! client;
            statusMsg = (if clean then ''Clean Disconnect'' else ''Disconnected'');
            st1 = set_status (rfb_statusEl c) statusMsg ''console-status console-status-error'' st
        in if clean then closeTab (rfb_sid c) st1 else st1
      else st)"

definition rfb_onsecurityfailure :: "nat \<Rightarrow> string \<Rightarrow> state \<Rightarrow> state" where
  "rfb_onsecurityfailure client status st =
     (if client < length (rfb_objs st)
      then
        let c = rfb_objs st ! client;
            st1 = set_status (rfb_statusEl c) ''Security Error''
                    ''console-status console-status-error'' st
        in showStatus (''VNC Security Failure: '' @ status) ''error'' st1
      else st)"

text \<open>
  The handlers \<^verbatim>\<open>launchTerminalInContainer\<close> sets on its WebSocket. The terminal they write
  to is the one created in the same call. Forwarding of keystrokes (\<^verbatim>\<open>terminal.onData\<close>)
  is left out.
\<close>

definition term_write :: "nat \<Rightarrow> term_op \<Rightarrow> state \<Rightarrow> state" where
  "term_write terminal w st =
     st\<lparr>term_objs := obj_update terminal (\<lambda>t. t\<lparr>term_written := term_written t @ [w]\<rparr>) (term_objs st)\<rparr>"

definition error_banner :: string where
  "error_banner =
     [CHR 0x0D, CHR 0x0A, CHR 0x1B] @ ''[1;31mConnection error'' @ [CHR 0x1B] @ ''[0m'' @
     [CHR 0x0D, CHR 0x0A]"

definition closed_banner :: string where
  "closed_banner =
     [CHR 0x0D, CHR 0x0A, CHR 0x1B] @ ''[1;33mConnection closed'' @ [CHR 0x1B] @ ''[0m'' @
     [CHR 0x0D, CHR 0x0A]"

definition socket_onopen :: "nat \<Rightarrow> state \<Rightarrow> state" where
  "socket_onopen socket st =
     (if socket < length (sock_objs st)
      then
        let s = sock_objs st ! socket;
            st1 = set_status (ws_statusEl s) ''Connected''
                    ''console-status console-status-connected'' st;
            st2 = term_write (ws_terminal s) (Writeln (''Connected to '' @ ws_containerName s)) st1
        in term_write (ws_terminal s) (Writeln []) st2
      else st)"

definition socket_onmessage :: "nat \<Rightarrow> string \<Rightarrow> state \<Rightarrow> state" where
  "socket_onmessage socket data st =
     (if socket < length (sock_objs st)
      then term_write (ws_terminal (sock_objs st ! socket)) (Write data) st
      else st)"

definition socket_onerror :: "nat \<Rightarrow> state \<Rightarrow> state" where
  "socket_onerror socket st =
     (if socket < length (sock_objs st)
      then
        let s = sock_objs st ! socket;
            st1 = set_status (ws_statusEl s) ''Connection Error''
                    ''console-status console-status-error'' st;
            st2 = term_write (ws_terminal s) (Writeln error_banner) st1
        in st2\<lparr>timers := timers st2 @ [(CONNECTION_ERROR_DELAY, ws_sid s)]\<rparr>
      else st)"

definition socket_onclose :: "nat \<Rightarrow> state \<Rightarrow> state" where
  "socket_onclose socket st =
     (if socket < length (sock_objs st)
      then
        let s = sock_objs st ! socket;
            st1 = set_status (ws_statusEl s) ''Disconnected''
                    ''console-status console-status-error'' st;
            st2 = term_write (ws_terminal s) (Writeln closed_banner) st1
        in st2\<lparr>timers := timers st2 @ [(CONNECTION_CLOSE_DELAY, ws_sid s)]\<rparr>
      else st)"

subsection \<open>The event loop\<close>

text \<open>
  Everything that can happen to the page: the user's actions, a suspended function
  resuming, a timer running out, and the events of the RFB clients and sockets that have
  been created. A timer, a suspended function, a client or a socket is named by its
  place in its list; an event that names none changes nothing.
\<close>

definition drop_nth :: "nat \<Rightarrow> 'a list \<Rightarrow> 'a list" where
  "drop_nth i xs = take i xs @ drop (Suc i) xs"

definition timer_fired :: "nat \<Rightarrow> state \<Rightarrow> state" where
  "timer_fired i st =
     (if i < length (timers st)
      then closeTab (snd (timers st ! i)) (st\<lparr>timers := drop_nth i (timers st)\<rparr>)
      else st)"

definition clipboard_settled :: "nat \<Rightarrow> bool \<Rightarrow> state \<Rightarrow> state" where
  "clipboard_settled i tip st =
     (if i < length (awaiting st)
      then (case awaiting st ! i of
              AwaitClipboard sessionId name p statusEl \<Rightarrow>
                initVncSession_resume tip sessionId name p statusEl
                  (st\<lparr>awaiting := drop_nth i (awaiting st)\<rparr>)
            | AwaitApiVnc sessionId action endpoint \<Rightarrow> st
            | AwaitApiTerminal sessionId action endpoint \<Rightarrow> st)
      else st)"

text \<open>
  The server's answer to the request of a waiting dispatcher arrives: \<^verbatim>\<open>apiCall\<close> finishes,
  and the dispatcher goes on with its result.
\<close>

definition api_settled :: "nat \<Rightarrow> http_outcome \<Rightarrow> state \<Rightarrow> state" where
  "api_settled i outcome st =
     (if i < length (awaiting st)
      then (case awaiting st ! i of
              AwaitClipboard sessionId name p statusEl \<Rightarrow> st
            | AwaitApiVnc sessionId action endpoint \<Rightarrow>
                (case apiCall endpoint outcome (st\<lparr>awaiting := drop_nth i (awaiting st)\<rparr>) of
                   (result, st1) \<Rightarrow> vncControl_resume sessionId action result st1)
            | AwaitApiTerminal sessionId action endpoint \<Rightarrow>
                (case apiCall endpoint outcome (st\<lparr>awaiting := drop_nth i (awaiting st)\<rparr>) of
                   (result, st1) \<Rightarrow> terminalControl_resume sessionId action result st1))
      else st)"

text \<open>A click on a tab runs \<^verbatim>\<open>switchToTab\<close>; only a tab that is in the tab bar can be clicked.\<close>

definition click_tab :: "string \<Rightarrow> state \<Rightarrow> state" where
  "click_tab sessionId st =
     (if list_ex (\<lambda>t. tab_sid t = sessionId) (tabs st) then switchToTab sessionId st else st)"

datatype event =
    OpenConsole string string "int option" "string option" string string
  | CloseTab string
  | ClickTab string
  | VncControl string string
  | TerminalControl string string
  | ClipboardSettled nat bool
  | ApiSettled nat http_outcome
  | TimerFired nat
  | RfbConnect nat
  | RfbDisconnect nat bool
  | RfbSecurityFailure nat string
  | SocketOpen nat
  | SocketMessage nat string
  | SocketError nat
  | SocketClose nat

fun step :: "event \<Rightarrow> state \<Rightarrow> state" where
  "step (OpenConsole name ty port icon now rnd) st = openConsole name ty port icon now rnd st"
| "step (CloseTab sessionId) st = closeTab sessionId st"
| "step (ClickTab sessionId) st = click_tab sessionId st"
| "step (VncControl sessionId action) st = vncControl sessionId action st"
| "step (TerminalControl sessionId action) st = terminalControl sessionId action st"
| "step (ClipboardSettled i tip) st = clipboard_settled i tip st"
| "step (ApiSettled i outcome) st = api_settled i outcome st"
| "step (TimerFired i) st = timer_fired i st"
| "step (RfbConnect client) st = rfb_onconnect client st"
| "step (RfbDisconnect client clean) st = rfb_ondisconnect client clean st"
| "step (RfbSecurityFailure client status) st = rfb_onsecurityfailure client status st"
| "step (SocketOpen socket) st = socket_onopen socket st"
| "step (SocketMessage socket data) st = socket_onmessage socket data st"
| "step (SocketError socket) st = socket_onerror socket st"
| "step (SocketClose socket) st = socket_onclose socket st"

fun run :: "event list \<Rightarrow> state \<Rightarrow> state" where
  "run [] st = st"
| "run (e # es) st = run es (step e st)"

text \<open>
  The identifiers \<^verbatim>\<open>openConsole\<close> generates come from the clock and a random number. The
  runs in which no generated identifier is that of a session still in the registry:
\<close>

definition fresh_id :: "event \<Rightarrow> state \<Rightarrow> bool" where
  "fresh_id e st =
     (case e of
        OpenConsole name ty port icon now rnd \<Rightarrow>
          map_of (consoleSessions st) (''console-'' @ now @ ''-'' @ rnd) = None
      | _ \<Rightarrow> True)"

fun fresh_ids :: "event list \<Rightarrow> state \<Rightarrow> bool" where
  "fresh_ids [] st = True"
| "fresh_ids (e # es) st = (fresh_id e st \<and> fresh_ids es (step e st))"

text \<open>The sessions and the tabs of a target.\<close>

definition sessions_for :: "string \<Rightarrow> state \<Rightarrow> (string \<times> session) list" where
  "sessions_for name st = filter (\<lambda>p. sess_name (snd p) = name) (consoleSessions st)"

definition tabs_for :: "string \<Rightarrow> state \<Rightarrow> tab list" where
  "tabs_for name st = filter (\<lambda>t. tab_name t = name) (tabs st)"

text \<open>The registry and the tab bar, reduced to identifiers and target names.\<close>

definition reg_keys :: "state \<Rightarrow> (string \<times> string) list" where
  "reg_keys st = map (\<lambda>p. (fst p, sess_name (snd p))) (consoleSessions st)"

definition tab_keys :: "state \<Rightarrow> (string \<times> string) list" where
  "tab_keys st = map (\<lambda>t. (tab_sid t, tab_name t)) (tabs st)"

text \<open>
  For examples: a page that provides every element and library, a state with one text
  session, one with one graphical session that is connected, and one with both.
\<close>

definition full_page :: page where
  "full_page = \<lparr> has_viewer = True, has_tab_bar = True, has_area = True, lib_rfb = True,
                   lib_terminal = True, lib_fitaddon = True,
                   null_property_error = ''result is null'' \<rparr>"

definition text_example :: state where
  "text_example =
     run [OpenConsole ''lxc1'' ''terminal'' None None ''1'' ''a'', SocketOpen 0]
       (init_state full_page True)"

definition vnc_example :: state where
  "vnc_example =
     run [OpenConsole ''vm1'' ''vnc'' (Some 5901) None ''2'' ''b'', ClipboardSettled 0 False,
          RfbConnect 0]
       (init_state full_page True)"

definition both_example :: state where
  "both_example =
     run [OpenConsole ''vm1'' ''vnc'' (Some 5901) None ''1'' ''a'', ClipboardSettled 0 False,
          RfbConnect 0, OpenConsole ''lxc1'' ''terminal'' None None ''2'' ''b'', SocketOpen 0]
       (init_state full_page True)"

text \<open>
  The invariant of the registry: identifiers are distinct and not empty, and no two
  sessions have the same target. The invariant of the tab bar and the foreground: one tab
  at most per identifier, every tab is the tab of a session of the registry and bears its
  target's name, and the foreground is a session of the registry, or nothing when the
  registry is empty.
\<close>

definition REG :: "(string \<times> string) list \<Rightarrow> bool" where
  "REG r \<longleftrightarrow> distinct (map fst r) \<and> distinct (map snd r) \<and> [] \<notin> fst ` set r"

definition TABS ::
  "(string \<times> string) list \<Rightarrow> (string \<times> string) list \<Rightarrow> string option \<Rightarrow> bool" where
  "TABS r t a \<longleftrightarrow> distinct (map fst t) \<and> set t \<subseteq> set r
     \<and> (case a of None \<Rightarrow> r = [] | Some k \<Rightarrow> k \<in> fst ` set r)"

definition reg_ok :: "state \<Rightarrow> bool" where
  "reg_ok st \<longleftrightarrow> REG (reg_keys st)"

definition tabs_ok :: "state \<Rightarrow> bool" where
  "tabs_ok st \<longleftrightarrow> TABS (reg_keys st) (tab_keys st) (activeSessionId st)"

text \<open>
  The invariant of the sockets: every entry of \<^verbatim>\<open>termSockets\<close> names a socket that exists
  and whose handlers hold the entry's session identifier, and every socket writes to a
  terminal that exists.
\<close>

definition sock_key :: "sock_obj \<Rightarrow> string \<times> nat" where
  "sock_key s = (ws_sid s, ws_terminal s)"

definition SOCK :: "(string \<times> nat) list \<Rightarrow> (string \<times> nat) list \<Rightarrow> nat \<Rightarrow> bool" where
  "SOCK ts so n \<longleftrightarrow>
     (\<forall>p\<in>set ts. snd p < length so \<and> fst (so ! snd p) = fst p)
     \<and> (\<forall>s\<in>set so. snd s < n)"

definition sock_ok :: "state \<Rightarrow> bool" where
  "sock_ok st \<longleftrightarrow> SOCK (termSockets st) (map sock_key (sock_objs st)) (length (term_objs st))"

text \<open>
  The invariant of the RFB clients: every entry of \<^verbatim>\<open>rfbClients\<close> names a client that
  exists and whose listeners hold the entry's session identifier.
\<close>

definition RFB :: "(string \<times> nat) list \<Rightarrow> string list \<Rightarrow> bool" where
  "RFB cl objs \<longleftrightarrow> (\<forall>p\<in>set cl. snd p < length objs \<and> objs ! snd p = fst p)"

definition rfb_ok :: "state \<Rightarrow> bool" where
  "rfb_ok st \<longleftrightarrow> RFB (rfbClients st) (map rfb_sid (rfb_objs st))"

text \<open>
  The invariant of the status elements. The panes of the document have different
  numbers, all below the next number to give. Every socket, every RFB client and every
  launch that waits for the clipboard holds a status element, and while the pane of that
  element is in the document, it is a pane of the session the holder belongs to.
\<close>

definition pane_keys :: "state \<Rightarrow> (nat \<times> string) list" where
  "pane_keys st = map (\<lambda>c. (cont_el c, cont_sid c)) (containers st)"

fun pending_held :: "pending \<Rightarrow> (string \<times> nat option) list" where
  "pending_held (AwaitClipboard sessionId name port statusEl) = [(sessionId, statusEl)]"
| "pending_held (AwaitApiVnc sessionId action endpoint) = []"
| "pending_held (AwaitApiTerminal sessionId action endpoint) = []"

definition held :: "state \<Rightarrow> (string \<times> nat option) list" where
  "held st =
     map (\<lambda>s. (ws_sid s, ws_statusEl s)) (sock_objs st)
     @ map (\<lambda>c. (rfb_sid c, rfb_statusEl c)) (rfb_objs st)
     @ concat (map pending_held (awaiting st))"

definition EL :: "(nat \<times> string) list \<Rightarrow> (string \<times> nat option) list \<Rightarrow> nat \<Rightarrow> bool" where
  "EL panes hs n \<longleftrightarrow>
     distinct (map fst panes) \<and> (\<forall>p\<in>set panes. fst p < n)
     \<and> (\<forall>h\<in>set hs. \<exists>e. snd h = Some e \<and> e < n
            \<and> (\<forall>p\<in>set panes. fst p = e \<longrightarrow> snd p = fst h))"

definition el_ok :: "state \<Rightarrow> bool" where
  "el_ok st \<longleftrightarrow> EL (pane_keys st) (held st) (next_el st)"

text \<open>
  What a terminal has been given to render: \<^verbatim>\<open>write(d)\<close> gives \<^verbatim>\<open>d\<close>, and \<^verbatim>\<open>writeln(d)\<close> gives
  \<^verbatim>\<open>d\<close> and a line break.
\<close>

fun op_data :: "term_op \<Rightarrow> string" where
  "op_data (Write d) = d"
| "op_data (Writeln d) = d @ [CHR 0x0D, CHR 0x0A]"

definition rendered :: "term_obj \<Rightarrow> string" where
  "rendered t = concat (map op_data (term_written t))"

section \<open>Properties\<close>

subsection \<open>What each function leaves alone\<close>

lemma set_status_fields [simp]:
  "page_of (set_status el t c st) = page_of st"
  "next_el (set_status el t c st) = next_el st"
  "consoleSessions (set_status el t c st) = consoleSessions st"
  "activeSessionId (set_status el t c st) = activeSessionId st"
  "viewer_hidden (set_status el t c st) = viewer_hidden st"
  "tabs (set_status el t c st) = tabs st"
  "rfbClients (set_status el t c st) = rfbClients st"
  "vncSessions (set_status el t c st) = vncSessions st"
  "termInstances (set_status el t c st) = termInstances st"
  "termSockets (set_status el t c st) = termSockets st"
  "termFitAddons (set_status el t c st) = termFitAddons st"
  "termSessions (set_status el t c st) = termSessions st"
  "rfb_objs (set_status el t c st) = rfb_objs st"
  "term_objs (set_status el t c st) = term_objs st"
  "sock_objs (set_status el t c st) = sock_objs st"
  "timers (set_status el t c st) = timers st"
  "awaiting (set_status el t c st) = awaiting st"
  "ui_status (set_status el t c st) = ui_status st"
  "api_calls (set_status el t c st) = api_calls st"
  by (simp_all add: set_status_def split: option.splits)

lemma showStatus_fields [simp]:
  "page_of (showStatus m ty st) = page_of st"
  "next_el (showStatus m ty st) = next_el st"
  "consoleSessions (showStatus m ty st) = consoleSessions st"
  "activeSessionId (showStatus m ty st) = activeSessionId st"
  "viewer_hidden (showStatus m ty st) = viewer_hidden st"
  "tabs (showStatus m ty st) = tabs st"
  "containers (showStatus m ty st) = containers st"
  "rfbClients (showStatus m ty st) = rfbClients st"
  "vncSessions (showStatus m ty st) = vncSessions st"
  "termInstances (showStatus m ty st) = termInstances st"
  "termSockets (showStatus m ty st) = termSockets st"
  "termFitAddons (showStatus m ty st) = termFitAddons st"
  "termSessions (showStatus m ty st) = termSessions st"
  "rfb_objs (showStatus m ty st) = rfb_objs st"
  "term_objs (showStatus m ty st) = term_objs st"
  "sock_objs (showStatus m ty st) = sock_objs st"
  "timers (showStatus m ty st) = timers st"
  "awaiting (showStatus m ty st) = awaiting st"
  "api_calls (showStatus m ty st) = api_calls st"
  by (simp_all add: showStatus_def)

lemma switchToTab_fields [simp]:
  "page_of (switchToTab k st) = page_of st"
  "next_el (switchToTab k st) = next_el st"
  "consoleSessions (switchToTab k st) = consoleSessions st"
  "viewer_hidden (switchToTab k st) = viewer_hidden st"
  "rfbClients (switchToTab k st) = rfbClients st"
  "vncSessions (switchToTab k st) = vncSessions st"
  "termInstances (switchToTab k st) = termInstances st"
  "termSockets (switchToTab k st) = termSockets st"
  "termFitAddons (switchToTab k st) = termFitAddons st"
  "termSessions (switchToTab k st) = termSessions st"
  "rfb_objs (switchToTab k st) = rfb_objs st"
  "term_objs (switchToTab k st) = term_objs st"
  "sock_objs (switchToTab k st) = sock_objs st"
  "timers (switchToTab k st) = timers st"
  "awaiting (switchToTab k st) = awaiting st"
  "ui_status (switchToTab k st) = ui_status st"
  "api_calls (switchToTab k st) = api_calls st"
  by (simp_all add: switchToTab_def)

lemma createTab_fields [simp]:
  "page_of (createTab k n ty ic st) = page_of st"
  "next_el (createTab k n ty ic st) = next_el st"
  "consoleSessions (createTab k n ty ic st) = consoleSessions st"
  "activeSessionId (createTab k n ty ic st) = activeSessionId st"
  "viewer_hidden (createTab k n ty ic st) = viewer_hidden st"
  "containers (createTab k n ty ic st) = containers st"
  "rfbClients (createTab k n ty ic st) = rfbClients st"
  "vncSessions (createTab k n ty ic st) = vncSessions st"
  "termInstances (createTab k n ty ic st) = termInstances st"
  "termSockets (createTab k n ty ic st) = termSockets st"
  "termFitAddons (createTab k n ty ic st) = termFitAddons st"
  "termSessions (createTab k n ty ic st) = termSessions st"
  "rfb_objs (createTab k n ty ic st) = rfb_objs st"
  "term_objs (createTab k n ty ic st) = term_objs st"
  "sock_objs (createTab k n ty ic st) = sock_objs st"
  "timers (createTab k n ty ic st) = timers st"
  "awaiting (createTab k n ty ic st) = awaiting st"
  "ui_status (createTab k n ty ic st) = ui_status st"
  "api_calls (createTab k n ty ic st) = api_calls st"
  by (simp_all add: createTab_def)

lemma term_write_fields [simp]:
  "page_of (term_write a w st) = page_of st"
  "next_el (term_write a w st) = next_el st"
  "consoleSessions (term_write a w st) = consoleSessions st"
  "activeSessionId (term_write a w st) = activeSessionId st"
  "viewer_hidden (term_write a w st) = viewer_hidden st"
  "tabs (term_write a w st) = tabs st"
  "containers (term_write a w st) = containers st"
  "rfbClients (term_write a w st) = rfbClients st"
  "vncSessions (term_write a w st) = vncSessions st"
  "termInstances (term_write a w st) = termInstances st"
  "termSockets (term_write a w st) = termSockets st"
  "termFitAddons (term_write a w st) = termFitAddons st"
  "termSessions (term_write a w st) = termSessions st"
  "rfb_objs (term_write a w st) = rfb_objs st"
  "sock_objs (term_write a w st) = sock_objs st"
  "timers (term_write a w st) = timers st"
  "awaiting (term_write a w st) = awaiting st"
  "ui_status (term_write a w st) = ui_status st"
  "api_calls (term_write a w st) = api_calls st"
  by (simp_all add: term_write_def)

lemma VNC_cleanup_fields [simp]:
  "page_of (VNCViewer_cleanupSession k st) = page_of st"
  "next_el (VNCViewer_cleanupSession k st) = next_el st"
  "consoleSessions (VNCViewer_cleanupSession k st) = consoleSessions st"
  "activeSessionId (VNCViewer_cleanupSession k st) = activeSessionId st"
  "viewer_hidden (VNCViewer_cleanupSession k st) = viewer_hidden st"
  "tabs (VNCViewer_cleanupSession k st) = tabs st"
  "containers (VNCViewer_cleanupSession k st) = containers st"
  "termInstances (VNCViewer_cleanupSession k st) = termInstances st"
  "termSockets (VNCViewer_cleanupSession k st) = termSockets st"
  "termFitAddons (VNCViewer_cleanupSession k st) = termFitAddons st"
  "termSessions (VNCViewer_cleanupSession k st) = termSessions st"
  "term_objs (VNCViewer_cleanupSession k st) = term_objs st"
  "sock_objs (VNCViewer_cleanupSession k st) = sock_objs st"
  "timers (VNCViewer_cleanupSession k st) = timers st"
  "awaiting (VNCViewer_cleanupSession k st) = awaiting st"
  "ui_status (VNCViewer_cleanupSession k st) = ui_status st"
  "api_calls (VNCViewer_cleanupSession k st) = api_calls st"
  by (simp_all add: VNCViewer_cleanupSession_def Let_def split: option.splits)

lemma Terminal_cleanup_fields [simp]:
  "page_of (TerminalManager_cleanupSession k st) = page_of st"
  "next_el (TerminalManager_cleanupSession k st) = next_el st"
  "consoleSessions (TerminalManager_cleanupSession k st) = consoleSessions st"
  "activeSessionId (TerminalManager_cleanupSession k st) = activeSessionId st"
  "viewer_hidden (TerminalManager_cleanupSession k st) = viewer_hidden st"
  "tabs (TerminalManager_cleanupSession k st) = tabs st"
  "containers (TerminalManager_cleanupSession k st) = containers st"
  "rfbClients (TerminalManager_cleanupSession k st) = rfbClients st"
  "vncSessions (TerminalManager_cleanupSession k st) = vncSessions st"
  "rfb_objs (TerminalManager_cleanupSession k st) = rfb_objs st"
  "timers (TerminalManager_cleanupSession k st) = timers st"
  "awaiting (TerminalManager_cleanupSession k st) = awaiting st"
  "ui_status (TerminalManager_cleanupSession k st) = ui_status st"
  "api_calls (TerminalManager_cleanupSession k st) = api_calls st"
  by (simp_all add: TerminalManager_cleanupSession_def Let_def split: option.splits)

lemma launchVnc_fields [simp]:
  "page_of (snd (launchVncInContainer a b c d e st)) = page_of st"
  "next_el (snd (launchVncInContainer a b c d e st)) = next_el st"
  "consoleSessions (snd (launchVncInContainer a b c d e st)) = consoleSessions st"
  "activeSessionId (snd (launchVncInContainer a b c d e st)) = activeSessionId st"
  "viewer_hidden (snd (launchVncInContainer a b c d e st)) = viewer_hidden st"
  "tabs (snd (launchVncInContainer a b c d e st)) = tabs st"
  "rfbClients (snd (launchVncInContainer a b c d e st)) = rfbClients st"
  "termInstances (snd (launchVncInContainer a b c d e st)) = termInstances st"
  "termSockets (snd (launchVncInContainer a b c d e st)) = termSockets st"
  "termFitAddons (snd (launchVncInContainer a b c d e st)) = termFitAddons st"
  "termSessions (snd (launchVncInContainer a b c d e st)) = termSessions st"
  "rfb_objs (snd (launchVncInContainer a b c d e st)) = rfb_objs st"
  "term_objs (snd (launchVncInContainer a b c d e st)) = term_objs st"
  "sock_objs (snd (launchVncInContainer a b c d e st)) = sock_objs st"
  "timers (snd (launchVncInContainer a b c d e st)) = timers st"
  "ui_status (snd (launchVncInContainer a b c d e st)) = ui_status st"
  "api_calls (snd (launchVncInContainer a b c d e st)) = api_calls st"
  by (simp_all add: launchVncInContainer_def Let_def split: option.splits)

lemma launchVnc_fieldsD:
  assumes "launchVncInContainer a b c d e st = (r, st')"
  shows "next_el st' = next_el st \<and> page_of st' = page_of st \<and> consoleSessions st' = consoleSessions st \<and>
         activeSessionId st' = activeSessionId st \<and> viewer_hidden st' =
         viewer_hidden st \<and> tabs st' = tabs st \<and> rfbClients st' = rfbClients st
         \<and> termInstances st' = termInstances st \<and> termSockets st' = termSockets
         st \<and> termFitAddons st' = termFitAddons st \<and> termSessions st' =
         termSessions st \<and> rfb_objs st' = rfb_objs st \<and> term_objs st' =
         term_objs st \<and> sock_objs st' = sock_objs st \<and> timers st' = timers st
         \<and> ui_status st' = ui_status st \<and> api_calls st' = api_calls st"
proof -
  have "st' = snd (launchVncInContainer a b c d e st)" using assms by simp
  then show ?thesis by simp
qed

lemma launchVnc_resume_fields [simp]:
  "page_of (snd (launchVncInContainer_resume tip a b p el st)) = page_of st"
  "next_el (snd (launchVncInContainer_resume tip a b p el st)) = next_el st"
  "consoleSessions (snd (launchVncInContainer_resume tip a b p el st)) = consoleSessions st"
  "activeSessionId (snd (launchVncInContainer_resume tip a b p el st)) = activeSessionId st"
  "viewer_hidden (snd (launchVncInContainer_resume tip a b p el st)) = viewer_hidden st"
  "tabs (snd (launchVncInContainer_resume tip a b p el st)) = tabs st"
  "vncSessions (snd (launchVncInContainer_resume tip a b p el st)) = vncSessions st"
  "termInstances (snd (launchVncInContainer_resume tip a b p el st)) = termInstances st"
  "termSockets (snd (launchVncInContainer_resume tip a b p el st)) = termSockets st"
  "termFitAddons (snd (launchVncInContainer_resume tip a b p el st)) = termFitAddons st"
  "termSessions (snd (launchVncInContainer_resume tip a b p el st)) = termSessions st"
  "term_objs (snd (launchVncInContainer_resume tip a b p el st)) = term_objs st"
  "sock_objs (snd (launchVncInContainer_resume tip a b p el st)) = sock_objs st"
  "timers (snd (launchVncInContainer_resume tip a b p el st)) = timers st"
  "awaiting (snd (launchVncInContainer_resume tip a b p el st)) = awaiting st"
  "api_calls (snd (launchVncInContainer_resume tip a b p el st)) = api_calls st"
  by (simp_all add: launchVncInContainer_resume_def Let_def)

lemma launchVnc_resume_fieldsD:
  assumes "launchVncInContainer_resume tip a b p el st = (r, st')"
  shows "next_el st' = next_el st \<and> page_of st' = page_of st \<and> consoleSessions st' = consoleSessions st \<and>
         activeSessionId st' = activeSessionId st \<and> viewer_hidden st' =
         viewer_hidden st \<and> tabs st' = tabs st \<and> vncSessions st' = vncSessions
         st \<and> termInstances st' = termInstances st \<and> termSockets st' =
         termSockets st \<and> termFitAddons st' = termFitAddons st \<and> termSessions
         st' = termSessions st \<and> term_objs st' = term_objs st \<and> sock_objs st' =
         sock_objs st \<and> timers st' = timers st \<and> awaiting st' = awaiting st
         \<and> api_calls st' = api_calls st"
proof -
  have "st' = snd (launchVncInContainer_resume tip a b p el st)" using assms by simp
  then show ?thesis by simp
qed

lemma launchTerminal_fields [simp]:
  "page_of (snd (launchTerminalInContainer a b c d st)) = page_of st"
  "next_el (snd (launchTerminalInContainer a b c d st)) = next_el st"
  "consoleSessions (snd (launchTerminalInContainer a b c d st)) = consoleSessions st"
  "activeSessionId (snd (launchTerminalInContainer a b c d st)) = activeSessionId st"
  "viewer_hidden (snd (launchTerminalInContainer a b c d st)) = viewer_hidden st"
  "tabs (snd (launchTerminalInContainer a b c d st)) = tabs st"
  "rfbClients (snd (launchTerminalInContainer a b c d st)) = rfbClients st"
  "vncSessions (snd (launchTerminalInContainer a b c d st)) = vncSessions st"
  "rfb_objs (snd (launchTerminalInContainer a b c d st)) = rfb_objs st"
  "timers (snd (launchTerminalInContainer a b c d st)) = timers st"
  "awaiting (snd (launchTerminalInContainer a b c d st)) = awaiting st"
  "ui_status (snd (launchTerminalInContainer a b c d st)) = ui_status st"
  "api_calls (snd (launchTerminalInContainer a b c d st)) = api_calls st"
  by (simp_all add: launchTerminalInContainer_def Let_def)

lemma launchTerminal_fieldsD:
  assumes "launchTerminalInContainer a b c d st = (r, st')"
  shows "next_el st' = next_el st \<and> page_of st' = page_of st \<and> consoleSessions st' = consoleSessions st \<and>
         activeSessionId st' = activeSessionId st \<and> viewer_hidden st' =
         viewer_hidden st \<and> tabs st' = tabs st \<and> rfbClients st' = rfbClients st
         \<and> vncSessions st' = vncSessions st \<and> rfb_objs st' = rfb_objs st \<and>
         timers st' = timers st \<and> awaiting st' = awaiting st \<and> ui_status st' =
         ui_status st \<and> api_calls st' = api_calls st"
proof -
  have "st' = snd (launchTerminalInContainer a b c d st)" using assms by simp
  then show ?thesis by simp
qed

lemma initVncSession_fields [simp]:
  "page_of (initVncSession a b c st) = page_of st"
  "consoleSessions (initVncSession a b c st) = consoleSessions st"
  "activeSessionId (initVncSession a b c st) = activeSessionId st"
  "viewer_hidden (initVncSession a b c st) = viewer_hidden st"
  "tabs (initVncSession a b c st) = tabs st"
  "rfbClients (initVncSession a b c st) = rfbClients st"
  "termInstances (initVncSession a b c st) = termInstances st"
  "termSockets (initVncSession a b c st) = termSockets st"
  "termFitAddons (initVncSession a b c st) = termFitAddons st"
  "termSessions (initVncSession a b c st) = termSessions st"
  "rfb_objs (initVncSession a b c st) = rfb_objs st"
  "term_objs (initVncSession a b c st) = term_objs st"
  "sock_objs (initVncSession a b c st) = sock_objs st"
  "timers (initVncSession a b c st) = timers st"
  "api_calls (initVncSession a b c st) = api_calls st"
proof -
  obtain r st' where l: "launchVncInContainer a b c (''canvas-'' @ a) (''status-'' @ a)
      (st\<lparr>containers := containers st @
        [\<lparr> cont_el = next_el st, cont_sid = a, cont_kind = ''vnc-content'',
           cont_title = ''VNC Console: '' @ b, cont_hidden = False,
           status_text = ''Connecting...'',
           status_class = ''console-status console-status-info'' \<rparr>],
        next_el := Suc (next_el st)\<rparr>) = (r, st')"
    by fastforce
  note f = launchVnc_fieldsD[OF l]
  show "page_of (initVncSession a b c st) = page_of st"
    "consoleSessions (initVncSession a b c st) = consoleSessions st"
    "activeSessionId (initVncSession a b c st) = activeSessionId st"
    "viewer_hidden (initVncSession a b c st) = viewer_hidden st"
    "tabs (initVncSession a b c st) = tabs st"
    "rfbClients (initVncSession a b c st) = rfbClients st"
    "termInstances (initVncSession a b c st) = termInstances st"
    "termSockets (initVncSession a b c st) = termSockets st"
    "termFitAddons (initVncSession a b c st) = termFitAddons st"
    "termSessions (initVncSession a b c st) = termSessions st"
    "rfb_objs (initVncSession a b c st) = rfb_objs st"
    "term_objs (initVncSession a b c st) = term_objs st"
    "sock_objs (initVncSession a b c st) = sock_objs st"
    "timers (initVncSession a b c st) = timers st"
    "api_calls (initVncSession a b c st) = api_calls st"
    using l f by (simp_all add: initVncSession_def Let_def split: option.splits)
qed

lemma initVncSession_resume_fields [simp]:
  "page_of (initVncSession_resume tip a b p el st) = page_of st"
  "next_el (initVncSession_resume tip a b p el st) = next_el st"
  "activeSessionId (initVncSession_resume tip a b p el st) = activeSessionId st"
  "viewer_hidden (initVncSession_resume tip a b p el st) = viewer_hidden st"
  "tabs (initVncSession_resume tip a b p el st) = tabs st"
  "vncSessions (initVncSession_resume tip a b p el st) = vncSessions st"
  "termInstances (initVncSession_resume tip a b p el st) = termInstances st"
  "termSockets (initVncSession_resume tip a b p el st) = termSockets st"
  "termFitAddons (initVncSession_resume tip a b p el st) = termFitAddons st"
  "termSessions (initVncSession_resume tip a b p el st) = termSessions st"
  "term_objs (initVncSession_resume tip a b p el st) = term_objs st"
  "sock_objs (initVncSession_resume tip a b p el st) = sock_objs st"
  "timers (initVncSession_resume tip a b p el st) = timers st"
  "awaiting (initVncSession_resume tip a b p el st) = awaiting st"
  "api_calls (initVncSession_resume tip a b p el st) = api_calls st"
proof -
  obtain r st' where l: "launchVncInContainer_resume tip a b p el st = (r, st')"
    by fastforce
  note f = launchVnc_resume_fieldsD[OF l]
  show "page_of (initVncSession_resume tip a b p el st) = page_of st"
       "next_el (initVncSession_resume tip a b p el st) = next_el st"
    "activeSessionId (initVncSession_resume tip a b p el st) = activeSessionId st"
    "viewer_hidden (initVncSession_resume tip a b p el st) = viewer_hidden st"
    "tabs (initVncSession_resume tip a b p el st) = tabs st"
    "vncSessions (initVncSession_resume tip a b p el st) = vncSessions st"
    "termInstances (initVncSession_resume tip a b p el st) = termInstances st"
    "termSockets (initVncSession_resume tip a b p el st) = termSockets st"
    "termFitAddons (initVncSession_resume tip a b p el st) = termFitAddons st"
    "termSessions (initVncSession_resume tip a b p el st) = termSessions st"
    "term_objs (initVncSession_resume tip a b p el st) = term_objs st"
    "sock_objs (initVncSession_resume tip a b p el st) = sock_objs st"
    "timers (initVncSession_resume tip a b p el st) = timers st"
    "awaiting (initVncSession_resume tip a b p el st) = awaiting st"
    "api_calls (initVncSession_resume tip a b p el st) = api_calls st"
    using l f by (simp_all add: initVncSession_resume_def Let_def split: option.splits)
qed

lemma initTerminalSession_fields [simp]:
  "page_of (initTerminalSession a b st) = page_of st"
  "activeSessionId (initTerminalSession a b st) = activeSessionId st"
  "viewer_hidden (initTerminalSession a b st) = viewer_hidden st"
  "tabs (initTerminalSession a b st) = tabs st"
  "rfbClients (initTerminalSession a b st) = rfbClients st"
  "vncSessions (initTerminalSession a b st) = vncSessions st"
  "rfb_objs (initTerminalSession a b st) = rfb_objs st"
  "timers (initTerminalSession a b st) = timers st"
  "awaiting (initTerminalSession a b st) = awaiting st"
  "api_calls (initTerminalSession a b st) = api_calls st"
proof -
  obtain r st' where l: "launchTerminalInContainer a b (''terminal-'' @ a) (''status-'' @ a)
      (st\<lparr>containers := containers st @
        [\<lparr> cont_el = next_el st, cont_sid = a, cont_kind = ''terminal-content'',
           cont_title = ''Terminal Console: '' @ b, cont_hidden = False,
           status_text = ''Connecting...'',
           status_class = ''console-status console-status-info'' \<rparr>],
        next_el := Suc (next_el st)\<rparr>) = (r, st')"
    by fastforce
  note f = launchTerminal_fieldsD[OF l]
  show "page_of (initTerminalSession a b st) = page_of st"
    "activeSessionId (initTerminalSession a b st) = activeSessionId st"
    "viewer_hidden (initTerminalSession a b st) = viewer_hidden st"
    "tabs (initTerminalSession a b st) = tabs st"
    "rfbClients (initTerminalSession a b st) = rfbClients st"
    "vncSessions (initTerminalSession a b st) = vncSessions st"
    "rfb_objs (initTerminalSession a b st) = rfb_objs st"
    "timers (initTerminalSession a b st) = timers st"
    "awaiting (initTerminalSession a b st) = awaiting st"
    "api_calls (initTerminalSession a b st) = api_calls st"
    using l f by (simp_all add: initTerminalSession_def Let_def split: option.splits)
qed

lemma rfb_onconnect_fields [simp]:
  "page_of (rfb_onconnect cl st) = page_of st"
  "next_el (rfb_onconnect cl st) = next_el st"
  "consoleSessions (rfb_onconnect cl st) = consoleSessions st"
  "activeSessionId (rfb_onconnect cl st) = activeSessionId st"
  "viewer_hidden (rfb_onconnect cl st) = viewer_hidden st"
  "tabs (rfb_onconnect cl st) = tabs st"
  "rfbClients (rfb_onconnect cl st) = rfbClients st"
  "vncSessions (rfb_onconnect cl st) = vncSessions st"
  "termInstances (rfb_onconnect cl st) = termInstances st"
  "termSockets (rfb_onconnect cl st) = termSockets st"
  "termFitAddons (rfb_onconnect cl st) = termFitAddons st"
  "termSessions (rfb_onconnect cl st) = termSessions st"
  "rfb_objs (rfb_onconnect cl st) = rfb_objs st"
  "term_objs (rfb_onconnect cl st) = term_objs st"
  "sock_objs (rfb_onconnect cl st) = sock_objs st"
  "timers (rfb_onconnect cl st) = timers st"
  "awaiting (rfb_onconnect cl st) = awaiting st"
  "api_calls (rfb_onconnect cl st) = api_calls st"
  by (simp_all add: rfb_onconnect_def Let_def)

lemma rfb_onsecurityfailure_fields [simp]:
  "page_of (rfb_onsecurityfailure cl m st) = page_of st"
  "next_el (rfb_onsecurityfailure cl m st) = next_el st"
  "consoleSessions (rfb_onsecurityfailure cl m st) = consoleSessions st"
  "activeSessionId (rfb_onsecurityfailure cl m st) = activeSessionId st"
  "viewer_hidden (rfb_onsecurityfailure cl m st) = viewer_hidden st"
  "tabs (rfb_onsecurityfailure cl m st) = tabs st"
  "rfbClients (rfb_onsecurityfailure cl m st) = rfbClients st"
  "vncSessions (rfb_onsecurityfailure cl m st) = vncSessions st"
  "termInstances (rfb_onsecurityfailure cl m st) = termInstances st"
  "termSockets (rfb_onsecurityfailure cl m st) = termSockets st"
  "termFitAddons (rfb_onsecurityfailure cl m st) = termFitAddons st"
  "termSessions (rfb_onsecurityfailure cl m st) = termSessions st"
  "rfb_objs (rfb_onsecurityfailure cl m st) = rfb_objs st"
  "term_objs (rfb_onsecurityfailure cl m st) = term_objs st"
  "sock_objs (rfb_onsecurityfailure cl m st) = sock_objs st"
  "timers (rfb_onsecurityfailure cl m st) = timers st"
  "awaiting (rfb_onsecurityfailure cl m st) = awaiting st"
  "api_calls (rfb_onsecurityfailure cl m st) = api_calls st"
  by (simp_all add: rfb_onsecurityfailure_def Let_def)

lemma socket_onopen_fields [simp]:
  "page_of (socket_onopen so st) = page_of st"
  "next_el (socket_onopen so st) = next_el st"
  "consoleSessions (socket_onopen so st) = consoleSessions st"
  "activeSessionId (socket_onopen so st) = activeSessionId st"
  "viewer_hidden (socket_onopen so st) = viewer_hidden st"
  "tabs (socket_onopen so st) = tabs st"
  "rfbClients (socket_onopen so st) = rfbClients st"
  "vncSessions (socket_onopen so st) = vncSessions st"
  "termInstances (socket_onopen so st) = termInstances st"
  "termSockets (socket_onopen so st) = termSockets st"
  "termFitAddons (socket_onopen so st) = termFitAddons st"
  "termSessions (socket_onopen so st) = termSessions st"
  "rfb_objs (socket_onopen so st) = rfb_objs st"
  "sock_objs (socket_onopen so st) = sock_objs st"
  "timers (socket_onopen so st) = timers st"
  "awaiting (socket_onopen so st) = awaiting st"
  "ui_status (socket_onopen so st) = ui_status st"
  "api_calls (socket_onopen so st) = api_calls st"
  by (simp_all add: socket_onopen_def Let_def)

lemma socket_onmessage_fields [simp]:
  "page_of (socket_onmessage so d st) = page_of st"
  "next_el (socket_onmessage so d st) = next_el st"
  "consoleSessions (socket_onmessage so d st) = consoleSessions st"
  "activeSessionId (socket_onmessage so d st) = activeSessionId st"
  "viewer_hidden (socket_onmessage so d st) = viewer_hidden st"
  "tabs (socket_onmessage so d st) = tabs st"
  "containers (socket_onmessage so d st) = containers st"
  "rfbClients (socket_onmessage so d st) = rfbClients st"
  "vncSessions (socket_onmessage so d st) = vncSessions st"
  "termInstances (socket_onmessage so d st) = termInstances st"
  "termSockets (socket_onmessage so d st) = termSockets st"
  "termFitAddons (socket_onmessage so d st) = termFitAddons st"
  "termSessions (socket_onmessage so d st) = termSessions st"
  "rfb_objs (socket_onmessage so d st) = rfb_objs st"
  "sock_objs (socket_onmessage so d st) = sock_objs st"
  "timers (socket_onmessage so d st) = timers st"
  "awaiting (socket_onmessage so d st) = awaiting st"
  "ui_status (socket_onmessage so d st) = ui_status st"
  "api_calls (socket_onmessage so d st) = api_calls st"
  by (simp_all add: socket_onmessage_def)

lemma socket_onerror_fields [simp]:
  "page_of (socket_onerror so st) = page_of st"
  "next_el (socket_onerror so st) = next_el st"
  "consoleSessions (socket_onerror so st) = consoleSessions st"
  "activeSessionId (socket_onerror so st) = activeSessionId st"
  "viewer_hidden (socket_onerror so st) = viewer_hidden st"
  "tabs (socket_onerror so st) = tabs st"
  "rfbClients (socket_onerror so st) = rfbClients st"
  "vncSessions (socket_onerror so st) = vncSessions st"
  "termInstances (socket_onerror so st) = termInstances st"
  "termSockets (socket_onerror so st) = termSockets st"
  "termFitAddons (socket_onerror so st) = termFitAddons st"
  "termSessions (socket_onerror so st) = termSessions st"
  "rfb_objs (socket_onerror so st) = rfb_objs st"
  "sock_objs (socket_onerror so st) = sock_objs st"
  "awaiting (socket_onerror so st) = awaiting st"
  "ui_status (socket_onerror so st) = ui_status st"
  "api_calls (socket_onerror so st) = api_calls st"
  by (simp_all add: socket_onerror_def Let_def)

lemma socket_onclose_fields [simp]:
  "page_of (socket_onclose so st) = page_of st"
  "next_el (socket_onclose so st) = next_el st"
  "consoleSessions (socket_onclose so st) = consoleSessions st"
  "activeSessionId (socket_onclose so st) = activeSessionId st"
  "viewer_hidden (socket_onclose so st) = viewer_hidden st"
  "tabs (socket_onclose so st) = tabs st"
  "rfbClients (socket_onclose so st) = rfbClients st"
  "vncSessions (socket_onclose so st) = vncSessions st"
  "termInstances (socket_onclose so st) = termInstances st"
  "termSockets (socket_onclose so st) = termSockets st"
  "termFitAddons (socket_onclose so st) = termFitAddons st"
  "termSessions (socket_onclose so st) = termSessions st"
  "rfb_objs (socket_onclose so st) = rfb_objs st"
  "sock_objs (socket_onclose so st) = sock_objs st"
  "awaiting (socket_onclose so st) = awaiting st"
  "ui_status (socket_onclose so st) = ui_status st"
  "api_calls (socket_onclose so st) = api_calls st"
  by (simp_all add: socket_onclose_def Let_def)

lemma vncControl_fields [simp]:
  "page_of (vncControl k a st) = page_of st"
  "next_el (vncControl k a st) = next_el st"
  "consoleSessions (vncControl k a st) = consoleSessions st"
  "activeSessionId (vncControl k a st) = activeSessionId st"
  "viewer_hidden (vncControl k a st) = viewer_hidden st"
  "tabs (vncControl k a st) = tabs st"
  "containers (vncControl k a st) = containers st"
  "rfbClients (vncControl k a st) = rfbClients st"
  "vncSessions (vncControl k a st) = vncSessions st"
  "termInstances (vncControl k a st) = termInstances st"
  "termSockets (vncControl k a st) = termSockets st"
  "termFitAddons (vncControl k a st) = termFitAddons st"
  "termSessions (vncControl k a st) = termSessions st"
  "rfb_objs (vncControl k a st) = rfb_objs st"
  "term_objs (vncControl k a st) = term_objs st"
  "sock_objs (vncControl k a st) = sock_objs st"
  "timers (vncControl k a st) = timers st"
  "ui_status (vncControl k a st) = ui_status st"
  by (simp_all add: vncControl_def split: option.splits)

lemma terminalControl_fields [simp]:
  "page_of (terminalControl k a st) = page_of st"
  "next_el (terminalControl k a st) = next_el st"
  "consoleSessions (terminalControl k a st) = consoleSessions st"
  "activeSessionId (terminalControl k a st) = activeSessionId st"
  "viewer_hidden (terminalControl k a st) = viewer_hidden st"
  "tabs (terminalControl k a st) = tabs st"
  "containers (terminalControl k a st) = containers st"
  "rfbClients (terminalControl k a st) = rfbClients st"
  "vncSessions (terminalControl k a st) = vncSessions st"
  "termInstances (terminalControl k a st) = termInstances st"
  "termSockets (terminalControl k a st) = termSockets st"
  "termFitAddons (terminalControl k a st) = termFitAddons st"
  "termSessions (terminalControl k a st) = termSessions st"
  "rfb_objs (terminalControl k a st) = rfb_objs st"
  "term_objs (terminalControl k a st) = term_objs st"
  "sock_objs (terminalControl k a st) = sock_objs st"
  "timers (terminalControl k a st) = timers st"
  "ui_status (terminalControl k a st) = ui_status st"
  by (simp_all add: terminalControl_def split: option.splits)

lemma vncControl_resume_fields [simp]:
  "page_of (vncControl_resume k a r st) = page_of st"
  "next_el (vncControl_resume k a r st) = next_el st"
  "consoleSessions (vncControl_resume k a r st) = consoleSessions st"
  "activeSessionId (vncControl_resume k a r st) = activeSessionId st"
  "viewer_hidden (vncControl_resume k a r st) = viewer_hidden st"
  "tabs (vncControl_resume k a r st) = tabs st"
  "containers (vncControl_resume k a r st) = containers st"
  "rfbClients (vncControl_resume k a r st) = rfbClients st"
  "vncSessions (vncControl_resume k a r st) = vncSessions st"
  "termInstances (vncControl_resume k a r st) = termInstances st"
  "termSockets (vncControl_resume k a r st) = termSockets st"
  "termFitAddons (vncControl_resume k a r st) = termFitAddons st"
  "termSessions (vncControl_resume k a r st) = termSessions st"
  "rfb_objs (vncControl_resume k a r st) = rfb_objs st"
  "term_objs (vncControl_resume k a r st) = term_objs st"
  "sock_objs (vncControl_resume k a r st) = sock_objs st"
  "awaiting (vncControl_resume k a r st) = awaiting st"
  "api_calls (vncControl_resume k a r st) = api_calls st"
  by (simp_all add: vncControl_resume_def Let_def)

lemma terminalControl_resume_fields [simp]:
  "page_of (terminalControl_resume k a r st) = page_of st"
  "next_el (terminalControl_resume k a r st) = next_el st"
  "consoleSessions (terminalControl_resume k a r st) = consoleSessions st"
  "activeSessionId (terminalControl_resume k a r st) = activeSessionId st"
  "viewer_hidden (terminalControl_resume k a r st) = viewer_hidden st"
  "tabs (terminalControl_resume k a r st) = tabs st"
  "containers (terminalControl_resume k a r st) = containers st"
  "rfbClients (terminalControl_resume k a r st) = rfbClients st"
  "vncSessions (terminalControl_resume k a r st) = vncSessions st"
  "termInstances (terminalControl_resume k a r st) = termInstances st"
  "termSockets (terminalControl_resume k a r st) = termSockets st"
  "termFitAddons (terminalControl_resume k a r st) = termFitAddons st"
  "termSessions (terminalControl_resume k a r st) = termSessions st"
  "rfb_objs (terminalControl_resume k a r st) = rfb_objs st"
  "term_objs (terminalControl_resume k a r st) = term_objs st"
  "sock_objs (terminalControl_resume k a r st) = sock_objs st"
  "awaiting (terminalControl_resume k a r st) = awaiting st"
  "api_calls (terminalControl_resume k a r st) = api_calls st"
  by (simp_all add: terminalControl_resume_def Let_def)

lemma apiCall_reply_fields [simp]:
  "page_of (snd (apiCall_reply ok quiet v st)) = page_of st"
  "consoleSessions (snd (apiCall_reply ok quiet v st)) = consoleSessions st"
  "activeSessionId (snd (apiCall_reply ok quiet v st)) = activeSessionId st"
  "viewer_hidden (snd (apiCall_reply ok quiet v st)) = viewer_hidden st"
  "tabs (snd (apiCall_reply ok quiet v st)) = tabs st"
  "containers (snd (apiCall_reply ok quiet v st)) = containers st"
  "rfbClients (snd (apiCall_reply ok quiet v st)) = rfbClients st"
  "vncSessions (snd (apiCall_reply ok quiet v st)) = vncSessions st"
  "termInstances (snd (apiCall_reply ok quiet v st)) = termInstances st"
  "termSockets (snd (apiCall_reply ok quiet v st)) = termSockets st"
  "termFitAddons (snd (apiCall_reply ok quiet v st)) = termFitAddons st"
  "termSessions (snd (apiCall_reply ok quiet v st)) = termSessions st"
  "rfb_objs (snd (apiCall_reply ok quiet v st)) = rfb_objs st"
  "term_objs (snd (apiCall_reply ok quiet v st)) = term_objs st"
  "sock_objs (snd (apiCall_reply ok quiet v st)) = sock_objs st"
  "timers (snd (apiCall_reply ok quiet v st)) = timers st"
  "awaiting (snd (apiCall_reply ok quiet v st)) = awaiting st"
  "api_calls (snd (apiCall_reply ok quiet v st)) = api_calls st"
  "next_el (snd (apiCall_reply ok quiet v st)) = next_el st"
  by (simp_all add: apiCall_reply_def network_error_def split: json_value.splits)

lemma apiCall_fields [simp]:
  "page_of (snd (apiCall endpoint outcome st)) = page_of st"
  "consoleSessions (snd (apiCall endpoint outcome st)) = consoleSessions st"
  "activeSessionId (snd (apiCall endpoint outcome st)) = activeSessionId st"
  "viewer_hidden (snd (apiCall endpoint outcome st)) = viewer_hidden st"
  "tabs (snd (apiCall endpoint outcome st)) = tabs st"
  "containers (snd (apiCall endpoint outcome st)) = containers st"
  "rfbClients (snd (apiCall endpoint outcome st)) = rfbClients st"
  "vncSessions (snd (apiCall endpoint outcome st)) = vncSessions st"
  "termInstances (snd (apiCall endpoint outcome st)) = termInstances st"
  "termSockets (snd (apiCall endpoint outcome st)) = termSockets st"
  "termFitAddons (snd (apiCall endpoint outcome st)) = termFitAddons st"
  "termSessions (snd (apiCall endpoint outcome st)) = termSessions st"
  "rfb_objs (snd (apiCall endpoint outcome st)) = rfb_objs st"
  "term_objs (snd (apiCall endpoint outcome st)) = term_objs st"
  "sock_objs (snd (apiCall endpoint outcome st)) = sock_objs st"
  "timers (snd (apiCall endpoint outcome st)) = timers st"
  "awaiting (snd (apiCall endpoint outcome st)) = awaiting st"
  "api_calls (snd (apiCall endpoint outcome st)) = api_calls st"
  "next_el (snd (apiCall endpoint outcome st)) = next_el st"
  by (simp_all add: apiCall_def network_error_def Let_def
      split: http_outcome.splits http_body.splits)

lemma apiCall_fieldsD:
  assumes "apiCall endpoint outcome st = (r, st')"
  shows "page_of st' = page_of st \<and> consoleSessions st' = consoleSessions st \<and>
         activeSessionId st' = activeSessionId st \<and> viewer_hidden st' =
         viewer_hidden st \<and> tabs st' = tabs st \<and> containers st' = containers st
         \<and> rfbClients st' = rfbClients st \<and> vncSessions st' = vncSessions st
         \<and> termInstances st' = termInstances st \<and> termSockets st' = termSockets
         st \<and> termFitAddons st' = termFitAddons st \<and> termSessions st' =
         termSessions st \<and> rfb_objs st' = rfb_objs st \<and> term_objs st' =
         term_objs st \<and> sock_objs st' = sock_objs st \<and> timers st' = timers st
         \<and> awaiting st' = awaiting st \<and> api_calls st' = api_calls st \<and>
         next_el st' = next_el st"
proof -
  have "st' = snd (apiCall endpoint outcome st)" using assms by simp
  then show ?thesis by simp
qed

lemma api_settled_fields [simp]:
  "page_of (api_settled i outcome st) = page_of st"
  "consoleSessions (api_settled i outcome st) = consoleSessions st"
  "activeSessionId (api_settled i outcome st) = activeSessionId st"
  "viewer_hidden (api_settled i outcome st) = viewer_hidden st"
  "tabs (api_settled i outcome st) = tabs st"
  "containers (api_settled i outcome st) = containers st"
  "rfbClients (api_settled i outcome st) = rfbClients st"
  "vncSessions (api_settled i outcome st) = vncSessions st"
  "termInstances (api_settled i outcome st) = termInstances st"
  "termSockets (api_settled i outcome st) = termSockets st"
  "termFitAddons (api_settled i outcome st) = termFitAddons st"
  "termSessions (api_settled i outcome st) = termSessions st"
  "rfb_objs (api_settled i outcome st) = rfb_objs st"
  "term_objs (api_settled i outcome st) = term_objs st"
  "sock_objs (api_settled i outcome st) = sock_objs st"
  "api_calls (api_settled i outcome st) = api_calls st"
  "next_el (api_settled i outcome st) = next_el st"
  by (simp_all add: api_settled_def split_beta split: pending.splits)

lemma clipboard_settled_fields [simp]:
  "page_of (clipboard_settled i tip st) = page_of st"
  "next_el (clipboard_settled i tip st) = next_el st"
  "activeSessionId (clipboard_settled i tip st) = activeSessionId st"
  "viewer_hidden (clipboard_settled i tip st) = viewer_hidden st"
  "tabs (clipboard_settled i tip st) = tabs st"
  "vncSessions (clipboard_settled i tip st) = vncSessions st"
  "termInstances (clipboard_settled i tip st) = termInstances st"
  "termSockets (clipboard_settled i tip st) = termSockets st"
  "termFitAddons (clipboard_settled i tip st) = termFitAddons st"
  "termSessions (clipboard_settled i tip st) = termSessions st"
  "term_objs (clipboard_settled i tip st) = term_objs st"
  "sock_objs (clipboard_settled i tip st) = sock_objs st"
  "timers (clipboard_settled i tip st) = timers st"
  "api_calls (clipboard_settled i tip st) = api_calls st"
  by (simp_all add: clipboard_settled_def split: pending.splits)

lemma click_tab_fields [simp]:
  "page_of (click_tab k st) = page_of st"
  "next_el (click_tab k st) = next_el st"
  "consoleSessions (click_tab k st) = consoleSessions st"
  "viewer_hidden (click_tab k st) = viewer_hidden st"
  "rfbClients (click_tab k st) = rfbClients st"
  "vncSessions (click_tab k st) = vncSessions st"
  "termInstances (click_tab k st) = termInstances st"
  "termSockets (click_tab k st) = termSockets st"
  "termFitAddons (click_tab k st) = termFitAddons st"
  "termSessions (click_tab k st) = termSessions st"
  "rfb_objs (click_tab k st) = rfb_objs st"
  "term_objs (click_tab k st) = term_objs st"
  "sock_objs (click_tab k st) = sock_objs st"
  "timers (click_tab k st) = timers st"
  "awaiting (click_tab k st) = awaiting st"
  "ui_status (click_tab k st) = ui_status st"
  "api_calls (click_tab k st) = api_calls st"
  by (simp_all add: click_tab_def)

subsection \<open>What each function does to the registry\<close>

lemma consoleSessions_closeTab:
  "consoleSessions (closeTab k st) = AList.delete k (consoleSessions st)"
proof (cases "map_of (consoleSessions st) k")
  case None
  then have "k \<notin> fst ` set (consoleSessions st)" by (simp add: map_of_eq_None_iff)
  then show ?thesis using None by (simp add: closeTab_def)
next
  case (Some s)
  then show ?thesis
    by (simp add: closeTab_def Let_def cleanupVncSession_def cleanupTerminalSession_def
        split: list.splits)
qed

lemma closeTab_removes: "map_of (consoleSessions (closeTab k st)) k = None"
  by (simp add: consoleSessions_closeTab AList.delete_conv')

lemma reg_keys_switchToTab [simp]: "reg_keys (switchToTab k st) = reg_keys st"
  by (simp add: reg_keys_def)

lemma tab_keys_switchToTab [simp]: "tab_keys (switchToTab k st) = tab_keys st"
  by (simp add: tab_keys_def switchToTab_def comp_def)

lemma active_switchToTab [simp]: "activeSessionId (switchToTab k st) = Some k"
  by (simp add: switchToTab_def)

lemma map_delete_keys:
  "map (\<lambda>p. (fst p, g (snd p))) (AList.delete k xs)
   = filter (\<lambda>p. fst p \<noteq> k) (map (\<lambda>p. (fst p, g (snd p))) xs)"
  by (induction xs) auto

lemma reg_keys_closeTab: "reg_keys (closeTab k st) = filter (\<lambda>p. fst p \<noteq> k) (reg_keys st)"
  by (simp add: reg_keys_def consoleSessions_closeTab map_delete_keys)

lemma map_remove_first:
  "(\<And>x. Q (f x) = P x) \<Longrightarrow> map f (remove_first P xs) = remove_first Q (map f xs)"
  by (induction xs) auto

lemma tab_keys_closeTab:
  "tab_keys (closeTab k st) =
     (if map_of (consoleSessions st) k = None then tab_keys st
      else remove_first (\<lambda>p. fst p = k) (tab_keys st))"
proof (cases "map_of (consoleSessions st) k")
  case None
  then show ?thesis by (simp add: closeTab_def)
next
  case (Some s)
  have "map (\<lambda>t. (tab_sid t, tab_name t)) (remove_first (\<lambda>t. tab_sid t = k) ts)
        = remove_first (\<lambda>p. fst p = k) (map (\<lambda>t. (tab_sid t, tab_name t)) ts)" for ts :: "tab list"
    by (rule map_remove_first) simp
  with Some show ?thesis
    by (simp add: closeTab_def Let_def cleanupVncSession_def cleanupTerminalSession_def
        tab_keys_def switchToTab_def comp_def split: list.splits)
qed

lemma active_closeTab:
  "activeSessionId (closeTab k st) =
     (if map_of (consoleSessions st) k \<noteq> None \<and> activeSessionId st = Some k
      then (case AList.delete k (consoleSessions st) of [] \<Rightarrow> None | p # rest \<Rightarrow> Some (fst p))
      else activeSessionId st)"
proof (cases "map_of (consoleSessions st) k")
  case None
  then show ?thesis by (simp add: closeTab_def)
next
  case (Some s)
  then show ?thesis
    by (simp add: closeTab_def Let_def cleanupVncSession_def cleanupTerminalSession_def
        split: list.splits)
qed


lemma map_entry_keys:
  "(\<And>v. g (f v) = g v) \<Longrightarrow>
   map (\<lambda>p. (fst p, g (snd p))) (AList.map_entry k f xs) = map (\<lambda>p. (fst p, g (snd p))) xs"
  by (induction xs) auto

lemma reg_keys_init_resume [simp]:
  "reg_keys (initVncSession_resume tip a b c d st) = reg_keys st"
proof -
  obtain r st' where l: "launchVncInContainer_resume tip a b c d st = (r, st')"
    by fastforce
  note f = launchVnc_resume_fieldsD[OF l]
  show ?thesis
    using l f
    by (simp add: initVncSession_resume_def reg_keys_def map_entry_keys split: option.splits)
qed

lemma reg_keys_initTerminalSession [simp]:
  "reg_keys (initTerminalSession a b st) = reg_keys st"
proof -
  obtain r st' where l: "launchTerminalInContainer a b (''terminal-'' @ a) (''status-'' @ a)
      (st\<lparr>containers := containers st @
        [\<lparr> cont_el = next_el st, cont_sid = a, cont_kind = ''terminal-content'',
           cont_title = ''Terminal Console: '' @ b, cont_hidden = False,
           status_text = ''Connecting...'',
           status_class = ''console-status console-status-info'' \<rparr>],
        next_el := Suc (next_el st)\<rparr>) = (r, st')"
    by fastforce
  note f = launchTerminal_fieldsD[OF l]
  show ?thesis
    using l f
    by (simp add: initTerminalSession_def reg_keys_def map_entry_keys Let_def
        split: option.splits)
qed

lemma reg_keys_clipboard_settled [simp]:
  "reg_keys (clipboard_settled i tip st) = reg_keys st"
  by (simp add: clipboard_settled_def split: pending.splits) (simp add: reg_keys_def)










lemma reg_keys_cong: "consoleSessions st' = consoleSessions st \<Longrightarrow> reg_keys st' = reg_keys st"
  by (simp add: reg_keys_def)

lemma tab_keys_cong: "tabs st' = tabs st \<Longrightarrow> tab_keys st' = tab_keys st"
  by (simp add: tab_keys_def)





subsection \<open>The invariant of the registry and the tab bar\<close>

lemma remove_first_filter:
  "distinct (map f xs) \<Longrightarrow> remove_first (\<lambda>x. f x = k) xs = filter (\<lambda>x. f x \<noteq> k) xs"
proof (induction xs)
  case Nil
  then show ?case by simp
next
  case (Cons x xs)
  show ?case
  proof (cases "f x = k")
    case True
    with Cons.prems have "\<forall>y\<in>set xs. f y \<noteq> k" by (auto simp: image_iff)
    then have "filter (\<lambda>x. f x \<noteq> k) xs = xs" by (simp add: filter_id_conv)
    with True show ?thesis by simp
  next
    case False
    with Cons show ?thesis by simp
  qed
qed

lemma REG_filter: "REG r \<Longrightarrow> REG (filter P r)"
  by (auto simp: REG_def distinct_map_filter)

lemma update_snd_distinct:
  "distinct (map snd r) \<Longrightarrow> v \<notin> snd ` set r \<Longrightarrow> distinct (map snd (AList.update k v r))"
proof (induction r)
  case Nil
  then show ?case by simp
next
  case (Cons p r)
  have sub: "snd ` set (AList.update k v r) \<subseteq> insert v (snd ` set r)"
    by (induction r) auto
  from Cons show ?case using sub by (auto simp: image_iff) 
qed

lemma REG_update:
  assumes "REG r" "v \<notin> snd ` set r" "k \<noteq> []"
  shows "REG (AList.update k v r)"
proof -
  have "distinct (map fst (AList.update k v r))"
    using assms(1) by (simp add: REG_def AList.distinct_update)
  moreover have "distinct (map snd (AList.update k v r))"
    using assms(1,2) by (simp add: REG_def update_snd_distinct)
  moreover have "[] \<notin> fst ` set (AList.update k v r)"
    using assms(1,3) by (simp add: REG_def AList.dom_update)
  ultimately show ?thesis by (simp add: REG_def)
qed

lemma TABS_switch: "TABS r t a \<Longrightarrow> k \<in> fst ` set r \<Longrightarrow> TABS r t (Some k)"
  by (simp add: TABS_def)

lemma TABS_close:
  assumes "TABS r t a"
  shows "TABS (filter (\<lambda>p. fst p \<noteq> k) r) (remove_first (\<lambda>p. fst p = k) t)
           (if a = Some k
            then (case filter (\<lambda>p. fst p \<noteq> k) r of [] \<Rightarrow> None | p # rest \<Rightarrow> Some (fst p))
            else a)"
proof -
  let ?r = "filter (\<lambda>p. fst p \<noteq> k) r"
  from assms have dt: "distinct (map fst t)" and sub: "set t \<subseteq> set r"
    by (simp_all add: TABS_def)
  have t': "remove_first (\<lambda>p. fst p = k) t = filter (\<lambda>p. fst p \<noteq> k) t"
    using dt by (rule remove_first_filter)
  have 1: "distinct (map fst (filter (\<lambda>p. fst p \<noteq> k) t))"
    using dt by (simp add: distinct_map_filter)
  have 2: "set (filter (\<lambda>p. fst p \<noteq> k) t) \<subseteq> set ?r" using sub by auto
  have 3: "(case (if a = Some k
            then (case ?r of [] \<Rightarrow> None | p # rest \<Rightarrow> Some (fst p))
            else a) of None \<Rightarrow> ?r = [] | Some k' \<Rightarrow> k' \<in> fst ` set ?r)"
  proof (cases "a = Some k")
    case True
    show ?thesis
    proof (cases ?r)
      case Nil
      with True show ?thesis by simp
    next
      case (Cons p rest)
      then have "p \<in> set ?r" by simp
      with True Cons show ?thesis by (simp add: image_iff) 
    qed
  next
    case False
    show ?thesis
    proof (cases a)
      case None
      with assms have "r = []" by (simp add: TABS_def)
      with None show ?thesis by simp
    next
      case (Some k')
      with assms have "k' \<in> fst ` set r" by (simp add: TABS_def)
      moreover from Some False have "k' \<noteq> k" by simp
      ultimately have "k' \<in> fst ` set ?r" by auto
      with Some False show ?thesis by simp
    qed
  qed
  show ?thesis unfolding TABS_def t' using 1 2 3 by blast
qed

lemma TABS_open:
  assumes "TABS r t a" "k \<notin> fst ` set r"
  shows "TABS (r @ [(k, v)]) (t @ [(k, v)]) (Some k)" and "TABS (r @ [(k, v)]) t (Some k)"
proof -
  from assms have dt: "distinct (map fst t)" and sub: "set t \<subseteq> set r"
    by (simp_all add: TABS_def)
  from sub assms(2) have "k \<notin> fst ` set t" by auto
  with dt sub show "TABS (r @ [(k, v)]) (t @ [(k, v)]) (Some k)"
    by (auto simp: TABS_def)
  from dt sub show "TABS (r @ [(k, v)]) t (Some k)"
    by (auto simp: TABS_def)
qed


lemma find_loop_Some:
  "findSessionByName_loop name cs = Some e \<Longrightarrow>
   (e, name) \<in> set (map (\<lambda>p. (fst p, sess_name (snd p))) cs)"
  by (induction cs) (auto split: if_splits)

lemma find_loop_None_all:
  "findSessionByName_loop name cs = None \<Longrightarrow> \<forall>p\<in>set cs. sess_name (snd p) \<noteq> name"
  by (induction cs) (force split: if_splits)+

lemma find_loop_None:
  "findSessionByName_loop name cs = None \<Longrightarrow>
   name \<notin> snd ` set (map (\<lambda>p. (fst p, sess_name (snd p))) cs)"
  using find_loop_None_all[of name cs] by (auto simp: image_iff)

lemma findSessionByName_Some:
  "findSessionByName name st = Some e \<Longrightarrow> (e, name) \<in> set (reg_keys st)"
  unfolding findSessionByName_def reg_keys_def by (rule find_loop_Some)

lemma findSessionByName_None:
  "findSessionByName name st = None \<Longrightarrow> name \<notin> snd ` set (reg_keys st)"
  unfolding findSessionByName_def reg_keys_def by (rule find_loop_None)

lemma map_update_keys:
  "map (\<lambda>p. (fst p, g (snd p))) (AList.update k v xs)
   = AList.update k (g v) (map (\<lambda>p. (fst p, g (snd p))) xs)"
  by (induction xs) auto

lemma update_append: "k \<notin> fst ` set r \<Longrightarrow> AList.update k v r = r @ [(k, v)]"
  by (induction r) auto

lemma reg_keys_frames [simp]:
  "reg_keys (set_status el t c st) = reg_keys st"
  "reg_keys (showStatus m ty st) = reg_keys st"
  "reg_keys (initVncSession a b p st) = reg_keys st"
  "reg_keys (vncControl k a st) = reg_keys st"
  "reg_keys (terminalControl k a st) = reg_keys st"
  "reg_keys (api_settled i r st) = reg_keys st"
  "reg_keys (rfb_onconnect cl st) = reg_keys st"
  "reg_keys (rfb_onsecurityfailure cl m st) = reg_keys st"
  "reg_keys (socket_onopen so st) = reg_keys st"
  "reg_keys (socket_onmessage so d st) = reg_keys st"
  "reg_keys (socket_onerror so st) = reg_keys st"
  "reg_keys (socket_onclose so st) = reg_keys st"
  by (simp_all add: reg_keys_def)

lemma tab_keys_frames [simp]:
  "tab_keys (set_status el t c st) = tab_keys st"
  "tab_keys (showStatus m ty st) = tab_keys st"
  "tab_keys (initVncSession a b p st) = tab_keys st"
  "tab_keys (initTerminalSession a b st) = tab_keys st"
  "tab_keys (vncControl k a st) = tab_keys st"
  "tab_keys (terminalControl k a st) = tab_keys st"
  "tab_keys (api_settled i r st) = tab_keys st"
  "tab_keys (rfb_onconnect cl st) = tab_keys st"
  "tab_keys (rfb_onsecurityfailure cl m st) = tab_keys st"
  "tab_keys (socket_onopen so st) = tab_keys st"
  "tab_keys (socket_onmessage so d st) = tab_keys st"
  "tab_keys (socket_onerror so st) = tab_keys st"
  "tab_keys (socket_onclose so st) = tab_keys st"
  "tab_keys (clipboard_settled i tip st) = tab_keys st"
  "tab_keys (initVncSession_resume tip a b p' el st) = tab_keys st"
  by (simp_all add: tab_keys_def)

lemma openConsole_existing:
  "findSessionByName name st = Some e \<Longrightarrow> e \<noteq> [] \<Longrightarrow>
   openConsole name ty port icon now rnd st = switchToTab e st"
  by (simp add: openConsole_def truthy_str_def)

lemma openConsole_new:
  assumes "\<not> truthy_str (findSessionByName name st)"
  shows "reg_keys (openConsole name ty port icon now rnd st)
           = AList.update (''console-'' @ now @ ''-'' @ rnd) name (reg_keys st)"
    and "tab_keys (openConsole name ty port icon now rnd st)
           = (if has_tab_bar (page_of st)
              then tab_keys st @ [(''console-'' @ now @ ''-'' @ rnd, name)] else tab_keys st)"
    and "activeSessionId (openConsole name ty port icon now rnd st)
           = Some (''console-'' @ now @ ''-'' @ rnd)"
  using assms
  by (simp_all add: openConsole_def Let_def createTab_def)
     (simp_all add: reg_keys_def tab_keys_def map_update_keys switchToTab_def comp_def)


lemma key_in_reg: "k \<in> fst ` set (reg_keys st) \<longleftrightarrow> map_of (consoleSessions st) k \<noteq> None"
  by (simp add: reg_keys_def map_of_eq_None_iff image_image)

lemma reg_ok_closeTab: "reg_ok st \<Longrightarrow> reg_ok (closeTab k st)"
  by (simp add: reg_ok_def reg_keys_closeTab REG_filter)

lemma active_closeTab_keys:
  "activeSessionId (closeTab k st) =
     (if map_of (consoleSessions st) k \<noteq> None \<and> activeSessionId st = Some k
      then (case reg_keys (closeTab k st) of [] \<Rightarrow> None | p # rest \<Rightarrow> Some (fst p))
      else activeSessionId st)"
  by (simp add: active_closeTab reg_keys_def consoleSessions_closeTab split: list.splits)

lemma tabs_ok_closeTab:
  assumes "tabs_ok st"
  shows "tabs_ok (closeTab k st)"
proof (cases "map_of (consoleSessions st) k")
  case None
  then show ?thesis using assms by (simp add: closeTab_def)
next
  case (Some s)
  have "TABS (filter (\<lambda>p. fst p \<noteq> k) (reg_keys st))
          (remove_first (\<lambda>p. fst p = k) (tab_keys st))
          (if activeSessionId st = Some k
           then (case filter (\<lambda>p. fst p \<noteq> k) (reg_keys st) of [] \<Rightarrow> None
                 | p # rest \<Rightarrow> Some (fst p))
           else activeSessionId st)"
    using assms unfolding tabs_ok_def by (rule TABS_close)
  with Some show ?thesis
    by (simp add: tabs_ok_def reg_keys_closeTab tab_keys_closeTab active_closeTab_keys
        split: if_splits)
qed

lemma reg_ok_openConsole:
  assumes "reg_ok st"
  shows "reg_ok (openConsole name ty port icon now rnd st)"
proof (cases "truthy_str (findSessionByName name st)")
  case True
  then obtain e where "findSessionByName name st = Some e" "e \<noteq> []"
    by (auto simp: truthy_str_def split: option.splits)
  then show ?thesis using assms by (simp add: openConsole_existing reg_ok_def)
next
  case False
  have none: "findSessionByName name st = None"
  proof (cases "findSessionByName name st")
    case None
    then show ?thesis .
  next
    case (Some e)
    with False have "e = []" by (simp add: truthy_str_def)
    with Some have "([], name) \<in> set (reg_keys st)" by (auto dest: findSessionByName_Some)
    then have "[] \<in> fst ` set (reg_keys st)" by (force simp: image_iff)
    with assms show ?thesis by (simp add: reg_ok_def REG_def)
  qed
  then have "name \<notin> snd ` set (reg_keys st)" by (rule findSessionByName_None)
  with assms have "REG (AList.update (''console-'' @ now @ ''-'' @ rnd) name (reg_keys st))"
    unfolding reg_ok_def by (intro REG_update) simp_all
  with False show ?thesis by (simp add: reg_ok_def openConsole_new)
qed

lemma tabs_ok_openConsole:
  assumes "reg_ok st" "tabs_ok st"
    and "map_of (consoleSessions st) (''console-'' @ now @ ''-'' @ rnd) = None"
  shows "tabs_ok (openConsole name ty port icon now rnd st)"
proof (cases "truthy_str (findSessionByName name st)")
  case True
  then obtain e where e: "findSessionByName name st = Some e" "e \<noteq> []"
    by (auto simp: truthy_str_def split: option.splits)
  then have "e \<in> fst ` set (reg_keys st)" by (force dest: findSessionByName_Some simp: image_iff)
  with assms(2) e show ?thesis by (simp add: openConsole_existing tabs_ok_def TABS_switch)
next
  case False
  let ?k = "''console-'' @ now @ ''-'' @ rnd"
  from assms(3) have fresh: "?k \<notin> fst ` set (reg_keys st)" by (simp add: key_in_reg)
  then have upd: "AList.update ?k name (reg_keys st) = reg_keys st @ [(?k, name)]"
    by (rule update_append)
  from assms(2) fresh have
    "TABS (reg_keys st @ [(?k, name)]) (tab_keys st @ [(?k, name)]) (Some ?k)"
    "TABS (reg_keys st @ [(?k, name)]) (tab_keys st) (Some ?k)"
    unfolding tabs_ok_def by (rule TABS_open)+
  with False upd show ?thesis by (simp add: tabs_ok_def openConsole_new)
qed

lemma tabs_ok_click: "tabs_ok st \<Longrightarrow> tabs_ok (click_tab k st)"
proof -
  assume ok: "tabs_ok st"
  show ?thesis
  proof (cases "list_ex (\<lambda>t. tab_sid t = k) (tabs st)")
    case True
    then have "k \<in> fst ` set (tab_keys st)" by (force simp: list_ex_iff tab_keys_def image_iff)
    with ok have "k \<in> fst ` set (reg_keys st)" by (auto simp: tabs_ok_def TABS_def)
    with ok True show ?thesis by (simp add: click_tab_def tabs_ok_def TABS_switch)
  next
    case False
    with ok show ?thesis by (simp add: click_tab_def)
  qed
qed

lemma ok_cong:
  "reg_keys st' = reg_keys st \<Longrightarrow> reg_ok st' = reg_ok st"
  "reg_keys st' = reg_keys st \<Longrightarrow> tab_keys st' = tab_keys st \<Longrightarrow>
   activeSessionId st' = activeSessionId st \<Longrightarrow> tabs_ok st' = tabs_ok st"
  by (simp_all add: reg_ok_def tabs_ok_def)

lemma reg_ok_step: "reg_ok st \<Longrightarrow> reg_ok (step e st)"
proof (cases e)
  case (OpenConsole name ty port icon now rnd)
  assume "reg_ok st" then show ?thesis using OpenConsole by (simp add: reg_ok_openConsole)
next
  case (CloseTab k)
  assume "reg_ok st" then show ?thesis using CloseTab by (simp add: reg_ok_closeTab)
next
  case (ClickTab k)
  assume "reg_ok st" then show ?thesis using ClickTab by (simp add: click_tab_def reg_ok_def)
next
  case (TimerFired i)
  assume ok: "reg_ok st"
  then have "reg_ok (st\<lparr>timers := drop_nth i (timers st)\<rparr>)" by (simp add: reg_ok_def reg_keys_def)
  then show ?thesis using TimerFired ok by (simp add: timer_fired_def reg_ok_closeTab)
next
  case (RfbDisconnect c clean)
  assume ok: "reg_ok st"
  then have "reg_ok (set_status el t cl st)" for el t cl by (simp add: reg_ok_def)
  then show ?thesis using RfbDisconnect ok
    by (simp add: rfb_ondisconnect_def Let_def reg_ok_closeTab)
qed (simp_all add: reg_ok_def)

lemma tabs_ok_step:
  assumes "reg_ok st" "tabs_ok st" "fresh_id e st"
  shows "tabs_ok (step e st)"
proof (cases e)
  case (OpenConsole name ty port icon now rnd)
  then show ?thesis using assms by (simp add: fresh_id_def tabs_ok_openConsole)
next
  case (CloseTab k)
  then show ?thesis using assms by (simp add: tabs_ok_closeTab)
next
  case (ClickTab k)
  then show ?thesis using assms by (simp add: tabs_ok_click)
next
  case (TimerFired i)
  have "tabs_ok (st\<lparr>timers := drop_nth i (timers st)\<rparr>)"
    using assms(2) by (simp add: tabs_ok_def reg_keys_def tab_keys_def)
  then show ?thesis using TimerFired assms by (simp add: timer_fired_def tabs_ok_closeTab)
next
  case (RfbDisconnect c clean)
  have "tabs_ok (set_status el t cl st)" for el t cl using assms(2) by (simp add: tabs_ok_def)
  then show ?thesis using RfbDisconnect assms
    by (simp add: rfb_ondisconnect_def Let_def tabs_ok_closeTab)
qed (use assms in \<open>simp_all add: tabs_ok_def\<close>)

lemma ok_run:
  "reg_ok st \<Longrightarrow> tabs_ok st \<Longrightarrow> fresh_ids evs st \<Longrightarrow> reg_ok (run evs st) \<and> tabs_ok (run evs st)"
proof (induction evs arbitrary: st)
  case Nil
  then show ?case by simp
next
  case (Cons e evs)
  from Cons.prems have "reg_ok (step e st)" "tabs_ok (step e st)" "fresh_ids evs (step e st)"
    by (simp_all add: reg_ok_step tabs_ok_step)
  then show ?case using Cons.IH by simp
qed

lemma ok_init: "reg_ok (init_state pg h)" "tabs_ok (init_state pg h)"
  by (simp_all add: reg_ok_def tabs_ok_def REG_def TABS_def reg_keys_def tab_keys_def init_state_def)

subsection \<open>The invariant of the sockets\<close>

lemma length_term_write [simp]: "length (term_objs (term_write a w st)) = length (term_objs st)"
  by (simp add: term_write_def obj_update_def)

lemma length_obj_update [simp]: "length (obj_update a f xs) = length xs"
  by (simp add: obj_update_def)

lemma map_obj_update: "(\<And>x. g (f x) = g x) \<Longrightarrow> map g (obj_update a f xs) = map g xs"
  by (simp add: obj_update_def map_update list_update_same_conv)

lemma SOCK_mono: "SOCK ts so n \<Longrightarrow> set ts' \<subseteq> set ts \<Longrightarrow> SOCK ts' so n"
  by (auto simp: SOCK_def)

lemma set_delete_subset: "set (AList.delete k xs) \<subseteq> set xs"
  by (auto simp: AList.delete_eq)

lemma set_update_subset: "set (AList.update k v xs) \<subseteq> insert (k, v) (set xs)"
  by (induction xs) auto

lemma SOCK_new:
  assumes "SOCK ts so n"
  shows "SOCK (AList.update k (length so) ts) (so @ [(k, n)]) (Suc n)"
proof -
  let ?new = "(k, n)"
  have "snd p < length (so @ [?new]) \<and> fst ((so @ [?new]) ! snd p) = fst p"
    if "p \<in> set (AList.update k (length so) ts)" for p
  proof -
    from that set_update_subset[of k "length so" ts]
    consider "p = (k, length so)" | "p \<in> set ts" by auto
    then show ?thesis
    proof cases
      case 1
      then show ?thesis by simp
    next
      case 2
      with assms have "snd p < length so" "fst (so ! snd p) = fst p" by (auto simp: SOCK_def)
      then show ?thesis by (simp add: nth_append)
    qed
  qed
  moreover have "\<forall>s\<in>set (so @ [?new]). snd s < Suc n"
    using assms by (auto simp: SOCK_def less_Suc_eq)
  ultimately show ?thesis unfolding SOCK_def by blast
qed

lemma sock_ok_cong:
  "termSockets st' = termSockets st \<Longrightarrow> sock_objs st' = sock_objs st \<Longrightarrow>
   length (term_objs st') = length (term_objs st) \<Longrightarrow> sock_ok st' = sock_ok st"
  by (simp add: sock_ok_def)

lemma sock_ok_Terminal_cleanup:
  assumes "sock_ok st"
  shows "sock_ok (TerminalManager_cleanupSession k st)"
proof -
  have 1: "set (termSockets (TerminalManager_cleanupSession k st)) \<subseteq> set (termSockets st)"
    using set_delete_subset[of k "termSockets st"]
    by (auto simp: TerminalManager_cleanupSession_def Let_def split: option.splits)
  have 2: "map sock_key (sock_objs (TerminalManager_cleanupSession k st))
           = map sock_key (sock_objs st)"
    by (simp add: TerminalManager_cleanupSession_def Let_def map_obj_update sock_key_def
        split: option.splits)
  have 3: "length (term_objs (TerminalManager_cleanupSession k st)) = length (term_objs st)"
    by (simp add: TerminalManager_cleanupSession_def Let_def split: option.splits)
  from assms show ?thesis unfolding sock_ok_def 2 3 using 1 by (rule SOCK_mono)
qed

lemma sock_ok_closeTab:
  assumes "sock_ok st"
  shows "sock_ok (closeTab k st)"
proof (cases "map_of (consoleSessions st) k")
  case None
  then show ?thesis using assms by (simp add: closeTab_def)
next
  case (Some s)
  let ?c = "if sess_type s = ''vnc'' then cleanupVncSession k st
            else if sess_type s = ''terminal'' then cleanupTerminalSession k st else st"
  have c: "sock_ok ?c"
    using assms sock_ok_Terminal_cleanup[OF assms, of k]
    by (simp add: cleanupVncSession_def cleanupTerminalSession_def sock_ok_def)
  have "sock_ok (closeTab k st) = sock_ok ?c"
    using Some
    by (intro sock_ok_cong)
       (simp_all add: closeTab_def Let_def split: list.splits)
  with c show ?thesis by simp
qed


lemma launchTerminal_sock:
  assumes "launchTerminalInContainer a b c d st = (r, st')"
  shows "(r \<noteq> None \<and> st' = st)
       \<or> (r = None
          \<and> termSockets st' = AList.update a (length (sock_objs st)) (termSockets st)
          \<and> map sock_key (sock_objs st')
              = map sock_key (sock_objs st) @ [(a, length (term_objs st))]
          \<and> length (term_objs st') = Suc (length (term_objs st)))"
  using assms
  by (auto simp: launchTerminalInContainer_def Let_def sock_key_def find_status_def
      split: if_splits)

lemma sock_ok_initTerminalSession:
  assumes "sock_ok st"
  shows "sock_ok (initTerminalSession a b st)"
proof (cases "map_of (consoleSessions st) a = None \<or> \<not> has_area (page_of st)")
  case True
  then show ?thesis using assms by (auto simp: initTerminalSession_def split: option.splits)
next
  case False
  let ?st1 = "st\<lparr>containers := containers st @
                        [\<lparr> cont_el = next_el st, cont_sid = a, cont_kind = ''terminal-content'',
                           cont_title = ''Terminal Console: '' @ b, cont_hidden = False,
                           status_text = ''Connecting...'',
                           status_class = ''console-status console-status-info'' \<rparr>],
        next_el := Suc (next_el st)\<rparr>"
  obtain r st2 where l:
    "launchTerminalInContainer a b (''terminal-'' @ a) (''status-'' @ a) ?st1 = (r, st2)"
    by fastforce
  have ok1: "sock_ok ?st1" using assms by (simp add: sock_ok_def)
  have ok2: "sock_ok st2"
    using launchTerminal_sock[OF l]
  proof
    assume "r \<noteq> None \<and> st2 = ?st1"
    with ok1 show ?thesis by simp
  next
    assume n: "r = None
          \<and> termSockets st2 = AList.update a (length (sock_objs ?st1)) (termSockets ?st1)
          \<and> map sock_key (sock_objs st2)
              = map sock_key (sock_objs ?st1) @ [(a, length (term_objs ?st1))]
          \<and> length (term_objs st2) = Suc (length (term_objs ?st1))"
    from ok1 have "SOCK (AList.update a (length (map sock_key (sock_objs ?st1)))
                     (termSockets ?st1))
                   (map sock_key (sock_objs ?st1) @ [(a, length (term_objs ?st1))])
                   (Suc (length (term_objs ?st1)))"
      unfolding sock_ok_def by (rule SOCK_new)
    with n show ?thesis by (simp add: sock_ok_def)
  qed
  from False obtain s where s: "map_of (consoleSessions st) a = Some s" and ar: "has_area (page_of st)"
    by auto
  have "sock_ok (initTerminalSession a b st) = sock_ok st2"
    using s ar l
    by (intro sock_ok_cong) (simp_all add: initTerminalSession_def Let_def split: option.splits)
  with ok2 show ?thesis by simp
qed

lemma openConsole_new_unfold:
  assumes "\<not> truthy_str (findSessionByName name st)"
  shows "\<exists>st4. page_of st4 = page_of st
            \<and> rfbClients st4 = rfbClients st
            \<and> vncSessions st4 = vncSessions st
            \<and> termInstances st4 = termInstances st
            \<and> termSockets st4 = termSockets st
            \<and> termFitAddons st4 = termFitAddons st
            \<and> termSessions st4 = termSessions st
            \<and> rfb_objs st4 = rfb_objs st
            \<and> term_objs st4 = term_objs st
            \<and> sock_objs st4 = sock_objs st
            \<and> timers st4 = timers st
            \<and> awaiting st4 = awaiting st
            \<and> ui_status st4 = ui_status st
            \<and> api_calls st4 = api_calls st
            \<and> openConsole name ty port icon now rnd st =
               (if ty = ''vnc'' then initVncSession (''console-'' @ now @ ''-'' @ rnd) name port st4
                else if ty = ''terminal''
                then initTerminalSession (''console-'' @ now @ ''-'' @ rnd) name st4 else st4)"
proof -
  let ?k = "''console-'' @ now @ ''-'' @ rnd"
  let ?st1 = "st\<lparr>consoleSessions := AList.update ?k
               \<lparr> sess_id = ?k, sess_name = name, sess_type = ty,
                  sess_port = port, sess_icon = icon, sess_instance = None \<rparr> (consoleSessions st)\<rparr>"
  let ?st2 = "if has_viewer (page_of ?st1) then ?st1\<lparr>viewer_hidden := False\<rparr> else ?st1"
  let ?st4 = "switchToTab ?k (createTab ?k name ty icon ?st2)"
  have o: "openConsole name ty port icon now rnd st =
               (if ty = ''vnc'' then initVncSession ?k name port ?st4
                else if ty = ''terminal'' then initTerminalSession ?k name ?st4 else ?st4)"
    using assms by (simp add: openConsole_def Let_def)
  have f: "page_of ?st4 = page_of st" "rfbClients ?st4 = rfbClients st" "vncSessions ?st4 =
    vncSessions st" "termInstances ?st4 = termInstances st" "termSockets ?st4 = termSockets
    st" "termFitAddons ?st4 = termFitAddons st" "termSessions ?st4 = termSessions st"
    "rfb_objs ?st4 = rfb_objs st" "term_objs ?st4 = term_objs st" "sock_objs ?st4 = sock_objs
    st" "timers ?st4 = timers st" "awaiting ?st4 = awaiting st" "ui_status ?st4 = ui_status
    st" "api_calls ?st4 = api_calls st"
    by simp_all
  show ?thesis
    by (rule exI[of _ ?st4]) (use o f in blast)
qed

lemma sock_ok_openConsole:
  assumes "sock_ok st"
  shows "sock_ok (openConsole name ty port icon now rnd st)"
proof (cases "truthy_str (findSessionByName name st)")
  case True
  then obtain e where "findSessionByName name st = Some e" "e \<noteq> []"
    by (auto simp: truthy_str_def split: option.splits)
  then show ?thesis using assms by (simp add: openConsole_existing sock_ok_def)
next
  case False
  define k where "k = ''console-'' @ now @ ''-'' @ rnd"
  from openConsole_new_unfold[OF False, of ty port icon now rnd]
  obtain st4 where f: "termSockets st4 = termSockets st" "sock_objs st4 = sock_objs st"
      "term_objs st4 = term_objs st"
    and o: "openConsole name ty port icon now rnd st =
               (if ty = ''vnc'' then initVncSession k name port st4
                else if ty = ''terminal'' then initTerminalSession k name st4 else st4)"
    unfolding k_def by blast
  have ok4: "sock_ok st4" using assms f by (simp add: sock_ok_def)
  have v: "sock_ok (initVncSession k name port st4)"
    using ok4 by (simp add: sock_ok_def)
  have t: "sock_ok (initTerminalSession k name st4)"
    using ok4 by (rule sock_ok_initTerminalSession)
  show ?thesis unfolding o using ok4 v t by presburger
qed

lemma sock_ok_frames:
  "sock_ok (set_status el t c st) = sock_ok st"
  "sock_ok (showStatus m ty' st) = sock_ok st"
  "sock_ok (switchToTab k st) = sock_ok st"
  "sock_ok (term_write a w st) = sock_ok st"
  "sock_ok (st\<lparr>timers := tm\<rparr>) = sock_ok st"
  "sock_ok (st\<lparr>awaiting := aw\<rparr>) = sock_ok st"
  by (simp_all add: sock_ok_def)

lemma sock_ok_step: "sock_ok st \<Longrightarrow> sock_ok (step e st)"
proof (cases e)
  case (OpenConsole name ty port icon now rnd)
  assume "sock_ok st" then show ?thesis using OpenConsole by (simp add: sock_ok_openConsole)
next
  case (CloseTab k)
  assume "sock_ok st" then show ?thesis using CloseTab by (simp add: sock_ok_closeTab)
next
  case (ClickTab k)
  assume "sock_ok st" then show ?thesis using ClickTab by (simp add: click_tab_def sock_ok_frames)
next
  case (VncControl k a)
  assume "sock_ok st" then show ?thesis using VncControl
    by (simp add: vncControl_def sock_ok_def split: option.splits)
next
  case (TerminalControl k a)
  assume "sock_ok st" then show ?thesis using TerminalControl
    by (simp add: terminalControl_def sock_ok_def split: option.splits)
next
  case (ClipboardSettled i tip)
  assume ok: "sock_ok st"
  have "sock_ok (initVncSession_resume tip a b p el s) = sock_ok s" for a b p el s
  proof -
    obtain r s' where l: "launchVncInContainer_resume tip a b p el s = (r, s')" by fastforce
    then have "s' = snd (launchVncInContainer_resume tip a b p el s)" by simp
    then have "termSockets s' = termSockets s" "sock_objs s' = sock_objs s" "term_objs s' = term_objs s"
      by simp_all
    then show ?thesis using l
      by (simp add: initVncSession_resume_def sock_ok_def split: option.splits)
  qed
  then show ?thesis using ClipboardSettled ok
    by (simp add: clipboard_settled_def sock_ok_frames split: pending.splits)
next
  case (ApiSettled i r)
  assume "sock_ok st" then show ?thesis using ApiSettled
    by (simp add: sock_ok_def)
next
  case (TimerFired i)
  assume "sock_ok st" then show ?thesis using TimerFired
    by (simp add: timer_fired_def sock_ok_closeTab sock_ok_frames)
next
  case (RfbConnect c)
  assume "sock_ok st" then show ?thesis using RfbConnect
    by (simp add: rfb_onconnect_def Let_def sock_ok_frames)
next
  case (RfbDisconnect c clean)
  assume "sock_ok st" then show ?thesis using RfbDisconnect
    by (simp add: rfb_ondisconnect_def Let_def sock_ok_closeTab sock_ok_frames)
next
  case (RfbSecurityFailure c m)
  assume "sock_ok st" then show ?thesis using RfbSecurityFailure
    by (simp add: rfb_onsecurityfailure_def Let_def sock_ok_frames)
next
  case (SocketOpen a)
  assume "sock_ok st" then show ?thesis using SocketOpen
    by (simp add: socket_onopen_def Let_def sock_ok_frames)
next
  case (SocketMessage a d)
  assume "sock_ok st" then show ?thesis using SocketMessage
    by (simp add: socket_onmessage_def sock_ok_frames)
next
  case (SocketError a)
  assume "sock_ok st" then show ?thesis using SocketError
    by (simp add: socket_onerror_def Let_def sock_ok_frames)
next
  case (SocketClose a)
  assume "sock_ok st" then show ?thesis using SocketClose
    by (simp add: socket_onclose_def Let_def sock_ok_frames)
qed

lemma sock_ok_run: "sock_ok st \<Longrightarrow> sock_ok (run evs st)"
  by (induction evs arbitrary: st) (simp_all add: sock_ok_step)

lemma sock_ok_init: "sock_ok (init_state pg h)"
  by (simp add: sock_ok_def SOCK_def init_state_def)

subsection \<open>The invariant of the RFB clients\<close>

lemma RFB_mono: "RFB cl objs \<Longrightarrow> set cl' \<subseteq> set cl \<Longrightarrow> RFB cl' objs"
  by (auto simp: RFB_def)

lemma RFB_new:
  assumes "RFB cl objs"
  shows "RFB (AList.update k (length objs) cl) (objs @ [k])"
proof -
  have "snd p < length (objs @ [k]) \<and> (objs @ [k]) ! snd p = fst p"
    if "p \<in> set (AList.update k (length objs) cl)" for p
  proof -
    from that set_update_subset[of k "length objs" cl]
    consider "p = (k, length objs)" | "p \<in> set cl" by auto
    then show ?thesis
    proof cases
      case 1
      then show ?thesis by simp
    next
      case 2
      with assms have "snd p < length objs" "objs ! snd p = fst p" by (auto simp: RFB_def)
      then show ?thesis by (simp add: nth_append)
    qed
  qed
  then show ?thesis unfolding RFB_def by blast
qed

lemma set_drop_nth: "set (drop_nth i xs) \<subseteq> set xs"
  by (auto simp: drop_nth_def dest: in_set_takeD in_set_dropD)

lemma rfb_ok_cong:
  "rfbClients st' = rfbClients st \<Longrightarrow> rfb_objs st' = rfb_objs st \<Longrightarrow> rfb_ok st' = rfb_ok st"
  by (simp add: rfb_ok_def)

lemma rfb_ok_VNC_cleanup:
  assumes "rfb_ok st"
  shows "rfb_ok (VNCViewer_cleanupSession k st)"
proof -
  have 1: "set (rfbClients (VNCViewer_cleanupSession k st)) \<subseteq> set (rfbClients st)"
    using set_delete_subset[of k "rfbClients st"]
    by (auto simp: VNCViewer_cleanupSession_def Let_def split: option.splits)
  have 2: "map rfb_sid (rfb_objs (VNCViewer_cleanupSession k st)) = map rfb_sid (rfb_objs st)"
    by (simp add: VNCViewer_cleanupSession_def Let_def map_obj_update split: option.splits)
  from assms show ?thesis unfolding rfb_ok_def 2 using 1 by (rule RFB_mono)
qed

lemma rfb_ok_closeTab:
  assumes "rfb_ok st"
  shows "rfb_ok (closeTab k st)"
proof (cases "map_of (consoleSessions st) k")
  case None
  then show ?thesis using assms by (simp add: closeTab_def)
next
  case (Some s)
  let ?c = "if sess_type s = ''vnc'' then cleanupVncSession k st
            else if sess_type s = ''terminal'' then cleanupTerminalSession k st else st"
  have c: "rfb_ok ?c"
    using assms rfb_ok_VNC_cleanup[OF assms, of k]
    by (simp add: cleanupVncSession_def cleanupTerminalSession_def rfb_ok_def)
  have "rfb_ok (closeTab k st) = rfb_ok ?c"
    using Some
    by (intro rfb_ok_cong)
       (simp_all add: closeTab_def Let_def split: list.splits)
  with c show ?thesis by simp
qed

lemma rfb_ok_openConsole:
  assumes "rfb_ok st"
  shows "rfb_ok (openConsole name ty port icon now rnd st)"
proof (cases "truthy_str (findSessionByName name st)")
  case True
  then obtain e where "findSessionByName name st = Some e" "e \<noteq> []"
    by (auto simp: truthy_str_def split: option.splits)
  then show ?thesis using assms by (simp add: openConsole_existing rfb_ok_def)
next
  case False
  define k where "k = ''console-'' @ now @ ''-'' @ rnd"
  from openConsole_new_unfold[OF False, of ty port icon now rnd]
  obtain st4 where f: "rfbClients st4 = rfbClients st" "rfb_objs st4 = rfb_objs st"
    and o: "openConsole name ty port icon now rnd st =
               (if ty = ''vnc'' then initVncSession k name port st4
                else if ty = ''terminal'' then initTerminalSession k name st4 else st4)"
    unfolding k_def by blast
  have ok4: "rfb_ok st4" using assms f by (simp add: rfb_ok_def)
  have v: "rfb_ok (initVncSession k name port st4)"
    using ok4 by (simp add: rfb_ok_def)
  have t: "rfb_ok (initTerminalSession k name st4)"
    using ok4 by (simp add: rfb_ok_def)
  show ?thesis unfolding o using ok4 v t by presburger
qed

lemma launchVnc_resume_rfb:
  assumes "launchVncInContainer_resume tip a b p el st = (r, st')"
  shows "(rfbClients st' = rfbClients st \<and> rfb_objs st' = rfb_objs st)
       \<or> (rfbClients st' = AList.update a (length (rfb_objs st)) (rfbClients st)
          \<and> map rfb_sid (rfb_objs st') = map rfb_sid (rfb_objs st) @ [a])"
  using assms
  by (auto simp: launchVncInContainer_resume_def Let_def split: if_splits)

lemma rfb_ok_init_resume:
  assumes "rfb_ok st"
  shows "rfb_ok (initVncSession_resume tip a b p el st)"
proof -
  obtain r st' where l: "launchVncInContainer_resume tip a b p el st = (r, st')" by fastforce
  have ok: "rfb_ok st'"
    using launchVnc_resume_rfb[OF l]
  proof
    assume "rfbClients st' = rfbClients st \<and> rfb_objs st' = rfb_objs st"
    with assms show ?thesis by (simp add: rfb_ok_def)
  next
    assume n: "rfbClients st' = AList.update a (length (rfb_objs st)) (rfbClients st)
          \<and> map rfb_sid (rfb_objs st') = map rfb_sid (rfb_objs st) @ [a]"
    from assms have "RFB (AList.update a (length (map rfb_sid (rfb_objs st))) (rfbClients st))
        (map rfb_sid (rfb_objs st) @ [a])"
      unfolding rfb_ok_def by (rule RFB_new)
    with n show ?thesis by (simp add: rfb_ok_def)
  qed
  have "rfb_ok (initVncSession_resume tip a b p el st) = rfb_ok st'"
    using l by (intro rfb_ok_cong) (simp_all add: initVncSession_resume_def split: option.splits)
  with ok show ?thesis by simp
qed

lemma rfb_ok_frames:
  "rfb_ok (set_status el t c st) = rfb_ok st"
  "rfb_ok (showStatus m ty' st) = rfb_ok st"
  "rfb_ok (switchToTab k st) = rfb_ok st"
  "rfb_ok (term_write a w st) = rfb_ok st"
  "rfb_ok (st\<lparr>timers := tm\<rparr>) = rfb_ok st"
  "rfb_ok (st\<lparr>awaiting := aw\<rparr>) = rfb_ok st"
  by (simp_all add: rfb_ok_def)

lemma rfb_ok_step: "rfb_ok st \<Longrightarrow> rfb_ok (step e st)"
proof (cases e)
  case (OpenConsole name ty port icon now rnd)
  assume "rfb_ok st" then show ?thesis using OpenConsole by (simp add: rfb_ok_openConsole)
next
  case (CloseTab k)
  assume "rfb_ok st" then show ?thesis using CloseTab by (simp add: rfb_ok_closeTab)
next
  case (ClickTab k)
  assume "rfb_ok st" then show ?thesis using ClickTab by (simp add: click_tab_def rfb_ok_frames)
next
  case (VncControl k a)
  assume "rfb_ok st" then show ?thesis using VncControl by (simp add: rfb_ok_def)
next
  case (TerminalControl k a)
  assume "rfb_ok st" then show ?thesis using TerminalControl by (simp add: rfb_ok_def)
next
  case (ClipboardSettled i tip)
  assume ok: "rfb_ok st"
  then have "rfb_ok (initVncSession_resume tip a b p el (st\<lparr>awaiting := aw\<rparr>))" for a b p el aw
    by (intro rfb_ok_init_resume) (simp add: rfb_ok_frames)
  then show ?thesis using ClipboardSettled ok
    by (simp add: clipboard_settled_def split: pending.splits)
next
  case (ApiSettled i r)
  assume "rfb_ok st" then show ?thesis using ApiSettled by (simp add: rfb_ok_def)
next
  case (TimerFired i)
  assume "rfb_ok st" then show ?thesis using TimerFired
    by (simp add: timer_fired_def rfb_ok_closeTab rfb_ok_frames)
next
  case (RfbConnect c)
  assume "rfb_ok st" then show ?thesis using RfbConnect
    by (simp add: rfb_onconnect_def Let_def rfb_ok_frames)
next
  case (RfbDisconnect c clean)
  assume "rfb_ok st" then show ?thesis using RfbDisconnect
    by (simp add: rfb_ondisconnect_def Let_def rfb_ok_closeTab rfb_ok_frames)
next
  case (RfbSecurityFailure c m)
  assume "rfb_ok st" then show ?thesis using RfbSecurityFailure
    by (simp add: rfb_onsecurityfailure_def Let_def rfb_ok_frames)
next
  case (SocketOpen a)
  assume "rfb_ok st" then show ?thesis using SocketOpen by (simp add: rfb_ok_def)
next
  case (SocketMessage a d)
  assume "rfb_ok st" then show ?thesis using SocketMessage by (simp add: rfb_ok_def)
next
  case (SocketError a)
  assume "rfb_ok st" then show ?thesis using SocketError by (simp add: rfb_ok_def)
next
  case (SocketClose a)
  assume "rfb_ok st" then show ?thesis using SocketClose by (simp add: rfb_ok_def)
qed

lemma rfb_ok_run: "rfb_ok st \<Longrightarrow> rfb_ok (run evs st)"
  by (induction evs arbitrary: st) (simp_all add: rfb_ok_step)

lemma rfb_ok_init: "rfb_ok (init_state pg h)"
  by (simp add: rfb_ok_def RFB_def init_state_def)

subsection \<open>Closing twice\<close>

text \<open>
  C6. \<^verbatim>\<open>closeTab\<close> is idempotent. After \<^verbatim>\<open>closeTab(sessionId)\<close> the identifier is no longer in
  the registry, and a second \<^verbatim>\<open>closeTab(sessionId)\<close> returns at once: the whole state (the
  registry, the foreground, the tabs and panes, every transport map and object) is what
  the first call left.
\<close>

theorem closeTab_idempotent:
  "map_of (consoleSessions (closeTab sessionId st)) sessionId = None
   \<and> closeTab sessionId (closeTab sessionId st) = closeTab sessionId st"
proof -
  have gone: "map_of (consoleSessions (closeTab sessionId st)) sessionId = None"
    by (rule closeTab_removes)
  then have "closeTab sessionId (closeTab sessionId st) = closeTab sessionId st"
    by (simp add: closeTab_def[of sessionId "closeTab sessionId st"])
  with gone show ?thesis by simp
qed

subsection \<open>A graphical session without a port\<close>

text \<open>
  C7. When the port is absent (\<^verbatim>\<open>null\<close>) or zero, \<^verbatim>\<open>launchVncInContainer\<close> throws
  \<^verbatim>\<open>VNC port not available for this VM\<close> before anything else: the state is untouched. An
  \<^verbatim>\<open>openConsole\<close> of a graphical session with such a port creates no RFB client, puts
  nothing into \<^verbatim>\<open>rfbClients\<close> or \<^verbatim>\<open>vncSessions\<close>, and leaves no suspended launch behind that
  could create one later.
\<close>

theorem launchVnc_without_port:
  assumes "falsy_port vncPort"
  shows "launchVncInContainer sessionId vmName vncPort canvasContainerId statusElementId st
           = (Some ''VNC port not available for this VM'', st)
       \<and> rfb_objs (openConsole name ''vnc'' vncPort icon now rnd st) = rfb_objs st
       \<and> rfbClients (openConsole name ''vnc'' vncPort icon now rnd st) = rfbClients st
       \<and> vncSessions (openConsole name ''vnc'' vncPort icon now rnd st) = vncSessions st
       \<and> awaiting (openConsole name ''vnc'' vncPort icon now rnd st) = awaiting st"
proof -
  have launch:
    "launchVncInContainer a b vncPort c d s = (Some ''VNC port not available for this VM'', s)"
    for a b c d s
    using assms by (simp add: launchVncInContainer_def falsy_port_def split: option.splits)
  have init: "rfb_objs (initVncSession a b vncPort s) = rfb_objs s
      \<and> rfbClients (initVncSession a b vncPort s) = rfbClients s
      \<and> vncSessions (initVncSession a b vncPort s) = vncSessions s
      \<and> awaiting (initVncSession a b vncPort s) = awaiting s" for a b s
    by (simp add: initVncSession_def launch showStatus_def split: option.splits)
  show ?thesis
    by (simp add: launch openConsole_def Let_def init createTab_def split: option.splits)
qed

theorem launchVnc_without_port_witness:
  "falsy_port (Some 0)
   \<and> launchVncInContainer ''console-1-a'' ''vm1'' (Some 0) ''canvas-console-1-a''
        ''status-console-1-a'' (init_state full_page True)
      = (Some ''VNC port not available for this VM'', init_state full_page True)
   \<and> rfb_objs (openConsole ''vm1'' ''vnc'' (Some 0) None ''1'' ''a'' (init_state full_page True)) = []
   \<and> rfbClients (openConsole ''vm1'' ''vnc'' (Some 0) None ''1'' ''a'' (init_state full_page True)) = []
   \<and> awaiting (openConsole ''vm1'' ''vnc'' (Some 0) None ''1'' ''a'' (init_state full_page True)) = []"
proof -
  have f: "falsy_port (Some 0)" by (simp add: falsy_port_def)
  from launchVnc_without_port[OF f, of "''console-1-a''" "''vm1''" "''canvas-console-1-a''"
      "''status-console-1-a''" "init_state full_page True" "''vm1''" None "''1''" "''a''"]
  show ?thesis using f by (simp add: init_state_def)
qed

subsection \<open>A dispatcher of the wrong kind\<close>

text \<open>
  C9. \<^verbatim>\<open>vncControl\<close> on an identifier that is not in the registry or that names a session
  whose type is not \<^verbatim>\<open>vnc\<close> returns at once, and so does \<^verbatim>\<open>terminalControl\<close> on one that is not
  in the registry or whose type is not \<^verbatim>\<open>terminal\<close>: the state is the same, so no request
  went to the API and no session, registry entry or foreground changed.
\<close>

theorem control_mismatch_noop:
  "((\<forall>s. map_of (consoleSessions st) sessionId = Some s \<longrightarrow> sess_type s \<noteq> ''vnc'')
      \<longrightarrow> vncControl sessionId action st = st)
   \<and> ((\<forall>s. map_of (consoleSessions st) sessionId = Some s \<longrightarrow> sess_type s \<noteq> ''terminal'')
      \<longrightarrow> terminalControl sessionId action st = st)"
  by (simp add: vncControl_def terminalControl_def split: option.splits)

theorem control_mismatch_noop_witness:
  "map_option sess_type (map_of (consoleSessions both_example) ''console-2-b'') = Some ''terminal''
   \<and> vncControl ''console-2-b'' ''stop'' both_example = both_example
   \<and> map_option sess_type (map_of (consoleSessions both_example) ''console-1-a'') = Some ''vnc''
   \<and> terminalControl ''console-1-a'' ''destroy'' both_example = both_example
   \<and> map_of (consoleSessions both_example) ''console-9-z'' = None
   \<and> vncControl ''console-9-z'' ''stop'' both_example = both_example
   \<and> terminalControl ''console-9-z'' ''stop'' both_example = both_example"
proof -
  have t: "map_of (consoleSessions both_example) ''console-2-b''
             = Some \<lparr> sess_id = ''console-2-b'', sess_name = ''lxc1'', sess_type = ''terminal'',
                      sess_port = None, sess_icon = None, sess_instance = Some 0 \<rparr>"
    by code_simp
  have v: "map_of (consoleSessions both_example) ''console-1-a''
             = Some \<lparr> sess_id = ''console-1-a'', sess_name = ''vm1'', sess_type = ''vnc'',
                      sess_port = Some 5901, sess_icon = None, sess_instance = Some 0 \<rparr>"
    by code_simp
  have n: "map_of (consoleSessions both_example) ''console-9-z'' = None"
    by code_simp
  have ht: "\<forall>s. map_of (consoleSessions both_example) ''console-2-b'' = Some s
              \<longrightarrow> sess_type s \<noteq> ''vnc''"
    unfolding t by simp
  have hv: "\<forall>s. map_of (consoleSessions both_example) ''console-1-a'' = Some s
              \<longrightarrow> sess_type s \<noteq> ''terminal''"
    unfolding v by simp
  have hn: "\<forall>s. map_of (consoleSessions both_example) ''console-9-z'' = Some s
              \<longrightarrow> sess_type s \<noteq> ''vnc''"
    "\<forall>s. map_of (consoleSessions both_example) ''console-9-z'' = Some s
              \<longrightarrow> sess_type s \<noteq> ''terminal''"
    unfolding n by simp_all
  have 1: "vncControl ''console-2-b'' ''stop'' both_example = both_example"
    using ht control_mismatch_noop[of both_example "''console-2-b''" "''stop''"] by blast
  have 2: "terminalControl ''console-1-a'' ''destroy'' both_example = both_example"
    using hv control_mismatch_noop[of both_example "''console-1-a''" "''destroy''"] by blast
  have 3: "vncControl ''console-9-z'' ''stop'' both_example = both_example"
    and 4: "terminalControl ''console-9-z'' ''stop'' both_example = both_example"
    using hn control_mismatch_noop[of both_example "''console-9-z''" "''stop''"] by blast+
  have 5: "map_option sess_type (map_of (consoleSessions both_example) ''console-2-b'')
             = Some ''terminal''"
    unfolding t by simp
  have 6: "map_option sess_type (map_of (consoleSessions both_example) ''console-1-a'')
             = Some ''vnc''"
    unfolding v by simp
  show ?thesis
    by (intro conjI) (rule 5 1 6 2 n 3 4)+
qed

subsection \<open>Opening a target that is open\<close>

lemma reg_ok_run: "reg_ok st \<Longrightarrow> reg_ok (run evs st)"
  by (induction evs arbitrary: st) (simp_all add: reg_ok_step)

text \<open>
  C10. In any state the page can reach, \<^verbatim>\<open>openConsole\<close> for a target that has a session
  returns the state with the foreground switched to that session and nothing else
  changed: the registry is the same list, so the identifier, type, port, icon and instance
  of the existing session are what they were, whatever type, port and icon the call gave.
\<close>

theorem openConsole_existing_unchanged:
  assumes "findSessionByName name (run evs (init_state pg h)) = Some sessionId"
  shows "openConsole name ty port icon now rnd (run evs (init_state pg h))
           = (run evs (init_state pg h))
               \<lparr>activeSessionId := Some sessionId,
                tabs := map (\<lambda>t. t\<lparr>tab_active := (tab_sid t = sessionId)\<rparr>)
                          (tabs (run evs (init_state pg h))),
                containers := map (\<lambda>c. c\<lparr>cont_hidden := (cont_sid c \<noteq> sessionId)\<rparr>)
                          (containers (run evs (init_state pg h)))\<rparr>
       \<and> consoleSessions (openConsole name ty port icon now rnd (run evs (init_state pg h)))
           = consoleSessions (run evs (init_state pg h))"
proof -
  let ?st = "run evs (init_state pg h)"
  have "reg_ok ?st" by (simp add: reg_ok_run ok_init)
  moreover from assms have "(sessionId, name) \<in> set (reg_keys ?st)"
    by (rule findSessionByName_Some)
  ultimately have "sessionId \<noteq> []" by (force simp: reg_ok_def REG_def image_iff)
  with assms have "openConsole name ty port icon now rnd ?st = switchToTab sessionId ?st"
    by (rule openConsole_existing)
  then show ?thesis by (simp add: switchToTab_def)
qed

theorem openConsole_existing_unchanged_witness:
  "findSessionByName ''vm1''
     (run [OpenConsole ''vm1'' ''vnc'' (Some 5901) None ''1'' ''a''] (init_state full_page True))
     = Some ''console-1-a''
   \<and> consoleSessions (openConsole ''vm1'' ''terminal'' None (Some ''icon.png'') ''2'' ''b''
        (run [OpenConsole ''vm1'' ''vnc'' (Some 5901) None ''1'' ''a''] (init_state full_page True)))
     = consoleSessions
        (run [OpenConsole ''vm1'' ''vnc'' (Some 5901) None ''1'' ''a''] (init_state full_page True))"
proof -
  have f: "findSessionByName ''vm1''
     (run [OpenConsole ''vm1'' ''vnc'' (Some 5901) None ''1'' ''a''] (init_state full_page True))
     = Some ''console-1-a''"
    by code_simp
  from openConsole_existing_unchanged[OF f] show ?thesis using f by blast
qed

subsection \<open>Messages of a text session\<close>

lemma obj_update_compose: "obj_update a f (obj_update a g xs) = obj_update a (f \<circ> g) xs"
  by (simp add: obj_update_def)

lemma obj_update_nth: "a < length xs \<Longrightarrow> obj_update a f xs ! a = f (xs ! a)"
  by (simp add: obj_update_def)

lemma run_messages:
  assumes "socket < length (sock_objs st)"
  shows "run (map (SocketMessage socket) msgs) st
         = st\<lparr>term_objs :=
               obj_update (ws_terminal (sock_objs st ! socket))
                 (\<lambda>t. t\<lparr>term_written := term_written t @ map Write msgs\<rparr>) (term_objs st)\<rparr>"
  using assms
proof (induction msgs arbitrary: st)
  case Nil
  then show ?case by (simp add: obj_update_def)
next
  case (Cons d ds)
  let ?t = "ws_terminal (sock_objs st ! socket)"
  let ?st1 = "term_write ?t (Write d) st"
  have s1: "step (SocketMessage socket d) st = ?st1"
    using Cons.prems by (simp add: socket_onmessage_def)
  have so: "sock_objs ?st1 = sock_objs st" by simp
  from Cons.prems have "socket < length (sock_objs ?st1)" by simp
  from Cons.IH[OF this]
  have "run (map (SocketMessage socket) ds) ?st1
         = ?st1\<lparr>term_objs :=
               obj_update ?t (\<lambda>t. t\<lparr>term_written := term_written t @ map Write ds\<rparr>)
                 (term_objs ?st1)\<rparr>"
    unfolding so .
  then show ?case
    using s1 by (simp add: term_write_def obj_update_compose comp_def)
qed

text \<open>
  C8. In any state the page can reach, take a text session whose socket is in
  \<^verbatim>\<open>termSockets\<close>. The socket's handlers belong to that session, and after any finite
  sequence of messages on the socket, the terminal of the session has been given exactly
  what it had been given before followed by one \<^verbatim>\<open>write\<close> per message, in the order of
  arrival: nothing is dropped, repeated or reordered, and the data to render grows by the
  concatenation of the messages. Nothing else in the state changes.
\<close>

theorem messages_written_in_order:
  assumes "map_of (termSockets (run evs (init_state pg h))) sessionId = Some socket"
  shows "ws_sid (sock_objs (run evs (init_state pg h)) ! socket) = sessionId
       \<and> term_written
           (term_objs (run (map (SocketMessage socket) msgs) (run evs (init_state pg h)))
              ! ws_terminal (sock_objs (run evs (init_state pg h)) ! socket))
         = term_written
             (term_objs (run evs (init_state pg h))
                ! ws_terminal (sock_objs (run evs (init_state pg h)) ! socket))
           @ map Write msgs
       \<and> rendered
           (term_objs (run (map (SocketMessage socket) msgs) (run evs (init_state pg h)))
              ! ws_terminal (sock_objs (run evs (init_state pg h)) ! socket))
         = rendered
             (term_objs (run evs (init_state pg h))
                ! ws_terminal (sock_objs (run evs (init_state pg h)) ! socket))
           @ concat msgs
       \<and> run (map (SocketMessage socket) msgs) (run evs (init_state pg h))
         = (run evs (init_state pg h))
             \<lparr>term_objs :=
                obj_update (ws_terminal (sock_objs (run evs (init_state pg h)) ! socket))
                  (\<lambda>t. t\<lparr>term_written := term_written t @ map Write msgs\<rparr>)
                  (term_objs (run evs (init_state pg h)))\<rparr>"
proof -
  define st where "st = run evs (init_state pg h)"
  define t where "t = ws_terminal (sock_objs st ! socket)"
  have ok: "sock_ok st" unfolding st_def by (simp add: sock_ok_run sock_ok_init)
  from assms have mem: "(sessionId, socket) \<in> set (termSockets st)"
    unfolding st_def by (rule map_of_SomeD)
  with ok have lt: "socket < length (sock_objs st)"
    and sid: "fst (map sock_key (sock_objs st) ! socket) = sessionId"
    by (auto simp: sock_ok_def SOCK_def)
  from sid lt have 1: "ws_sid (sock_objs st ! socket) = sessionId"
    by (simp add: sock_key_def)
  from lt have "sock_key (sock_objs st ! socket) \<in> set (map sock_key (sock_objs st))"
    by simp
  with ok have tl: "t < length (term_objs st)"
    unfolding t_def by (auto simp: sock_ok_def SOCK_def sock_key_def)
  have r: "run (map (SocketMessage socket) msgs) st
         = st\<lparr>term_objs := obj_update t
               (\<lambda>t. t\<lparr>term_written := term_written t @ map Write msgs\<rparr>) (term_objs st)\<rparr>"
    unfolding t_def using lt by (rule run_messages)
  have 2: "term_written (term_objs (run (map (SocketMessage socket) msgs) st) ! t)
           = term_written (term_objs st ! t) @ map Write msgs"
    unfolding r using tl by (simp add: obj_update_nth)
  have "concat (map op_data (map Write msgs)) = concat msgs"
    by (induction msgs) simp_all
  with 2 have 3: "rendered (term_objs (run (map (SocketMessage socket) msgs) st) ! t)
           = rendered (term_objs st ! t) @ concat msgs"
    by (simp add: rendered_def)
  from 1 2 3 r show ?thesis unfolding st_def t_def by blast
qed

theorem messages_written_in_order_witness:
  "map_of (termSockets (run [OpenConsole ''lxc1'' ''terminal'' None None ''1'' ''a'', SocketOpen 0]
       (init_state full_page True))) ''console-1-a'' = Some 0
   \<and> term_written
       (term_objs (run (map (SocketMessage 0) [''ls'', ''pwd'', ''ls''])
          (run [OpenConsole ''lxc1'' ''terminal'' None None ''1'' ''a'', SocketOpen 0]
             (init_state full_page True)))
         ! ws_terminal (sock_objs (run [OpenConsole ''lxc1'' ''terminal'' None None ''1'' ''a'',
                 SocketOpen 0] (init_state full_page True)) ! 0))
     = term_written
         (term_objs (run [OpenConsole ''lxc1'' ''terminal'' None None ''1'' ''a'', SocketOpen 0]
             (init_state full_page True))
           ! ws_terminal (sock_objs (run [OpenConsole ''lxc1'' ''terminal'' None None ''1'' ''a'',
                 SocketOpen 0] (init_state full_page True)) ! 0))
       @ map Write [''ls'', ''pwd'', ''ls'']"
proof -
  have h: "map_of (termSockets (run [OpenConsole ''lxc1'' ''terminal'' None None ''1'' ''a'', SocketOpen 0]
       (init_state full_page True))) ''console-1-a'' = Some 0"
    by code_simp
  from messages_written_in_order[OF h, of "[''ls'', ''pwd'', ''ls'']"] h
  show ?thesis by blast
qed

subsection \<open>Control actions\<close>

lemma apiCall_reply_result:
  "fst (apiCall_reply ok quiet v st) = fst (apiCall_reply ok quiet v st')"
  by (simp add: apiCall_reply_def split: json_value.splits)

lemma apiCall_reply_state:
  "snd (apiCall_reply ok quiet v st)
   = st\<lparr>ui_status := ui_status (snd (apiCall_reply ok quiet v st))\<rparr>"
  by (simp add: apiCall_reply_def network_error_def showStatus_def split: json_value.splits)

lemma apiCall_reply_api_calls:
  "snd (apiCall_reply ok quiet v (st\<lparr>api_calls := c\<rparr>))
   = (snd (apiCall_reply ok quiet v st))\<lparr>api_calls := c\<rparr>"
  by (simp add: apiCall_reply_def network_error_def showStatus_def split: json_value.splits)

lemma apiCall_result: "fst (apiCall endpoint outcome st) = fst (apiCall endpoint outcome st')"
proof (cases outcome)
  case (FetchFailed m)
  then show ?thesis by (simp add: apiCall_def)
next
  case (HttpResponse code body)
  then show ?thesis
    using apiCall_reply_result[of _ _ _ st st']
    by (cases body) (simp_all add: apiCall_def Let_def)
qed

lemma apiCall_state:
  "snd (apiCall endpoint outcome st)
   = st\<lparr>ui_status := ui_status (snd (apiCall endpoint outcome st)),
        login_modal := login_modal (snd (apiCall endpoint outcome st))\<rparr>"
proof (cases outcome)
  case (FetchFailed m)
  then show ?thesis by (simp add: apiCall_def network_error_def showStatus_def)
next
  case (HttpResponse code body)
  have r: "snd (apiCall_reply ok quiet v st)
     = st\<lparr>ui_status := ui_status (snd (apiCall_reply ok quiet v st)),
          login_modal := login_modal (snd (apiCall_reply ok quiet v st))\<rparr>" for ok quiet v
    by (simp add: apiCall_reply_def network_error_def showStatus_def split: json_value.splits)
  show ?thesis
  proof (cases body)
    case BodyEmpty
    then show ?thesis using HttpResponse r by (simp add: apiCall_def Let_def)
  next
    case BodyUnparsable
    then show ?thesis using HttpResponse r by (simp add: apiCall_def Let_def showStatus_def)
  next
    case (BodyJson v)
    then show ?thesis using HttpResponse r by (simp add: apiCall_def Let_def)
  qed
qed

lemma apiCall_api_calls:
  "snd (apiCall endpoint outcome (st\<lparr>api_calls := c\<rparr>))
   = (snd (apiCall endpoint outcome st))\<lparr>api_calls := c\<rparr>"
proof (cases outcome)
  case (FetchFailed m)
  then show ?thesis by (simp add: apiCall_def network_error_def showStatus_def)
next
  case (HttpResponse code body)
  then show ?thesis
    by (cases body) (simp_all add: apiCall_def Let_def apiCall_reply_api_calls showStatus_def)
qed

lemma drop_nth_last: "drop_nth (length xs) (xs @ [x]) = xs"
  by (simp add: drop_nth_def)

lemma vncControl_flow:
  assumes "map_of (consoleSessions st) sessionId = Some session" "sess_type session = ''vnc''"
  shows "vncControl sessionId action st
         = st\<lparr>api_calls := api_calls st @ [(''/vm/'' @ sess_name session @ ''/'' @ action, ''POST'')],
              awaiting := awaiting st @
                [AwaitApiVnc sessionId action (''/vm/'' @ sess_name session @ ''/'' @ action)]\<rparr>"
    and "api_settled (length (awaiting st)) outcome (vncControl sessionId action st)
         = vncControl_resume sessionId action
             (fst (apiCall (''/vm/'' @ sess_name session @ ''/'' @ action) outcome st))
             ((snd (apiCall (''/vm/'' @ sess_name session @ ''/'' @ action) outcome st))
                \<lparr>api_calls := api_calls st @
                   [(''/vm/'' @ sess_name session @ ''/'' @ action, ''POST'')]\<rparr>)"
proof -
  define e where "e = ''/vm/'' @ sess_name session @ ''/'' @ action"
  show 1: "vncControl sessionId action st
         = st\<lparr>api_calls := api_calls st @ [(''/vm/'' @ sess_name session @ ''/'' @ action, ''POST'')],
              awaiting := awaiting st @
                [AwaitApiVnc sessionId action (''/vm/'' @ sess_name session @ ''/'' @ action)]\<rparr>"
    using assms by (simp add: vncControl_def)
  have "api_settled (length (awaiting st)) outcome
          (st\<lparr>api_calls := api_calls st @ [(e, ''POST'')],
              awaiting := awaiting st @ [AwaitApiVnc sessionId action e]\<rparr>)
        = vncControl_resume sessionId action (fst (apiCall e outcome st))
             ((snd (apiCall e outcome st))\<lparr>api_calls := api_calls st @ [(e, ''POST'')]\<rparr>)"
    using apiCall_result[of e outcome "st\<lparr>api_calls := api_calls st @ [(e, ''POST'')]\<rparr>" st]
    by (simp add: api_settled_def drop_nth_last split_beta apiCall_api_calls)
  then show "api_settled (length (awaiting st)) outcome (vncControl sessionId action st)
         = vncControl_resume sessionId action
             (fst (apiCall (''/vm/'' @ sess_name session @ ''/'' @ action) outcome st))
             ((snd (apiCall (''/vm/'' @ sess_name session @ ''/'' @ action) outcome st))
                \<lparr>api_calls := api_calls st @
                   [(''/vm/'' @ sess_name session @ ''/'' @ action, ''POST'')]\<rparr>)"
    unfolding 1 e_def .
qed

lemma terminalControl_flow:
  assumes "map_of (consoleSessions st) sessionId = Some session" "sess_type session = ''terminal''"
  shows "terminalControl sessionId action st
         = st\<lparr>api_calls := api_calls st @ [(''/vm/'' @ sess_name session @ ''/'' @ action, ''POST'')],
              awaiting := awaiting st @
                [AwaitApiTerminal sessionId action (''/vm/'' @ sess_name session @ ''/'' @ action)]\<rparr>"
    and "api_settled (length (awaiting st)) outcome (terminalControl sessionId action st)
         = terminalControl_resume sessionId action
             (fst (apiCall (''/vm/'' @ sess_name session @ ''/'' @ action) outcome st))
             ((snd (apiCall (''/vm/'' @ sess_name session @ ''/'' @ action) outcome st))
                \<lparr>api_calls := api_calls st @
                   [(''/vm/'' @ sess_name session @ ''/'' @ action, ''POST'')]\<rparr>)"
proof -
  define e where "e = ''/vm/'' @ sess_name session @ ''/'' @ action"
  show 1: "terminalControl sessionId action st
         = st\<lparr>api_calls := api_calls st @ [(''/vm/'' @ sess_name session @ ''/'' @ action, ''POST'')],
              awaiting := awaiting st @
                [AwaitApiTerminal sessionId action (''/vm/'' @ sess_name session @ ''/'' @ action)]\<rparr>"
    using assms by (simp add: terminalControl_def)
  have "api_settled (length (awaiting st)) outcome
          (st\<lparr>api_calls := api_calls st @ [(e, ''POST'')],
              awaiting := awaiting st @ [AwaitApiTerminal sessionId action e]\<rparr>)
        = terminalControl_resume sessionId action (fst (apiCall e outcome st))
             ((snd (apiCall e outcome st))\<lparr>api_calls := api_calls st @ [(e, ''POST'')]\<rparr>)"
    using apiCall_result[of e outcome "st\<lparr>api_calls := api_calls st @ [(e, ''POST'')]\<rparr>" st]
    by (simp add: api_settled_def drop_nth_last split_beta apiCall_api_calls)
  then show "api_settled (length (awaiting st)) outcome (terminalControl sessionId action st)
         = terminalControl_resume sessionId action
             (fst (apiCall (''/vm/'' @ sess_name session @ ''/'' @ action) outcome st))
             ((snd (apiCall (''/vm/'' @ sess_name session @ ''/'' @ action) outcome st))
                \<lparr>api_calls := api_calls st @
                   [(''/vm/'' @ sess_name session @ ''/'' @ action, ''POST'')]\<rparr>)"
    unfolding 1 e_def .
qed

lemma timer_fired_last:
  assumes "timers st' = tm @ [(d, k)]"
  shows "map_of (consoleSessions (timer_fired (length tm) st')) k = None"
  using assms by (simp add: timer_fired_def closeTab_removes)

text \<open>
  C4. Take a session of the registry and the dispatcher of its kind, \<^verbatim>\<open>vncControl\<close> for a
  graphical session and \<^verbatim>\<open>terminalControl\<close> for a text session. The dispatcher posts
  \<^verbatim>\<open>/vm/<name>/<action>\<close> and waits for \<^verbatim>\<open>apiCall\<close>. Whatever the server answers, when the
  request settles \<^verbatim>\<open>closeTab\<close> of the session is scheduled after 2000 ms exactly when the
  result of \<^verbatim>\<open>apiCall\<close> is an object whose \<^verbatim>\<open>status\<close> is \<^verbatim>\<open>success\<close> and the verb is \<^verbatim>\<open>stop\<close> or
  \<^verbatim>\<open>destroy\<close> (the verb of the Force Stop button); otherwise the timers are unchanged. In
  every case the registry, the foreground, the tabs and the panes are what they were
  before the call, and when the teardown is scheduled, the timer closes the session.
  On any other result the dispatcher does nothing more: the state differs from the state
  before the call only by the record of the request and by what \<^verbatim>\<open>apiCall\<close> itself shows,
  its error message or the login dialogue.
\<close>

theorem control_teardown_iff_success:
  assumes "map_of (consoleSessions st) sessionId = Some session"
  shows "(sess_type session = ''vnc'' \<longrightarrow>
            api_calls (vncControl sessionId action st)
              = api_calls st @ [(''/vm/'' @ sess_name session @ ''/'' @ action, ''POST'')]
          \<and> timers (api_settled (length (awaiting st)) outcome (vncControl sessionId action st))
              = (if api_success (fst (apiCall (''/vm/'' @ sess_name session @ ''/'' @ action) outcome st))
                    \<and> (action = ''stop'' \<or> action = ''destroy'')
                 then timers st @ [(2000, sessionId)] else timers st)
          \<and> consoleSessions (api_settled (length (awaiting st)) outcome (vncControl sessionId action st))
              = consoleSessions st
          \<and> activeSessionId (api_settled (length (awaiting st)) outcome (vncControl sessionId action st))
              = activeSessionId st
          \<and> tabs (api_settled (length (awaiting st)) outcome (vncControl sessionId action st))
              = tabs st
          \<and> containers (api_settled (length (awaiting st)) outcome (vncControl sessionId action st))
              = containers st
          \<and> (api_success (fst (apiCall (''/vm/'' @ sess_name session @ ''/'' @ action) outcome st))
                \<and> (action = ''stop'' \<or> action = ''destroy'') \<longrightarrow>
                map_of (consoleSessions (timer_fired (length (timers st))
                  (api_settled (length (awaiting st)) outcome (vncControl sessionId action st))))
                  sessionId = None)
          \<and> (\<not> api_success (fst (apiCall (''/vm/'' @ sess_name session @ ''/'' @ action) outcome st)) \<longrightarrow>
                api_settled (length (awaiting st)) outcome (vncControl sessionId action st)
                  = st\<lparr>api_calls := api_calls st @ [(''/vm/'' @ sess_name session @ ''/'' @ action, ''POST'')],
                       ui_status := ui_status (snd (apiCall (''/vm/'' @ sess_name session @ ''/'' @ action) outcome st)),
                       login_modal := login_modal (snd (apiCall (''/vm/'' @ sess_name session @ ''/'' @ action) outcome st))\<rparr>))
       \<and> (sess_type session = ''terminal'' \<longrightarrow>
            api_calls (terminalControl sessionId action st)
              = api_calls st @ [(''/vm/'' @ sess_name session @ ''/'' @ action, ''POST'')]
          \<and> timers (api_settled (length (awaiting st)) outcome (terminalControl sessionId action st))
              = (if api_success (fst (apiCall (''/vm/'' @ sess_name session @ ''/'' @ action) outcome st))
                    \<and> (action = ''stop'' \<or> action = ''destroy'')
                 then timers st @ [(2000, sessionId)] else timers st)
          \<and> consoleSessions (api_settled (length (awaiting st)) outcome (terminalControl sessionId action st))
              = consoleSessions st
          \<and> activeSessionId (api_settled (length (awaiting st)) outcome (terminalControl sessionId action st))
              = activeSessionId st
          \<and> tabs (api_settled (length (awaiting st)) outcome (terminalControl sessionId action st))
              = tabs st
          \<and> containers (api_settled (length (awaiting st)) outcome (terminalControl sessionId action st))
              = containers st
          \<and> (api_success (fst (apiCall (''/vm/'' @ sess_name session @ ''/'' @ action) outcome st))
                \<and> (action = ''stop'' \<or> action = ''destroy'') \<longrightarrow>
                map_of (consoleSessions (timer_fired (length (timers st))
                  (api_settled (length (awaiting st)) outcome (terminalControl sessionId action st))))
                  sessionId = None)
          \<and> (\<not> api_success (fst (apiCall (''/vm/'' @ sess_name session @ ''/'' @ action) outcome st)) \<longrightarrow>
                api_settled (length (awaiting st)) outcome (terminalControl sessionId action st)
                  = st\<lparr>api_calls := api_calls st @ [(''/vm/'' @ sess_name session @ ''/'' @ action, ''POST'')],
                       ui_status := ui_status (snd (apiCall (''/vm/'' @ sess_name session @ ''/'' @ action) outcome st)),
                       login_modal := login_modal (snd (apiCall (''/vm/'' @ sess_name session @ ''/'' @ action) outcome st))\<rparr>))"
proof (intro conjI impI)
  assume v: "sess_type session = ''vnc''"
  note f = vncControl_flow[OF assms v]
  show "api_calls (vncControl sessionId action st)
              = api_calls st @ [(''/vm/'' @ sess_name session @ ''/'' @ action, ''POST'')]"
    by (simp add: f(1))
  show t: "timers (api_settled (length (awaiting st)) outcome (vncControl sessionId action st))
              = (if api_success (fst (apiCall (''/vm/'' @ sess_name session @ ''/'' @ action) outcome st))
                    \<and> (action = ''stop'' \<or> action = ''destroy'')
                 then timers st @ [(2000, sessionId)] else timers st)"
    by (simp add: f(2) vncControl_resume_def CONTROL_ACTION_DELAY_def Let_def)
  show "consoleSessions (api_settled (length (awaiting st)) outcome (vncControl sessionId action st))
              = consoleSessions st"
    by simp
  show "activeSessionId (api_settled (length (awaiting st)) outcome (vncControl sessionId action st))
              = activeSessionId st"
    by simp
  show "tabs (api_settled (length (awaiting st)) outcome (vncControl sessionId action st))
              = tabs st"
    by simp
  show "containers (api_settled (length (awaiting st)) outcome (vncControl sessionId action st))
              = containers st"
    by simp
  show "map_of (consoleSessions (timer_fired (length (timers st))
                  (api_settled (length (awaiting st)) outcome (vncControl sessionId action st))))
                  sessionId = None"
    if "api_success (fst (apiCall (''/vm/'' @ sess_name session @ ''/'' @ action) outcome st))
                \<and> (action = ''stop'' \<or> action = ''destroy'')"
    using t that by (intro timer_fired_last[where d = 2000]) simp
  show "api_settled (length (awaiting st)) outcome (vncControl sessionId action st)
                  = st\<lparr>api_calls := api_calls st @ [(''/vm/'' @ sess_name session @ ''/'' @ action, ''POST'')],
                       ui_status := ui_status (snd (apiCall (''/vm/'' @ sess_name session @ ''/'' @ action) outcome st)),
                       login_modal := login_modal (snd (apiCall (''/vm/'' @ sess_name session @ ''/'' @ action) outcome st))\<rparr>"
    if "\<not> api_success (fst (apiCall (''/vm/'' @ sess_name session @ ''/'' @ action) outcome st))"
  proof -
    have "api_settled (length (awaiting st)) outcome (vncControl sessionId action st)
          = (snd (apiCall (''/vm/'' @ sess_name session @ ''/'' @ action) outcome st))
              \<lparr>api_calls := api_calls st @ [(''/vm/'' @ sess_name session @ ''/'' @ action, ''POST'')]\<rparr>"
      unfolding f(2) using that by (simp add: vncControl_resume_def)
    also have "\<dots> = st\<lparr>api_calls := api_calls st @ [(''/vm/'' @ sess_name session @ ''/'' @ action, ''POST'')],
                       ui_status := ui_status (snd (apiCall (''/vm/'' @ sess_name session @ ''/'' @ action) outcome st)),
                       login_modal := login_modal (snd (apiCall (''/vm/'' @ sess_name session @ ''/'' @ action) outcome st))\<rparr>"
      by (subst apiCall_state) simp
    finally show ?thesis .
  qed
next
  assume v: "sess_type session = ''terminal''"
  note f = terminalControl_flow[OF assms v]
  show "api_calls (terminalControl sessionId action st)
              = api_calls st @ [(''/vm/'' @ sess_name session @ ''/'' @ action, ''POST'')]"
    by (simp add: f(1))
  show t: "timers (api_settled (length (awaiting st)) outcome (terminalControl sessionId action st))
              = (if api_success (fst (apiCall (''/vm/'' @ sess_name session @ ''/'' @ action) outcome st))
                    \<and> (action = ''stop'' \<or> action = ''destroy'')
                 then timers st @ [(2000, sessionId)] else timers st)"
    by (simp add: f(2) terminalControl_resume_def CONTROL_ACTION_DELAY_def Let_def)
  show "consoleSessions (api_settled (length (awaiting st)) outcome (terminalControl sessionId action st))
              = consoleSessions st"
    by simp
  show "activeSessionId (api_settled (length (awaiting st)) outcome (terminalControl sessionId action st))
              = activeSessionId st"
    by simp
  show "tabs (api_settled (length (awaiting st)) outcome (terminalControl sessionId action st))
              = tabs st"
    by simp
  show "containers (api_settled (length (awaiting st)) outcome (terminalControl sessionId action st))
              = containers st"
    by simp
  show "map_of (consoleSessions (timer_fired (length (timers st))
                  (api_settled (length (awaiting st)) outcome (terminalControl sessionId action st))))
                  sessionId = None"
    if "api_success (fst (apiCall (''/vm/'' @ sess_name session @ ''/'' @ action) outcome st))
                \<and> (action = ''stop'' \<or> action = ''destroy'')"
    using t that by (intro timer_fired_last[where d = 2000]) simp
  show "api_settled (length (awaiting st)) outcome (terminalControl sessionId action st)
                  = st\<lparr>api_calls := api_calls st @ [(''/vm/'' @ sess_name session @ ''/'' @ action, ''POST'')],
                       ui_status := ui_status (snd (apiCall (''/vm/'' @ sess_name session @ ''/'' @ action) outcome st)),
                       login_modal := login_modal (snd (apiCall (''/vm/'' @ sess_name session @ ''/'' @ action) outcome st))\<rparr>"
    if "\<not> api_success (fst (apiCall (''/vm/'' @ sess_name session @ ''/'' @ action) outcome st))"
  proof -
    have "api_settled (length (awaiting st)) outcome (terminalControl sessionId action st)
          = (snd (apiCall (''/vm/'' @ sess_name session @ ''/'' @ action) outcome st))
              \<lparr>api_calls := api_calls st @ [(''/vm/'' @ sess_name session @ ''/'' @ action, ''POST'')]\<rparr>"
      unfolding f(2) using that by (simp add: terminalControl_resume_def)
    also have "\<dots> = st\<lparr>api_calls := api_calls st @ [(''/vm/'' @ sess_name session @ ''/'' @ action, ''POST'')],
                       ui_status := ui_status (snd (apiCall (''/vm/'' @ sess_name session @ ''/'' @ action) outcome st)),
                       login_modal := login_modal (snd (apiCall (''/vm/'' @ sess_name session @ ''/'' @ action) outcome st))\<rparr>"
      by (subst apiCall_state) simp
    finally show ?thesis .
  qed
qed


theorem control_teardown_iff_success_witness:
  "map_of (consoleSessions both_example) ''console-1-a''
     = Some \<lparr> sess_id = ''console-1-a'', sess_name = ''vm1'', sess_type = ''vnc'',
              sess_port = Some 5901, sess_icon = None, sess_instance = Some 0 \<rparr>
   \<and> timers (api_settled (length (awaiting both_example))
        (HttpResponse 200 (BodyJson (JsonTruthy (Some ''success'') None)))
        (vncControl ''console-1-a'' ''stop'' both_example))
     = timers both_example @ [(2000, ''console-1-a'')]
   \<and> timers (api_settled (length (awaiting both_example))
        (HttpResponse 500 (BodyJson (JsonTruthy (Some ''error'') (Some ''boom''))))
        (vncControl ''console-1-a'' ''stop'' both_example))
     = timers both_example
   \<and> consoleSessions (api_settled (length (awaiting both_example))
        (HttpResponse 500 (BodyJson (JsonTruthy (Some ''error'') (Some ''boom''))))
        (vncControl ''console-1-a'' ''stop'' both_example))
     = consoleSessions both_example
   \<and> ui_status (api_settled (length (awaiting both_example))
        (HttpResponse 500 (BodyJson (JsonTruthy (Some ''error'') (Some ''boom''))))
        (vncControl ''console-1-a'' ''stop'' both_example))
     = ui_status both_example @ [(''API Error: boom'', ''error'')]
   \<and> map_of (consoleSessions both_example) ''console-2-b''
     = Some \<lparr> sess_id = ''console-2-b'', sess_name = ''lxc1'', sess_type = ''terminal'',
              sess_port = None, sess_icon = None, sess_instance = Some 0 \<rparr>
   \<and> timers (api_settled (length (awaiting both_example))
        (HttpResponse 200 (BodyJson (JsonTruthy (Some ''success'') None)))
        (terminalControl ''console-2-b'' ''destroy'' both_example))
     = timers both_example @ [(2000, ''console-2-b'')]
   \<and> timers (api_settled (length (awaiting both_example)) (FetchFailed ''Failed to fetch'')
        (terminalControl ''console-2-b'' ''destroy'' both_example))
     = timers both_example"
proof -
  let ?vs = "\<lparr> sess_id = ''console-1-a'', sess_name = ''vm1'', sess_type = ''vnc'',
              sess_port = Some 5901, sess_icon = None, sess_instance = Some 0 \<rparr>"
  let ?ts = "\<lparr> sess_id = ''console-2-b'', sess_name = ''lxc1'', sess_type = ''terminal'',
              sess_port = None, sess_icon = None, sess_instance = Some 0 \<rparr>"
  let ?good = "HttpResponse 200 (BodyJson (JsonTruthy (Some ''success'') None))"
  let ?bad = "HttpResponse 500 (BodyJson (JsonTruthy (Some ''error'') (Some ''boom'')))"
  let ?down = "FetchFailed ''Failed to fetch''"
  have v: "map_of (consoleSessions both_example) ''console-1-a'' = Some ?vs"
    by code_simp
  have t: "map_of (consoleSessions both_example) ''console-2-b'' = Some ?ts"
    by code_simp
  have ty: "sess_type ?vs = ''vnc''" "sess_type ?ts = ''terminal''" by simp_all
  have ok: "api_success (fst (apiCall (''/vm/'' @ sess_name ?vs @ ''/'' @ ''stop'') ?good both_example))
            \<and> (''stop'' = ''stop'' \<or> ''stop'' = ''destroy'')"
    "api_success (fst (apiCall (''/vm/'' @ sess_name ?ts @ ''/'' @ ''destroy'') ?good both_example))
            \<and> (''destroy'' = ''stop'' \<or> ''destroy'' = ''destroy'')"
    by (simp_all add: apiCall_def apiCall_reply_def api_success_def Let_def)
  have no: "\<not> api_success (fst (apiCall (''/vm/'' @ sess_name ?vs @ ''/'' @ ''stop'') ?bad both_example))"
    "\<not> api_success (fst (apiCall (''/vm/'' @ sess_name ?ts @ ''/'' @ ''destroy'') ?down both_example))"
    by (simp_all add: apiCall_def apiCall_reply_def api_success_def Let_def)
  have msg: "ui_status (snd (apiCall (''/vm/'' @ sess_name ?vs @ ''/'' @ ''stop'') ?bad both_example))
             = ui_status both_example @ [(''API Error: boom'', ''error'')]"
    by (simp add: apiCall_def apiCall_reply_def showStatus_def Let_def)
  note V1 = control_teardown_iff_success[OF v, of "''stop''" ?good, THEN conjunct1, THEN mp, OF ty(1)]
  note V2 = control_teardown_iff_success[OF v, of "''stop''" ?bad, THEN conjunct1, THEN mp, OF ty(1)]
  note T1 = control_teardown_iff_success[OF t, of "''destroy''" ?good, THEN conjunct2, THEN mp, OF ty(2)]
  note T2 = control_teardown_iff_success[OF t, of "''destroy''" ?down, THEN conjunct2, THEN mp, OF ty(2)]
  have 1: "timers (api_settled (length (awaiting both_example)) ?good
             (vncControl ''console-1-a'' ''stop'' both_example))
           = timers both_example @ [(2000, ''console-1-a'')]"
    using V1[THEN conjunct2, THEN conjunct1] by (simp only: ok simp_thms if_True)
  have 2: "timers (api_settled (length (awaiting both_example)) ?bad
             (vncControl ''console-1-a'' ''stop'' both_example))
           = timers both_example"
    using V2[THEN conjunct2, THEN conjunct1] by (simp only: no simp_thms if_False)
  have 3: "consoleSessions (api_settled (length (awaiting both_example)) ?bad
             (vncControl ''console-1-a'' ''stop'' both_example))
           = consoleSessions both_example"
    using V2 by blast
  have sel: "ui_status (s\<lparr>api_calls := a, ui_status := u, login_modal := l\<rparr>) = u"
    for s :: state and a u l
    by simp
  have "ui_status (api_settled (length (awaiting both_example)) ?bad
             (vncControl ''console-1-a'' ''stop'' both_example))
        = ui_status (snd (apiCall (''/vm/'' @ sess_name ?vs @ ''/'' @ ''stop'') ?bad both_example))"
    by (subst V2[THEN conjunct2, THEN conjunct2, THEN conjunct2, THEN conjunct2,
          THEN conjunct2, THEN conjunct2, THEN conjunct2, THEN mp, OF no(1)])
       (rule sel)
  then have 4: "ui_status (api_settled (length (awaiting both_example)) ?bad
             (vncControl ''console-1-a'' ''stop'' both_example))
        = ui_status both_example @ [(''API Error: boom'', ''error'')]"
    by (simp only: msg)
  have 5: "timers (api_settled (length (awaiting both_example)) ?good
             (terminalControl ''console-2-b'' ''destroy'' both_example))
           = timers both_example @ [(2000, ''console-2-b'')]"
    using T1[THEN conjunct2, THEN conjunct1] by (simp only: ok simp_thms if_True)
  have 6: "timers (api_settled (length (awaiting both_example)) ?down
             (terminalControl ''console-2-b'' ''destroy'' both_example))
           = timers both_example"
    using T2[THEN conjunct2, THEN conjunct1] by (simp only: no simp_thms if_False)
  show ?thesis
    by (intro conjI) (rule v 1 2 3 4 t 5 6)+
qed

subsection \<open>One session for a target, and the foreground after a close\<close>

lemma filter_distinct_le1: "distinct (map g xs) \<Longrightarrow> length (filter (\<lambda>x. g x = v) xs) \<le> 1"
proof (induction xs)
  case Nil
  then show ?case by simp
next
  case (Cons x xs)
  show ?case
  proof (cases "g x = v")
    case True
    with Cons.prems have "\<forall>y\<in>set xs. g y \<noteq> v" by (auto simp: image_iff)
    then have "filter (\<lambda>x. g x = v) xs = []" by (simp add: filter_empty_conv)
    with True show ?thesis by simp
  next
    case False
    with Cons show ?thesis by simp
  qed
qed

lemma reg_ok_sessions_for: "reg_ok st \<Longrightarrow> length (sessions_for name st) \<le> 1"
proof -
  assume "reg_ok st"
  then have "distinct (map snd (reg_keys st))" by (simp add: reg_ok_def REG_def)
  then have "distinct (map (\<lambda>p. sess_name (snd p)) (consoleSessions st))"
    by (simp add: reg_keys_def comp_def)
  then show ?thesis unfolding sessions_for_def by (rule filter_distinct_le1)
qed

lemma ok_tabs_for:
  assumes "reg_ok st" "tabs_ok st"
  shows "length (tabs_for name st) \<le> 1"
proof -
  from assms(1) have "inj_on snd (set (reg_keys st))"
    by (simp add: reg_ok_def REG_def distinct_map)
  moreover from assms(2) have "set (tab_keys st) \<subseteq> set (reg_keys st)"
    and "distinct (map fst (tab_keys st))"
    by (simp_all add: tabs_ok_def TABS_def)
  ultimately have "inj_on snd (set (tab_keys st))" "distinct (tab_keys st)"
    by (auto intro: inj_on_subset simp: distinct_map)
  then have "distinct (map snd (tab_keys st))" by (simp add: distinct_map)
  then have "distinct (map tab_name (tabs st))" by (simp add: tab_keys_def comp_def)
  then show ?thesis unfolding tabs_for_def by (rule filter_distinct_le1)
qed

lemma findSessionByName_present:
  assumes "name \<in> snd ` set (reg_keys st)"
  shows "\<exists>e. findSessionByName name st = Some e"
  using assms findSessionByName_None[of name st] by (cases "findSessionByName name st") auto

lemma reg_ok_found_nonempty:
  assumes "reg_ok st" "findSessionByName name st = Some e"
  shows "e \<noteq> []"
proof -
  from assms(2) have "(e, name) \<in> set (reg_keys st)" by (rule findSessionByName_Some)
  then have "e \<in> fst ` set (reg_keys st)" by (force simp: image_iff)
  with assms(1) show ?thesis by (force simp: reg_ok_def REG_def image_iff)
qed

lemma openConsole_has_target:
  assumes "reg_ok st"
  shows "name \<in> snd ` set (reg_keys (openConsole name ty port icon now rnd st))"
proof (cases "truthy_str (findSessionByName name st)")
  case True
  then obtain e where e: "findSessionByName name st = Some e" "e \<noteq> []"
    by (auto simp: truthy_str_def split: option.splits)
  then have "(e, name) \<in> set (reg_keys st)" by (auto dest: findSessionByName_Some)
  then show ?thesis using e by (force simp: openConsole_existing image_iff)
next
  case False
  have "(k, v) \<in> set (AList.update k v r)" for k v and r :: "(string \<times> string) list"
    by (induction r) auto
  then show ?thesis using False by (force simp: openConsole_new image_iff)
qed

text \<open>
  C1. Take any run of the page in which no generated identifier is that of a session
  still in the registry. At every moment each target has at most one session in the
  registry and at most one tab in the tab bar. After \<^verbatim>\<open>openConsole\<close> for a target there is
  exactly one session for it, and a second \<^verbatim>\<open>openConsole\<close> for the same target, whatever
  its other arguments, finds that session, leaves the registry and the tab bar as they
  are, and makes the session it found the foreground.
\<close>

theorem one_session_per_target:
  assumes "fresh_ids evs (init_state pg h)"
  shows "length (sessions_for name (run evs (init_state pg h))) \<le> 1
       \<and> length (tabs_for name (run evs (init_state pg h))) \<le> 1
       \<and> length (sessions_for name
            (openConsole name ty port icon now rnd (run evs (init_state pg h)))) = 1
       \<and> findSessionByName name (openConsole name ty port icon now rnd (run evs (init_state pg h)))
           \<noteq> None
       \<and> consoleSessions (openConsole name ty' port' icon' now' rnd'
            (openConsole name ty port icon now rnd (run evs (init_state pg h))))
         = consoleSessions (openConsole name ty port icon now rnd (run evs (init_state pg h)))
       \<and> map tab_sid (tabs (openConsole name ty' port' icon' now' rnd'
            (openConsole name ty port icon now rnd (run evs (init_state pg h)))))
         = map tab_sid (tabs (openConsole name ty port icon now rnd (run evs (init_state pg h))))
       \<and> activeSessionId (openConsole name ty' port' icon' now' rnd'
            (openConsole name ty port icon now rnd (run evs (init_state pg h))))
         = findSessionByName name
             (openConsole name ty port icon now rnd (run evs (init_state pg h)))"
proof -
  define st where "st = run evs (init_state pg h)"
  define first where "first = openConsole name ty port icon now rnd st"
  have ok: "reg_ok st" "tabs_ok st"
    unfolding st_def using ok_run[OF ok_init assms] by simp_all
  have 1: "length (sessions_for name st) \<le> 1" using ok(1) by (rule reg_ok_sessions_for)
  have 2: "length (tabs_for name st) \<le> 1" using ok by (rule ok_tabs_for)
  have okf: "reg_ok first" unfolding first_def using ok(1) by (rule reg_ok_openConsole)
  have mem: "name \<in> snd ` set (reg_keys first)"
    unfolding first_def using ok(1) by (rule openConsole_has_target)
  then obtain p where p: "p \<in> set (consoleSessions first)" "sess_name (snd p) = name"
    by (auto simp: reg_keys_def)
  then have "p \<in> set (sessions_for name first)" by (simp add: sessions_for_def)
  then have "0 < length (sessions_for name first)" by (auto simp: length_greater_0_conv)
  with reg_ok_sessions_for[OF okf, of name] have 3: "length (sessions_for name first) = 1"
    by linarith
  from findSessionByName_present[OF mem] obtain e where e: "findSessionByName name first = Some e"
    by blast
  with okf have "e \<noteq> []" by (rule reg_ok_found_nonempty)
  with e have second: "openConsole name ty' port' icon' now' rnd' first = switchToTab e first"
    by (rule openConsole_existing)
  have 4: "findSessionByName name first \<noteq> None" using e by simp
  have 5: "consoleSessions (openConsole name ty' port' icon' now' rnd' first) = consoleSessions first"
    unfolding second by simp
  have 6: "map tab_sid (tabs (openConsole name ty' port' icon' now' rnd' first))
           = map tab_sid (tabs first)"
    unfolding second by (simp add: switchToTab_def comp_def)
  have 7: "activeSessionId (openConsole name ty' port' icon' now' rnd' first)
           = findSessionByName name first"
    unfolding second e by simp
  from 1 2 3 4 5 6 7 show ?thesis unfolding first_def st_def by blast
qed


theorem one_session_per_target_witness:
  "fresh_ids
     [OpenConsole ''vm1'' ''vnc'' (Some 5901) None ''1'' ''a'', ClipboardSettled 0 False,
      RfbConnect 0, OpenConsole ''lxc1'' ''terminal'' None None ''2'' ''b'', SocketOpen 0]
     (init_state full_page True)
   \<and> length (sessions_for ''vm1'' both_example) \<le> 1
   \<and> length (tabs_for ''vm1'' both_example) \<le> 1
   \<and> length (sessions_for ''vm1''
        (openConsole ''vm1'' ''terminal'' None None ''3'' ''c'' both_example)) = 1
   \<and> consoleSessions (openConsole ''vm1'' ''vnc'' (Some 5902) None ''4'' ''d''
        (openConsole ''vm1'' ''terminal'' None None ''3'' ''c'' both_example))
     = consoleSessions (openConsole ''vm1'' ''terminal'' None None ''3'' ''c'' both_example)"
proof -
  have f: "fresh_ids
     [OpenConsole ''vm1'' ''vnc'' (Some 5901) None ''1'' ''a'', ClipboardSettled 0 False,
      RfbConnect 0, OpenConsole ''lxc1'' ''terminal'' None None ''2'' ''b'', SocketOpen 0]
     (init_state full_page True)"
    by code_simp
  from one_session_per_target[OF f, of "''vm1''" "''terminal''" None None "''3''" "''c''"
      "''vnc''" "Some 5902" None "''4''" "''d''"]
  show ?thesis using f unfolding both_example_def by blast
qed

lemma delete_distinct_length:
  "distinct (map fst xs) \<Longrightarrow> length xs \<le> Suc (length (AList.delete k xs))"
proof (induction xs)
  case Nil
  then show ?case by simp
next
  case (Cons x xs)
  show ?case
  proof (cases "fst x = k")
    case True
    with Cons.prems have "k \<notin> fst ` set xs" by simp
    then have "AList.delete k xs = xs" by simp
    with True show ?thesis by simp
  next
    case False
    with Cons show ?thesis by simp
  qed
qed

lemma page_of_closeTab [simp]: "page_of (closeTab k st) = page_of st"
  by (simp add: closeTab_def Let_def cleanupVncSession_def cleanupTerminalSession_def
      split: option.splits list.splits)

lemma page_of_openConsole [simp]: "page_of (openConsole name ty port icon now rnd st) = page_of st"
proof (cases "truthy_str (findSessionByName name st)")
  case True
  then obtain e where "findSessionByName name st = Some e" "e \<noteq> []"
    by (auto simp: truthy_str_def split: option.splits)
  then show ?thesis by (simp add: openConsole_existing)
next
  case False
  define k where "k = ''console-'' @ now @ ''-'' @ rnd"
  from openConsole_new_unfold[OF False, of ty port icon now rnd]
  obtain st4 where f: "page_of st4 = page_of st"
    and o: "openConsole name ty port icon now rnd st =
               (if ty = ''vnc'' then initVncSession k name port st4
                else if ty = ''terminal'' then initTerminalSession k name st4 else st4)"
    unfolding k_def by blast
  show ?thesis unfolding o using f by simp
qed

lemma page_of_step [simp]: "page_of (step e st) = page_of st"
  by (cases e) (simp_all add: timer_fired_def rfb_ondisconnect_def Let_def)

lemma page_of_run [simp]: "page_of (run evs st) = page_of st"
  by (induction evs arbitrary: st) simp_all

lemma delete_filter: "AList.delete k xs = filter (\<lambda>p. fst p \<noteq> k) xs"
  by (induction xs) auto

lemma keys_distinct: "reg_ok st \<Longrightarrow> distinct (map fst (consoleSessions st))"
  by (simp add: reg_ok_def REG_def reg_keys_def comp_def)

lemma active_in_registry:
  assumes "tabs_ok st" "activeSessionId st = Some k"
  shows "map_of (consoleSessions st) k \<noteq> None"
  using assms by (simp add: tabs_ok_def TABS_def key_in_reg)

lemma closeTab_last:
  assumes "consoleSessions st = [(k, s)]" "activeSessionId st = Some k"
  shows "consoleSessions (closeTab k st) = []"
    and "activeSessionId (closeTab k st) = None"
    and "has_viewer (page_of st) \<longrightarrow> viewer_hidden (closeTab k st)"
  using assms
  by (simp_all add: closeTab_def Let_def cleanupVncSession_def cleanupTerminalSession_def)

text \<open>
  C5. Take any run of the page in which no generated identifier is that of a session
  still in the registry, and close a session in the state it reaches. If the session is
  the foreground and the registry has more than one session, the registry keeps the
  other sessions in their order and the first of them becomes the foreground; a session
  that is opened enters the registry at the end, so the first is the oldest. If the
  session is the only one, the registry becomes empty, there is no foreground, and the
  console viewer is hidden. If the session is not the foreground, the foreground stays.
\<close>

theorem closeTab_foreground:
  assumes "fresh_ids evs (init_state pg h)"
  shows "(activeSessionId (run evs (init_state pg h)) = Some sessionId
          \<and> 1 < length (consoleSessions (run evs (init_state pg h))) \<longrightarrow>
            consoleSessions (closeTab sessionId (run evs (init_state pg h)))
              = filter (\<lambda>p. fst p \<noteq> sessionId) (consoleSessions (run evs (init_state pg h)))
          \<and> (case consoleSessions (closeTab sessionId (run evs (init_state pg h))) of
                [] \<Rightarrow> False
              | p # rest \<Rightarrow>
                  activeSessionId (closeTab sessionId (run evs (init_state pg h))) = Some (fst p)))
       \<and> (map fst (consoleSessions (run evs (init_state pg h))) = [sessionId] \<longrightarrow>
            consoleSessions (closeTab sessionId (run evs (init_state pg h))) = []
          \<and> activeSessionId (closeTab sessionId (run evs (init_state pg h))) = None
          \<and> (has_viewer pg \<longrightarrow> viewer_hidden (closeTab sessionId (run evs (init_state pg h)))))
       \<and> (activeSessionId (run evs (init_state pg h)) \<noteq> Some sessionId \<longrightarrow>
            activeSessionId (closeTab sessionId (run evs (init_state pg h)))
              = activeSessionId (run evs (init_state pg h)))
       \<and> (findSessionByName name (run evs (init_state pg h)) = None
          \<and> map_of (consoleSessions (run evs (init_state pg h))) (''console-'' @ now @ ''-'' @ rnd) = None
          \<longrightarrow>
            map fst (consoleSessions (openConsole name ty port icon now rnd (run evs (init_state pg h))))
              = map fst (consoleSessions (run evs (init_state pg h))) @ [''console-'' @ now @ ''-'' @ rnd])"
proof -
  define st where "st = run evs (init_state pg h)"
  have ok: "reg_ok st" "tabs_ok st"
    unfolding st_def using ok_run[OF ok_init assms] by simp_all
  have pg: "page_of st = pg"
    unfolding st_def by (simp add: init_state_def)
  have a: "consoleSessions (closeTab sessionId st)
              = filter (\<lambda>p. fst p \<noteq> sessionId) (consoleSessions st)
          \<and> (case consoleSessions (closeTab sessionId st) of
                [] \<Rightarrow> False
              | p # rest \<Rightarrow> activeSessionId (closeTab sessionId st) = Some (fst p))"
    if act: "activeSessionId st = Some sessionId" and n: "1 < length (consoleSessions st)"
  proof -
    have del: "consoleSessions (closeTab sessionId st) = AList.delete sessionId (consoleSessions st)"
      by (rule consoleSessions_closeTab)
    have "length (consoleSessions st) \<le> Suc (length (AList.delete sessionId (consoleSessions st)))"
      using keys_distinct[OF ok(1)] by (rule delete_distinct_length)
    with n have ne: "AList.delete sessionId (consoleSessions st) \<noteq> []" by auto
    have inreg: "map_of (consoleSessions st) sessionId \<noteq> None"
      using ok(2) act by (rule active_in_registry)
    have "activeSessionId (closeTab sessionId st)
          = (case AList.delete sessionId (consoleSessions st) of [] \<Rightarrow> None
             | p # rest \<Rightarrow> Some (fst p))"
      using inreg act by (simp add: active_closeTab)
    with ne del show ?thesis
      unfolding delete_filter by (auto split: list.splits)
  qed
  have b: "consoleSessions (closeTab sessionId st) = []
          \<and> activeSessionId (closeTab sessionId st) = None
          \<and> (has_viewer pg \<longrightarrow> viewer_hidden (closeTab sessionId st))"
    if one: "map fst (consoleSessions st) = [sessionId]"
  proof -
    from one obtain s where cs: "consoleSessions st = [(sessionId, s)]"
      by (cases "consoleSessions st") auto
    then have "reg_keys st \<noteq> []" "fst ` set (reg_keys st) = {sessionId}"
      by (simp_all add: reg_keys_def)
    with ok(2) have act: "activeSessionId st = Some sessionId"
      by (auto simp: tabs_ok_def TABS_def split: option.splits)
    from closeTab_last[OF cs act] pg show ?thesis by simp
  qed
  have c: "activeSessionId (closeTab sessionId st) = activeSessionId st"
    if "activeSessionId st \<noteq> Some sessionId"
    using that by (simp add: active_closeTab)
  have d: "map fst (consoleSessions (openConsole name ty port icon now rnd st))
              = map fst (consoleSessions st) @ [''console-'' @ now @ ''-'' @ rnd]"
    if none: "findSessionByName name st = None"
      and fresh: "map_of (consoleSessions st) (''console-'' @ now @ ''-'' @ rnd) = None"
  proof -
    from none have "\<not> truthy_str (findSessionByName name st)" by (simp add: truthy_str_def)
    then have "reg_keys (openConsole name ty port icon now rnd st)
           = AList.update (''console-'' @ now @ ''-'' @ rnd) name (reg_keys st)"
      by (rule openConsole_new)
    moreover from fresh have "(''console-'' @ now @ ''-'' @ rnd) \<notin> fst ` set (reg_keys st)"
      by (simp add: key_in_reg)
    ultimately have "reg_keys (openConsole name ty port icon now rnd st)
           = reg_keys st @ [(''console-'' @ now @ ''-'' @ rnd, name)]"
      by (simp add: update_append)
    then have "map fst (reg_keys (openConsole name ty port icon now rnd st))
           = map fst (reg_keys st) @ [''console-'' @ now @ ''-'' @ rnd]"
      by simp
    then show ?thesis by (simp add: reg_keys_def comp_def)
  qed
  from a b c d show ?thesis unfolding st_def by blast
qed

theorem closeTab_foreground_witness:
  "activeSessionId both_example = Some ''console-2-b''
   \<and> map fst (consoleSessions both_example) = [''console-1-a'', ''console-2-b'']
   \<and> activeSessionId (closeTab ''console-2-b'' both_example) = Some ''console-1-a''
   \<and> activeSessionId (closeTab ''console-1-a'' both_example) = Some ''console-2-b''
   \<and> map fst (consoleSessions text_example) = [''console-1-a'']
   \<and> consoleSessions (closeTab ''console-1-a'' text_example) = []
   \<and> activeSessionId (closeTab ''console-1-a'' text_example) = None
   \<and> viewer_hidden (closeTab ''console-1-a'' text_example)"
proof -
  have fb: "fresh_ids
     [OpenConsole ''vm1'' ''vnc'' (Some 5901) None ''1'' ''a'', ClipboardSettled 0 False,
      RfbConnect 0, OpenConsole ''lxc1'' ''terminal'' None None ''2'' ''b'', SocketOpen 0]
     (init_state full_page True)"
    by code_simp
  have ft: "fresh_ids [OpenConsole ''lxc1'' ''terminal'' None None ''1'' ''a'', SocketOpen 0]
     (init_state full_page True)"
    by code_simp
  have act: "activeSessionId both_example = Some ''console-2-b''" by code_simp
  have keys: "map fst (consoleSessions both_example) = [''console-1-a'', ''console-2-b'']"
    by code_simp
  have len: "1 < length (consoleSessions both_example)" by code_simp
  have rest: "map fst (consoleSessions (closeTab ''console-2-b'' both_example)) = [''console-1-a'']"
    by code_simp
  have nact: "activeSessionId both_example \<noteq> Some ''console-1-a''" unfolding act by simp
  have one: "map fst (consoleSessions text_example) = [''console-1-a'']" by code_simp
  have hv: "has_viewer full_page" by (simp add: full_page_def)
  note b = closeTab_foreground[OF fb, folded both_example_def]
  note t = closeTab_foreground[OF ft, folded text_example_def]
  from b[of "''console-2-b''"] act len
  have "case consoleSessions (closeTab ''console-2-b'' both_example) of [] \<Rightarrow> False
        | p # rest \<Rightarrow> activeSessionId (closeTab ''console-2-b'' both_example) = Some (fst p)"
    by blast
  with rest have 1: "activeSessionId (closeTab ''console-2-b'' both_example) = Some ''console-1-a''"
    by (cases "consoleSessions (closeTab ''console-2-b'' both_example)") auto
  from b[of "''console-1-a''"] nact act
  have 2: "activeSessionId (closeTab ''console-1-a'' both_example) = Some ''console-2-b''"
    by metis
  note t2 = t[of "''console-1-a''", THEN conjunct2, THEN conjunct1, THEN mp, OF one]
  from t2 hv
  have "consoleSessions (closeTab ''console-1-a'' text_example) = []
      \<and> activeSessionId (closeTab ''console-1-a'' text_example) = None
      \<and> viewer_hidden (closeTab ''console-1-a'' text_example)"
    by (simp only: simp_thms)
  then have 3: "consoleSessions (closeTab ''console-1-a'' text_example) = []"
    and 4: "activeSessionId (closeTab ''console-1-a'' text_example) = None"
    and 5: "viewer_hidden (closeTab ''console-1-a'' text_example)"
    by blast+
  show ?thesis
    by (intro conjI) (rule act keys 1 2 one 3 4 5)+
qed

end
